theory Spec2Isabelle
  imports Complex_Main
begin

section \<open>Configuration (src/config/animations.js)\<close>

text \<open>
  JavaScript numbers are modelled as real numbers: the arithmetic of the sprite code
  (sums, differences, comparisons, \<open>Math.min\<close>) is read over the reals, without
  rounding, NaN or overflow.

  \<open>RABBIT_CONFIG\<close> as the configuration file declares it. The fields that the unscaled
  sprite, the jump and the cooldown use are there; the fields \<open>scale\<close> and
  \<open>jumpCooldown\<close> carry a suffix because the sprite has fields of the same name.
\<close>

record rabbit_config =
  width :: real
  height :: real
  scale_cfg :: real
  frameCount :: nat
  spawnDuration :: real
  jumpDuration :: real
  jumpCooldown_cfg :: real
  jumpDistance :: real
  mouseThreshold :: real

definition RABBIT_CONFIG :: rabbit_config where
  "RABBIT_CONFIG =
     \<lparr> width = 32, height = 64, scale_cfg = 4, frameCount = 17,
       spawnDuration = 750, jumpDuration = 1100, jumpCooldown_cfg = 100,
       jumpDistance = 300, mouseThreshold = 150 \<rparr>"

text \<open>
  \<open>Rabbit.updateGlow\<close> and the click handler read seven more fields of
  \<open>RABBIT_CONFIG\<close> that the configuration file does not declare. They are a parameter
  of every function that reads them.
\<close>

record glow_config =
  glowRange :: real
  maxProximityGlow :: real
  maxProximitySpread :: real
  glowExponent :: real
  clickRadius :: real
  glowBoostPerClick :: real
  maxPermanentGlow :: real

section \<open>The page: sprite, rabbit and the browser state they touch\<close>

datatype container = DocumentBody | Container nat

datatype event_target = Document

text \<open>
  The callback a caller chains on the promise of \<open>jump()\<close> with \<open>.then\<close>: the mouse
  handler chains the cooldown, a direct caller is not modelled further.
\<close>

datatype then_callback = NoCallback | StartCooldown

datatype promise = Fulfilled | Pending

text \<open>
  Closures. Each carries the identity it got when it was created (a fresh number) and
  the variables it captured: \<open>onJumpEnd\<close> captures \<open>direction\<close>, \<open>isFirstJump\<close>
  and \<open>resolve\<close> (here: what is chained on the promise); the mouse handler captures
  \<open>threshold\<close>.
\<close>

datatype animation_listener = OnSpawnEnd nat | OnJumpEnd nat real bool then_callback

datatype handler = EarlyMouseHandler nat | MouseHandler nat real | ClickHandler nat

datatype timer_callback = ClearCooldown

text \<open>The result of \<open>getDistanceToBottomCenter\<close>: a number, or \<open>Infinity\<close>.\<close>

datatype distance = Finite real | Infinity

fun distance_less :: "distance \<Rightarrow> real \<Rightarrow> bool" where
  "distance_less (Finite d) r = (d < r)"
| "distance_less Infinity r = False"

text \<open>
  The DOM element of the sprite: its class list, its parent, the style properties the
  code writes, and the listeners of \<open>animationend\<close> registered on it.
\<close>

record dom_element =
  classList :: "string list"
  parentNode :: "container option"
  style_left :: "real option"
  style_top :: "real option"
  jump_direction :: "real option"
  crt_glow_intensity :: "real option"
  crt_glow_spread :: "real option"
  animationend :: "animation_listener list"

record sprite =
  element :: "dom_element option"
  x :: real
  y :: real
  scale :: real
  eventHandlers :: "(event_target \<times> string \<times> handler) list"
  timers :: "nat list"
  isDestroyed :: bool

record rabbit = sprite +
  isSpawning :: bool
  isJumping :: bool
  jumpCooldown :: bool
  isFirstJump :: bool
  colorRevealed :: bool
  lastDirection :: real
  permanentGlowBonus :: real
  lastMouseX :: "real option"
  lastMouseY :: "real option"
  glowAnimationId :: "nat option"
  mouseHandler :: "handler option"
  clickHandler :: "handler option"
  earlyMouseHandler :: "handler option"

text \<open>
  The browser state the rabbit reads and writes: the listeners registered on
  \<open>document\<close>, the pending timeouts, the pending animation-frame requests and the
  counter that hands out identities (timeout ids, frame ids, closures).
\<close>

record page = rabbit +
  listeners :: "(event_target \<times> string \<times> handler) list"
  pendingTimers :: "(nat \<times> timer_callback) list"
  pendingFrames :: "nat list"
  nextId :: nat

text \<open>
  What the browser supplies when a piece of code runs: the viewport, the rendered
  bounding box of the element (it follows the CSS animation, not the stored position)
  and the next value of \<open>Math.random()\<close>.
\<close>

record rect =
  rect_left :: real
  rect_width :: real
  rect_bottom :: real

record env =
  innerWidth :: real
  innerHeight :: real
  boundingClientRect :: rect
  Math_random :: real

record options =
  opt_x :: "real option"
  opt_y :: "real option"
  opt_scale :: "real option"

section \<open>Sprite (src/components/Sprite.js)\<close>

definition construct :: "options \<Rightarrow> page" where
  "construct opts =
     \<lparr> element = None,
       x = (case opt_x opts of None \<Rightarrow> 0 | Some v \<Rightarrow> v),
       y = (case opt_y opts of None \<Rightarrow> 0 | Some v \<Rightarrow> v),
       scale = (case opt_scale opts of None \<Rightarrow> scale_cfg RABBIT_CONFIG | Some v \<Rightarrow> v),
       eventHandlers = [], timers = [], isDestroyed = False,
       isSpawning = True, isJumping = False, jumpCooldown = False, isFirstJump = True,
       colorRevealed = False, lastDirection = - 1, permanentGlowBonus = 0,
       lastMouseX = None, lastMouseY = None, glowAnimationId = None,
       mouseHandler = None, clickHandler = None, earlyMouseHandler = None,
       listeners = [], pendingTimers = [], pendingFrames = [], nextId = 1 \<rparr>"

text \<open>
  Code that writes to \<open>this.element\<close>. Where the source guards the write with
  \<open>if (!this.element) return\<close> this is the guard; the unguarded writes (in
  \<open>spawnAndDrop\<close> after \<open>spawn\<close>, in \<open>jump\<close> after its guard, in the two
  \<open>animationend\<close> listeners, which only the element they are registered on invokes)
  run with an element.
\<close>

definition map_element :: "(dom_element \<Rightarrow> dom_element) \<Rightarrow> page \<Rightarrow> page" where
  "map_element f s = s\<lparr>element := map_option f (element s)\<rparr>"

definition classList_add :: "string \<Rightarrow> dom_element \<Rightarrow> dom_element" where
  "classList_add c el =
     (if c \<in> set (classList el) then el else el\<lparr>classList := classList el @ [c]\<rparr>)"

definition classList_remove :: "string \<Rightarrow> dom_element \<Rightarrow> dom_element" where
  "classList_remove c el = el\<lparr>classList := removeAll c (classList el)\<rparr>"

definition element_addEventListener :: "animation_listener \<Rightarrow> dom_element \<Rightarrow> dom_element" where
  "element_addEventListener l el =
     (if l \<in> set (animationend el) then el else el\<lparr>animationend := animationend el @ [l]\<rparr>)"

definition element_removeEventListener :: "animation_listener \<Rightarrow> dom_element \<Rightarrow> dom_element" where
  "element_removeEventListener l el = el\<lparr>animationend := removeAll l (animationend el)\<rparr>"

definition document_addEventListener :: "string \<Rightarrow> handler \<Rightarrow> page \<Rightarrow> page" where
  "document_addEventListener ev h s =
     (if (Document, ev, h) \<in> set (listeners s) then s
      else s\<lparr>listeners := listeners s @ [(Document, ev, h)]\<rparr>)"

definition target_removeEventListener :: "event_target \<times> string \<times> handler \<Rightarrow> page \<Rightarrow> page" where
  "target_removeEventListener l s = s\<lparr>listeners := removeAll l (listeners s)\<rparr>"

definition createElement :: dom_element where
  "createElement =
     \<lparr> classList = [''rabbit'', ''spawning'', ''flipped''], parentNode = None,
       style_left = None, style_top = None, jump_direction = None,
       crt_glow_intensity = None, crt_glow_spread = None, animationend = [] \<rparr>"

definition updatePosition :: "page \<Rightarrow> page" where
  "updatePosition s =
     map_element (\<lambda>el. el\<lparr>style_left := Some (x s), style_top := Some (y s)\<rparr>) s"

definition spawn :: "container \<Rightarrow> page \<Rightarrow> page" where
  "spawn parent s =
     (if element s \<noteq> None then s
      else map_element (\<lambda>el. el\<lparr>parentNode := Some parent\<rparr>)
             (updatePosition (s\<lparr>element := Some createElement\<rparr>)))"

definition setPosition :: "real \<Rightarrow> real \<Rightarrow> page \<Rightarrow> page" where
  "setPosition x0 y0 s = updatePosition (s\<lparr>x := x0, y := y0\<rparr>)"

text \<open>\<open>Sprite.addEventListener\<close>, as the rabbit calls it: on \<open>document\<close>, without options.\<close>

definition addEventListener :: "event_target \<Rightarrow> string \<Rightarrow> handler \<Rightarrow> page \<Rightarrow> page" where
  "addEventListener target ev h s =
     (document_addEventListener ev h s)\<lparr>eventHandlers := eventHandlers s @ [(target, ev, h)]\<rparr>"

text \<open>\<open>Sprite.setTimeout\<close>: the browser's timeout is pending, its id is tracked.\<close>

definition setTimeout :: "timer_callback \<Rightarrow> real \<Rightarrow> page \<Rightarrow> page" where
  "setTimeout cb delay s =
     s\<lparr>pendingTimers := pendingTimers s @ [(nextId s, cb)],
       timers := timers s @ [nextId s],
       nextId := Suc (nextId s)\<rparr>"

definition clearTimeout :: "nat \<Rightarrow> page \<Rightarrow> page" where
  "clearTimeout i s = s\<lparr>pendingTimers := filter (\<lambda>p. fst p \<noteq> i) (pendingTimers s)\<rparr>"

definition Sprite_destroy :: "page \<Rightarrow> page" where
  "Sprite_destroy s =
     (if isDestroyed s then s
      else
        (fold clearTimeout (timers s)
           ((fold target_removeEventListener (eventHandlers s) (s\<lparr>isDestroyed := True\<rparr>))
              \<lparr>eventHandlers := []\<rparr>))
          \<lparr>timers := [], element := None\<rparr>)"

section \<open>Rabbit (src/components/Rabbit.js)\<close>

subsection \<open>The glow\<close>

text \<open>
  \<open>if (this.glowAnimationId)\<close>: \<open>null\<close> and the number 0 are falsy.
\<close>

definition glowAnimationRunning :: "page \<Rightarrow> bool" where
  "glowAnimationRunning s = (case glowAnimationId s of None \<Rightarrow> False | Some i \<Rightarrow> i \<noteq> 0)"

definition requestAnimationFrame :: "page \<Rightarrow> page" where
  "requestAnimationFrame s =
     s\<lparr>glowAnimationId := Some (nextId s),
       pendingFrames := pendingFrames s @ [nextId s],
       nextId := Suc (nextId s)\<rparr>"

definition startGlowAnimation :: "page \<Rightarrow> page" where
  "startGlowAnimation s = (if glowAnimationRunning s then s else requestAnimationFrame s)"

definition stopGlowAnimation :: "page \<Rightarrow> page" where
  "stopGlowAnimation s =
     (if glowAnimationRunning s
      then s\<lparr>pendingFrames := removeAll (the (glowAnimationId s)) (pendingFrames s),
             glowAnimationId := None\<rparr>
      else s)"

definition getDistanceToBottomCenter :: "env \<Rightarrow> real \<Rightarrow> real \<Rightarrow> page \<Rightarrow> distance" where
  "getDistanceToBottomCenter e clientX clientY s =
     (if element s = None then Infinity
      else
        let rabbitBottomX = rect_left (boundingClientRect e) + rect_width (boundingClientRect e) / 2;
            rabbitBottomY = rect_bottom (boundingClientRect e);
            dx = clientX - rabbitBottomX;
            dy = clientY - rabbitBottomY
        in Finite (sqrt (dx * dx + dy * dy)))"

text \<open>
  \<open>Math.pow\<close> on a positive base. \<open>updateGlow\<close> calls it with
  \<open>1 - distance / glowRange\<close> under \<open>distance < glowRange\<close>; a distance is a square
  root, so it is not negative and the base lies in \<open>(0, 1]\<close>.
\<close>

definition Math_pow :: "real \<Rightarrow> real \<Rightarrow> real" where
  "Math_pow b e = b powr e"

definition proximityFactor :: "glow_config \<Rightarrow> distance \<Rightarrow> real" where
  "proximityFactor cfg distance =
     (case distance of
        Infinity \<Rightarrow> 0
      | Finite d \<Rightarrow>
          if d < glowRange cfg then Math_pow (1 - d / glowRange cfg) (glowExponent cfg) else 0)"

definition updateGlow :: "glow_config \<Rightarrow> distance \<Rightarrow> page \<Rightarrow> page" where
  "updateGlow cfg distance s =
     map_element
       (\<lambda>el. el\<lparr>crt_glow_intensity :=
                  Some (1 + proximityFactor cfg distance * maxProximityGlow cfg + permanentGlowBonus s),
                crt_glow_spread :=
                  Some (1 + proximityFactor cfg distance * maxProximitySpread cfg)\<rparr>) s"

definition updateGlowFromStoredPosition :: "glow_config \<Rightarrow> env \<Rightarrow> page \<Rightarrow> page" where
  "updateGlowFromStoredPosition cfg e s =
     (case (lastMouseX s, lastMouseY s) of
        (Some mx, Some my) \<Rightarrow> updateGlow cfg (getDistanceToBottomCenter e mx my s) s
      | _ \<Rightarrow> s)"

text \<open>The frame callback \<open>animate\<close> of \<open>startGlowAnimation\<close>.\<close>

definition animate :: "glow_config \<Rightarrow> env \<Rightarrow> page \<Rightarrow> page" where
  "animate cfg e s = requestAnimationFrame (updateGlowFromStoredPosition cfg e s)"

subsection \<open>Spawning\<close>

definition spawnAndDrop :: "real \<Rightarrow> real \<Rightarrow> container \<Rightarrow> page \<Rightarrow> page" where
  "spawnAndDrop x0 y0 parent s =
     (let s1 = updatePosition
                 (map_element (classList_add ''crt-effects'') (spawn parent (s\<lparr>x := x0, y := y0\<rparr>)));
          early = EarlyMouseHandler (nextId s1);
          s2 = document_addEventListener ''mousemove'' early
                 (s1\<lparr>earlyMouseHandler := Some early, nextId := Suc (nextId s1)\<rparr>);
          s3 = startGlowAnimation s2
      in map_element (element_addEventListener (OnSpawnEnd (nextId s3)))
           (s3\<lparr>nextId := Suc (nextId s3)\<rparr>))"

definition onSpawnEnd :: "nat \<Rightarrow> string \<Rightarrow> env \<Rightarrow> page \<Rightarrow> page" where
  "onSpawnEnd i animationName e s =
     (if animationName \<noteq> ''rabbit-spawn-drop'' then s
      else
        let s1 = stopGlowAnimation (map_element (element_removeEventListener (OnSpawnEnd i)) s);
            s2 = map_element (classList_remove ''spawning'') (s1\<lparr>isSpawning := False\<rparr>)
        in updatePosition (s2\<lparr>y := innerHeight e - height RABBIT_CONFIG * scale s2\<rparr>))"

subsection \<open>Jumping\<close>

definition edgeMargin :: real where
  "edgeMargin = 20"

definition canGoLeft :: "page \<Rightarrow> bool" where
  "canGoLeft s \<longleftrightarrow> x s - jumpDistance RABBIT_CONFIG \<ge> edgeMargin"

definition canGoRight :: "env \<Rightarrow> page \<Rightarrow> bool" where
  "canGoRight e s \<longleftrightarrow>
     x s + jumpDistance RABBIT_CONFIG + width RABBIT_CONFIG * scale s \<le> innerWidth e - edgeMargin"

text \<open>
  \<open>resolve()\<close>: the promise of \<open>jump()\<close> is fulfilled and the callback chained on it
  runs (as a microtask, before any other event is handled). For the mouse handler that
  callback sets the cooldown flag and schedules its reset.
\<close>

definition resolve :: "then_callback \<Rightarrow> page \<Rightarrow> page" where
  "resolve k s =
     (case k of
        NoCallback \<Rightarrow> s
      | StartCooldown \<Rightarrow>
          setTimeout ClearCooldown (jumpCooldown_cfg RABBIT_CONFIG) (s\<lparr>jumpCooldown := True\<rparr>))"

text \<open>
  The part of \<open>jump()\<close> after the direction is chosen (from \<open>this.lastDirection =
  direction\<close> on): the promise stays pending, \<open>onJumpEnd\<close> is registered.
\<close>

definition startJump :: "real \<Rightarrow> bool \<Rightarrow> then_callback \<Rightarrow> page \<Rightarrow> promise \<times> page" where
  "startJump direction first k s =
     (let s1 = map_element (\<lambda>el. el\<lparr>jump_direction := Some direction\<rparr>)
                 (s\<lparr>lastDirection := direction\<rparr>);
          s2 = map_element
                 (if direction = - 1 then classList_add ''flipped'' else classList_remove ''flipped'') s1;
          s3 = map_element (classList_add ''jumping'') (map_element (classList_remove ''jumping'') s2);
          s4 = startGlowAnimation s3
      in (Pending,
          map_element (element_addEventListener (OnJumpEnd (nextId s4) direction first k))
            (s4\<lparr>nextId := Suc (nextId s4)\<rparr>)))"

definition jump :: "then_callback \<Rightarrow> env \<Rightarrow> page \<Rightarrow> promise \<times> page" where
  "jump k e s =
     (if element s = None \<or> isSpawning s then (Fulfilled, resolve k s)
      else if isFirstJump s then
        startJump (if canGoRight e s then - 1 else 1) True k
          (map_element (classList_add ''color-fade'') (s\<lparr>isFirstJump := False\<rparr>))
      else if \<not> canGoLeft s \<and> \<not> canGoRight e s then
        (Fulfilled, resolve k (s\<lparr>isJumping := False\<rparr>))
      else if \<not> canGoLeft s then startJump (- 1) False k s
      else if \<not> canGoRight e s then startJump 1 False k s
      else
        startJump (if Math_random e < 1 / 3 then - lastDirection s else lastDirection s) False k s)"

definition onJumpEnd ::
  "nat \<Rightarrow> real \<Rightarrow> bool \<Rightarrow> then_callback \<Rightarrow> string \<Rightarrow> page \<Rightarrow> page" where
  "onJumpEnd i direction first k animationName s =
     (if animationName \<noteq> ''rabbit-jump-sprite'' then s
      else
        let s1 = map_element (element_removeEventListener (OnJumpEnd i direction first k)) s;
            s2 = updatePosition (s1\<lparr>x := x s1 - jumpDistance RABBIT_CONFIG * direction\<rparr>);
            s3 = stopGlowAnimation (map_element (classList_remove ''jumping'') s2);
            s4 = (if first
                  then (map_element (classList_add ''color-revealed'')
                          (map_element (classList_remove ''color-fade'') s3))
                         \<lparr>colorRevealed := True\<rparr>
                  else s3)
        in resolve k (s4\<lparr>isJumping := False\<rparr>))"

subsection \<open>Mouse reaction\<close>

definition earlyMouseHandler_body :: "real \<Rightarrow> real \<Rightarrow> page \<Rightarrow> page" where
  "earlyMouseHandler_body clientX clientY s =
     s\<lparr>lastMouseX := Some clientX, lastMouseY := Some clientY\<rparr>"

definition mouseHandler_body ::
  "glow_config \<Rightarrow> real \<Rightarrow> env \<Rightarrow> real \<Rightarrow> real \<Rightarrow> page \<Rightarrow> page" where
  "mouseHandler_body cfg threshold e clientX clientY s =
     (let s1 = s\<lparr>lastMouseX := Some clientX, lastMouseY := Some clientY\<rparr>;
          distance = getDistanceToBottomCenter e clientX clientY s1;
          s2 = (if \<not> glowAnimationRunning s1 then updateGlow cfg distance s1 else s1)
      in if isSpawning s2 \<or> isJumping s2 \<or> jumpCooldown s2 then s2
         else if distance_less distance threshold
         then snd (jump StartCooldown e (s2\<lparr>isJumping := True\<rparr>))
         else s2)"

definition clickHandler_body :: "glow_config \<Rightarrow> env \<Rightarrow> real \<Rightarrow> real \<Rightarrow> page \<Rightarrow> page" where
  "clickHandler_body cfg e clientX clientY s =
     (let distance = getDistanceToBottomCenter e clientX clientY s
      in if distance_less distance (clickRadius cfg)
         then updateGlow cfg distance
                (s\<lparr>permanentGlowBonus :=
                     min (permanentGlowBonus s + glowBoostPerClick cfg) (maxPermanentGlow cfg)\<rparr>)
         else s)"

definition removeEarlyMouseHandler :: "page \<Rightarrow> page" where
  "removeEarlyMouseHandler s =
     (case earlyMouseHandler s of
        None \<Rightarrow> s
      | Some h \<Rightarrow>
          (target_removeEventListener (Document, ''mousemove'', h) s)\<lparr>earlyMouseHandler := None\<rparr>)"

definition enableMouseReaction :: "real option \<Rightarrow> page \<Rightarrow> page" where
  "enableMouseReaction threshold s =
     (if element s = None then s
      else
        let s1 = removeEarlyMouseHandler s;
            mh = MouseHandler (nextId s1)
                   (case threshold of None \<Rightarrow> mouseThreshold RABBIT_CONFIG | Some t \<Rightarrow> t);
            ch = ClickHandler (Suc (nextId s1));
            s2 = s1\<lparr>mouseHandler := Some mh, clickHandler := Some ch,
                    nextId := Suc (Suc (nextId s1))\<rparr>
        in addEventListener Document ''click'' ch (addEventListener Document ''mousemove'' mh s2))"

definition forgetHandler :: "string \<Rightarrow> handler \<Rightarrow> page \<Rightarrow> page" where
  "forgetHandler ev h s =
     (target_removeEventListener (Document, ev, h) s)
       \<lparr>eventHandlers := filter (\<lambda>t. snd (snd t) \<noteq> h) (eventHandlers s)\<rparr>"

definition disableMouseReaction :: "page \<Rightarrow> page" where
  "disableMouseReaction s =
     (let s1 = removeEarlyMouseHandler (stopGlowAnimation s);
          s2 = (case mouseHandler s1 of
                  None \<Rightarrow> s1
                | Some h \<Rightarrow> (forgetHandler ''mousemove'' h s1)\<lparr>mouseHandler := None\<rparr>)
      in case clickHandler s2 of
           None \<Rightarrow> s2
         | Some h \<Rightarrow> (forgetHandler ''click'' h s2)\<lparr>clickHandler := None\<rparr>)"

definition destroy :: "page \<Rightarrow> page" where
  "destroy s = Sprite_destroy (disableMouseReaction s)"

section \<open>The browser delivering events\<close>

text \<open>
  An event on \<open>document\<close> goes to the listeners registered for it when the dispatch
  starts, in order of registration; a listener removed meanwhile is skipped.
\<close>

definition invoke :: "glow_config \<Rightarrow> env \<Rightarrow> real \<Rightarrow> real \<Rightarrow> handler \<Rightarrow> page \<Rightarrow> page" where
  "invoke cfg e clientX clientY h s =
     (case h of
        EarlyMouseHandler i \<Rightarrow> earlyMouseHandler_body clientX clientY s
      | MouseHandler i threshold \<Rightarrow> mouseHandler_body cfg threshold e clientX clientY s
      | ClickHandler i \<Rightarrow> clickHandler_body cfg e clientX clientY s)"

fun dispatch ::
  "glow_config \<Rightarrow> env \<Rightarrow> string \<Rightarrow> real \<Rightarrow> real \<Rightarrow> handler list \<Rightarrow> page \<Rightarrow> page" where
  "dispatch cfg e ev clientX clientY [] s = s"
| "dispatch cfg e ev clientX clientY (h # hs) s =
     dispatch cfg e ev clientX clientY hs
       (if (Document, ev, h) \<in> set (listeners s) then invoke cfg e clientX clientY h s else s)"

definition registered :: "string \<Rightarrow> page \<Rightarrow> handler list" where
  "registered ev s = map (\<lambda>t. snd (snd t)) (filter (\<lambda>t. fst (snd t) = ev) (listeners s))"

definition document_event :: "glow_config \<Rightarrow> env \<Rightarrow> string \<Rightarrow> real \<Rightarrow> real \<Rightarrow> page \<Rightarrow> page" where
  "document_event cfg e ev clientX clientY s = dispatch cfg e ev clientX clientY (registered ev s) s"

text \<open>
  \<open>animationend\<close> is delivered to the listeners on the sprite's element. An element
  that \<open>destroy\<close> has removed from the document runs no animation, so its listeners
  are never called again.
\<close>

definition invoke_listener :: "env \<Rightarrow> string \<Rightarrow> animation_listener \<Rightarrow> page \<Rightarrow> page" where
  "invoke_listener e animationName l s =
     (case l of
        OnSpawnEnd i \<Rightarrow> onSpawnEnd i animationName e s
      | OnJumpEnd i direction first k \<Rightarrow> onJumpEnd i direction first k animationName s)"

definition element_listeners :: "page \<Rightarrow> animation_listener list" where
  "element_listeners s = (case element s of None \<Rightarrow> [] | Some el \<Rightarrow> animationend el)"

fun dispatch_animationend :: "env \<Rightarrow> string \<Rightarrow> animation_listener list \<Rightarrow> page \<Rightarrow> page" where
  "dispatch_animationend e animationName [] s = s"
| "dispatch_animationend e animationName (l # ls) s =
     dispatch_animationend e animationName ls
       (if l \<in> set (element_listeners s) then invoke_listener e animationName l s else s)"

definition animationend_event :: "env \<Rightarrow> string \<Rightarrow> page \<Rightarrow> page" where
  "animationend_event e animationName s =
     dispatch_animationend e animationName (element_listeners s) s"

text \<open>A pending timeout fires: the wrapper of \<open>Sprite.setTimeout\<close> untracks it and calls back.\<close>

definition timer_fired :: "nat \<Rightarrow> page \<Rightarrow> page" where
  "timer_fired i s =
     (case map_of (pendingTimers s) i of
        None \<Rightarrow> s
      | Some ClearCooldown \<Rightarrow>
          s\<lparr>pendingTimers := filter (\<lambda>p. fst p \<noteq> i) (pendingTimers s),
            timers := filter (\<lambda>t. t \<noteq> i) (timers s),
            jumpCooldown := False\<rparr>)"

text \<open>A display frame: every frame request pending at its start runs \<open>animate\<close>.\<close>

fun run_frames :: "glow_config \<Rightarrow> env \<Rightarrow> nat list \<Rightarrow> page \<Rightarrow> page" where
  "run_frames cfg e [] s = s"
| "run_frames cfg e (i # is) s =
     run_frames cfg e is
       (if i \<in> set (pendingFrames s)
        then animate cfg e (s\<lparr>pendingFrames := removeAll i (pendingFrames s)\<rparr>)
        else s)"

definition animation_frame :: "glow_config \<Rightarrow> env \<Rightarrow> page \<Rightarrow> page" where
  "animation_frame cfg e s = run_frames cfg e (pendingFrames s) s"

text \<open>
  Everything that can happen to the rabbit: a call of one of its methods, or the
  browser delivering an event, a timeout or a frame.
\<close>

datatype op =
    CallSpawn container
  | CallSpawnAndDrop real real container
  | CallSetPosition real real
  | CallEnableMouseReaction "real option"
  | CallDisableMouseReaction
  | CallJump
  | CallDestroy
  | MouseMove real real
  | Click real real
  | AnimationEnd string
  | TimerFired nat
  | AnimationFrame

fun step :: "glow_config \<Rightarrow> env \<times> op \<Rightarrow> page \<Rightarrow> page" where
  "step cfg (e, CallSpawn parent) s = spawn parent s"
| "step cfg (e, CallSpawnAndDrop x0 y0 parent) s = spawnAndDrop x0 y0 parent s"
| "step cfg (e, CallSetPosition x0 y0) s = setPosition x0 y0 s"
| "step cfg (e, CallEnableMouseReaction threshold) s = enableMouseReaction threshold s"
| "step cfg (e, CallDisableMouseReaction) s = disableMouseReaction s"
| "step cfg (e, CallJump) s = snd (jump NoCallback e s)"
| "step cfg (e, CallDestroy) s = destroy s"
| "step cfg (e, MouseMove clientX clientY) s = document_event cfg e ''mousemove'' clientX clientY s"
| "step cfg (e, Click clientX clientY) s = document_event cfg e ''click'' clientX clientY s"
| "step cfg (e, AnimationEnd animationName) s = animationend_event e animationName s"
| "step cfg (e, TimerFired i) s = timer_fired i s"
| "step cfg (e, AnimationFrame) s = animation_frame cfg e s"

definition run :: "glow_config \<Rightarrow> (env \<times> op) list \<Rightarrow> page \<Rightarrow> page" where
  "run cfg ops s = fold (step cfg) ops s"

section \<open>Observations and scenarios\<close>

text \<open>
  A jump is in flight while its \<open>onJumpEnd\<close> listener waits on the element: the promise
  of that \<open>jump()\<close> is pending until the listener resolves it.
\<close>

fun is_jump_listener :: "animation_listener \<Rightarrow> bool" where
  "is_jump_listener (OnJumpEnd i direction first k) = True"
| "is_jump_listener (OnSpawnEnd i) = False"

definition pendingJumps :: "page \<Rightarrow> animation_listener list" where
  "pendingJumps s = filter is_jump_listener (element_listeners s)"

text \<open>The listener of the first jump is the one that captured \<open>isFirstJump = true\<close>.\<close>

fun completes_first_jump :: "animation_listener \<Rightarrow> bool" where
  "completes_first_jump (OnJumpEnd i direction first k) = first"
| "completes_first_jump (OnSpawnEnd i) = False"

definition firstJumpPending :: "page \<Rightarrow> bool" where
  "firstJumpPending s = list_ex completes_first_jump (element_listeners s)"

text \<open>
  At most one jump is in flight, and while one is, the jumping flag is set.
\<close>

definition at_most_one_jump :: "page \<Rightarrow> bool" where
  "at_most_one_jump s \<longleftrightarrow> length (pendingJumps s) \<le> 1 \<and> (pendingJumps s \<noteq> [] \<longrightarrow> isJumping s)"

text \<open>Until the first jump has started, no jump is in flight.\<close>

definition first_jump_ahead :: "page \<Rightarrow> bool" where
  "first_jump_ahead s \<longleftrightarrow> (isFirstJump s \<longrightarrow> pendingJumps s = [])"

text \<open>
  \<open>jump()\<close> has started the animation in direction \<open>d\<close>: the promise is pending, the
  direction is recorded and written to \<open>--jump-direction\<close>, the class \<open>jumping\<close> is
  set, a listener that captured \<open>d\<close> waits for the completion signal, and the stored
  position is still the old one.
\<close>

definition jump_started ::
  "real \<Rightarrow> bool \<Rightarrow> then_callback \<Rightarrow> page \<Rightarrow> promise \<times> page \<Rightarrow> bool" where
  "jump_started d first k s r \<longleftrightarrow>
     fst r = Pending \<and> lastDirection (snd r) = d \<and> x (snd r) = x s \<and>
     (\<exists>el'. element (snd r) = Some el' \<and> jump_direction el' = Some d \<and>
        ''jumping'' \<in> set (classList el') \<and>
        (\<exists>i. OnJumpEnd i d first k \<in> set (animationend el')))"

fun is_spawn :: "op \<Rightarrow> bool" where
  "is_spawn (CallSpawn parent) = True"
| "is_spawn (CallSpawnAndDrop x0 y0 parent) = True"
| "is_spawn other = False"

fun is_event :: "op \<Rightarrow> bool" where
  "is_event (MouseMove clientX clientY) = True"
| "is_event (Click clientX clientY) = True"
| "is_event (AnimationEnd animationName) = True"
| "is_event (TimerFired i) = True"
| "is_event AnimationFrame = True"
| "is_event other = False"

text \<open>
  Scenarios. The glow fields take the values of the specification's click scenario
  (\<open>clickRadius = 50\<close>, \<open>glowBoostPerClick = 0.2\<close>, \<open>maxPermanentGlow = 1.0\<close>) and
  example values elsewhere. The viewport is \<open>w\<close> wide and 800 high, the rabbit is
  rendered with its bottom centre at \<open>(64, 800)\<close>.
\<close>

definition default_options :: options where
  "default_options = \<lparr>opt_x = None, opt_y = None, opt_scale = None\<rparr>"

definition example_glow :: glow_config where
  "example_glow =
     \<lparr>glowRange = 400, maxProximityGlow = 2, maxProximitySpread = 1, glowExponent = 2,
      clickRadius = 50, glowBoostPerClick = 0.2, maxPermanentGlow = 1\<rparr>"

definition viewport :: "real \<Rightarrow> real \<Rightarrow> env" where
  "viewport w r =
     \<lparr>innerWidth = w, innerHeight = 800,
      boundingClientRect = \<lparr>rect_left = 0, rect_width = 128, rect_bottom = 800\<rparr>,
      Math_random = r\<rparr>"

text \<open>What \<open>main()\<close> does with the rabbit: construct, \<open>spawnAndDrop\<close>, \<open>enableMouseReaction\<close>.\<close>

definition mouse_ready :: "options \<Rightarrow> real \<Rightarrow> real \<Rightarrow> container \<Rightarrow> real option \<Rightarrow> page" where
  "mouse_ready opts x0 y0 parent threshold =
     enableMouseReaction threshold (spawnAndDrop x0 y0 parent (construct opts))"

text \<open>The rabbit spawned at \<open>(x0, 0)\<close>, after the drop animation has ended: idle.\<close>

definition spawned :: "real \<Rightarrow> page" where
  "spawned x0 =
     run example_glow
       [(viewport 1000 0, CallSpawnAndDrop x0 0 DocumentBody),
        (viewport 1000 0, AnimationEnd ''rabbit-spawn-drop'')]
       (construct default_options)"

text \<open>The same rabbit after its first jump has completed in a viewport 1000 wide.\<close>

definition jumped :: "real \<Rightarrow> page" where
  "jumped x0 =
     run example_glow
       [(viewport 1000 0, CallJump),
        (viewport 1000 0, AnimationEnd ''rabbit-jump-sprite'')]
       (spawned x0)"

text \<open>The same rabbit with the mouse reaction enabled (default threshold).\<close>

definition enabled :: page where
  "enabled = run example_glow [(viewport 1000 0, CallEnableMouseReaction None)] (spawned 100)"

text \<open>
  The pointer moves onto the rabbit's bottom centre, the first jump runs and completes:
  the rabbit is in its cooldown, with one timeout pending.
\<close>

definition cooling :: page where
  "cooling =
     run example_glow
       [(viewport 1000 0, MouseMove 64 800),
        (viewport 1000 0, AnimationEnd ''rabbit-jump-sprite'')]
       enabled"

text \<open>
  The rabbit with the mouse reaction enabled is destroyed; then it is spawned again, the
  mouse reaction is enabled again and the pointer moves onto it.
\<close>

definition respawned :: page where
  "respawned =
     run example_glow
       [(viewport 1000 0, CallDestroy),
        (viewport 1000 0, CallSpawnAndDrop 100 0 DocumentBody),
        (viewport 1000 0, CallEnableMouseReaction None),
        (viewport 1000 0, MouseMove 64 800)]
       enabled"

text \<open>The pointer has moved onto the rabbit: its first jump is in flight.\<close>

definition midair :: page where
  "midair = run example_glow [(viewport 1000 0, MouseMove 64 800)] enabled"

text \<open>
  The threshold \<open>enableMouseReaction\<close> uses: its argument, or the configured default.
\<close>

definition threshold_of :: "real option \<Rightarrow> real" where
  "threshold_of th = (case th of None \<Rightarrow> mouseThreshold RABBIT_CONFIG | Some t \<Rightarrow> t)"

text \<open>
  The rabbit as \<open>main()\<close> leaves it, at any later time: the mouse handler and the click
  handler of the one \<open>enableMouseReaction\<close> are the listeners on \<open>document\<close>, the
  element exists, and the permanent glow bonus lies between 0 and its maximum.
\<close>

definition click_ready :: "glow_config \<Rightarrow> real \<Rightarrow> page \<Rightarrow> bool" where
  "click_ready cfg t s \<longleftrightarrow>
     listeners s = [(Document, ''mousemove'', MouseHandler 4 t), (Document, ''click'', ClickHandler 5)] \<and>
     element s \<noteq> None \<and>
     0 \<le> permanentGlowBonus s \<and> permanentGlowBonus s \<le> maxPermanentGlow cfg"

text \<open>Five clicks on the rendered bottom centre of the rabbit.\<close>

definition five_clicks :: page where
  "five_clicks =
     run example_glow (replicate 5 (viewport 1000 0, Click 64 800))
       (mouse_ready default_options 100 0 DocumentBody None)"

text \<open>The value of \<open>--crt-glow-intensity\<close> on the element, if there is one.\<close>

definition glowIntensity :: "page \<Rightarrow> real option" where
  "glowIntensity s = (case element s of None \<Rightarrow> None | Some el \<Rightarrow> crt_glow_intensity el)"

text \<open>Nothing for \<open>disableMouseReaction\<close> to do: no glow loop, no handler stored.\<close>

definition quiet :: "page \<Rightarrow> bool" where
  "quiet s \<longleftrightarrow> \<not> glowAnimationRunning s \<and> earlyMouseHandler s = None \<and>
     mouseHandler s = None \<and> clickHandler s = None"

text \<open>
  The event each handler of the rabbit is registered for, and the handler that
  \<open>spawnAndDrop\<close> registers without tracking it.
\<close>

fun handler_event :: "handler \<Rightarrow> string" where
  "handler_event (EarlyMouseHandler i) = ''mousemove''"
| "handler_event (MouseHandler i threshold) = ''mousemove''"
| "handler_event (ClickHandler i) = ''click''"

fun is_early :: "handler \<Rightarrow> bool" where
  "is_early (EarlyMouseHandler i) = True"
| "is_early other = False"

text \<open>
  How the rabbit keeps its subscriptions: every listener on \<open>document\<close> is registered
  for its handler's event and is tracked in \<open>eventHandlers\<close> unless it is an early
  pointer tracker; no early pointer tracker is tracked; the stored mouse handler is one
  for \<open>mousemove\<close>, the stored click handler one for \<open>click\<close>.
\<close>

definition well_tracked :: "page \<Rightarrow> bool" where
  "well_tracked s \<longleftrightarrow>
     (\<forall>l \<in> set (listeners s).
        fst (snd l) = handler_event (snd (snd l)) \<and>
        (l \<in> set (eventHandlers s) \<or> is_early (snd (snd l)))) \<and>
     (\<forall>l \<in> set (eventHandlers s). \<not> is_early (snd (snd l))) \<and>
     (\<forall>h. mouseHandler s = Some h \<longrightarrow> handler_event h = ''mousemove'') \<and>
     (\<forall>h. clickHandler s = Some h \<longrightarrow> handler_event h = ''click'')"

text \<open>
  A rabbit that is torn down: no element, destroyed, nothing tracked, no handler stored,
  and no listener on \<open>document\<close> outside \<open>L\<close>.
\<close>

definition torn_down :: "(event_target \<times> string \<times> handler) set \<Rightarrow> page \<Rightarrow> bool" where
  "torn_down L s \<longleftrightarrow>
     element s = None \<and> isDestroyed s \<and> eventHandlers s = [] \<and>
     mouseHandler s = None \<and> clickHandler s = None \<and> set (listeners s) \<subseteq> L"

section \<open>Basic facts about the model\<close>

lemmas model_defs =
  run_def default_options_def example_glow_def viewport_def construct_def RABBIT_CONFIG_def
  spawnAndDrop_def spawn_def createElement_def updatePosition_def document_addEventListener_def
  startGlowAnimation_def requestAnimationFrame_def glowAnimationRunning_def stopGlowAnimation_def
  animationend_event_def element_listeners_def invoke_listener_def onSpawnEnd_def onJumpEnd_def
  element_addEventListener_def element_removeEventListener_def classList_add_def
  classList_remove_def jump_def startJump_def canGoLeft_def canGoRight_def edgeMargin_def
  resolve_def Let_def

lemmas event_defs =
  enableMouseReaction_def removeEarlyMouseHandler_def target_removeEventListener_def
  addEventListener_def document_event_def registered_def invoke_def mouseHandler_body_def
  clickHandler_body_def earlyMouseHandler_body_def getDistanceToBottomCenter_def updateGlow_def
  proximityFactor_def Math_pow_def setTimeout_def timer_fired_def

declare map_element_def [simp]

lemma classList_add_fields [simp]:
  "animationend (classList_add c el) = animationend el"
  "parentNode (classList_add c el) = parentNode el"
  "jump_direction (classList_add c el) = jump_direction el"
  "crt_glow_intensity (classList_add c el) = crt_glow_intensity el"
  "crt_glow_spread (classList_add c el) = crt_glow_spread el"
  "style_left (classList_add c el) = style_left el"
  "style_top (classList_add c el) = style_top el"
  by (simp_all add: classList_add_def)

lemma classList_remove_fields [simp]:
  "animationend (classList_remove c el) = animationend el"
  "parentNode (classList_remove c el) = parentNode el"
  "jump_direction (classList_remove c el) = jump_direction el"
  "crt_glow_intensity (classList_remove c el) = crt_glow_intensity el"
  "crt_glow_spread (classList_remove c el) = crt_glow_spread el"
  "style_left (classList_remove c el) = style_left el"
  "style_top (classList_remove c el) = style_top el"
  by (simp_all add: classList_remove_def)

lemma set_classList_add [simp]:
  "set (classList (classList_add c el)) = insert c (set (classList el))"
  by (auto simp add: classList_add_def)

lemma set_classList_remove [simp]:
  "set (classList (classList_remove c el)) = set (classList el) - {c}"
  by (simp add: classList_remove_def)

lemma element_addEventListener_fields [simp]:
  "classList (element_addEventListener l el) = classList el"
  "parentNode (element_addEventListener l el) = parentNode el"
  "jump_direction (element_addEventListener l el) = jump_direction el"
  "crt_glow_intensity (element_addEventListener l el) = crt_glow_intensity el"
  "crt_glow_spread (element_addEventListener l el) = crt_glow_spread el"
  "style_left (element_addEventListener l el) = style_left el"
  "style_top (element_addEventListener l el) = style_top el"
  by (simp_all add: element_addEventListener_def)

lemma set_element_addEventListener [simp]:
  "set (animationend (element_addEventListener l el)) = insert l (set (animationend el))"
  by (auto simp add: element_addEventListener_def)

lemma element_removeEventListener_fields [simp]:
  "classList (element_removeEventListener l el) = classList el"
  "parentNode (element_removeEventListener l el) = parentNode el"
  "jump_direction (element_removeEventListener l el) = jump_direction el"
  "crt_glow_intensity (element_removeEventListener l el) = crt_glow_intensity el"
  "crt_glow_spread (element_removeEventListener l el) = crt_glow_spread el"
  "style_left (element_removeEventListener l el) = style_left el"
  "style_top (element_removeEventListener l el) = style_top el"
  "animationend (element_removeEventListener l el) = removeAll l (animationend el)"
  by (simp_all add: element_removeEventListener_def)

lemma requestAnimationFrame_fields [simp]:
  "element (requestAnimationFrame s) = element s"
  "x (requestAnimationFrame s) = x s"
  "y (requestAnimationFrame s) = y s"
  "scale (requestAnimationFrame s) = scale s"
  "eventHandlers (requestAnimationFrame s) = eventHandlers s"
  "timers (requestAnimationFrame s) = timers s"
  "isDestroyed (requestAnimationFrame s) = isDestroyed s"
  "isSpawning (requestAnimationFrame s) = isSpawning s"
  "isJumping (requestAnimationFrame s) = isJumping s"
  "jumpCooldown (requestAnimationFrame s) = jumpCooldown s"
  "isFirstJump (requestAnimationFrame s) = isFirstJump s"
  "colorRevealed (requestAnimationFrame s) = colorRevealed s"
  "lastDirection (requestAnimationFrame s) = lastDirection s"
  "permanentGlowBonus (requestAnimationFrame s) = permanentGlowBonus s"
  "lastMouseX (requestAnimationFrame s) = lastMouseX s"
  "lastMouseY (requestAnimationFrame s) = lastMouseY s"
  "mouseHandler (requestAnimationFrame s) = mouseHandler s"
  "clickHandler (requestAnimationFrame s) = clickHandler s"
  "earlyMouseHandler (requestAnimationFrame s) = earlyMouseHandler s"
  "listeners (requestAnimationFrame s) = listeners s"
  "pendingTimers (requestAnimationFrame s) = pendingTimers s"
  by (simp_all add: requestAnimationFrame_def)

lemma startGlowAnimation_fields [simp]:
  "element (startGlowAnimation s) = element s"
  "x (startGlowAnimation s) = x s"
  "y (startGlowAnimation s) = y s"
  "scale (startGlowAnimation s) = scale s"
  "eventHandlers (startGlowAnimation s) = eventHandlers s"
  "timers (startGlowAnimation s) = timers s"
  "isDestroyed (startGlowAnimation s) = isDestroyed s"
  "isSpawning (startGlowAnimation s) = isSpawning s"
  "isJumping (startGlowAnimation s) = isJumping s"
  "jumpCooldown (startGlowAnimation s) = jumpCooldown s"
  "isFirstJump (startGlowAnimation s) = isFirstJump s"
  "colorRevealed (startGlowAnimation s) = colorRevealed s"
  "lastDirection (startGlowAnimation s) = lastDirection s"
  "permanentGlowBonus (startGlowAnimation s) = permanentGlowBonus s"
  "lastMouseX (startGlowAnimation s) = lastMouseX s"
  "lastMouseY (startGlowAnimation s) = lastMouseY s"
  "mouseHandler (startGlowAnimation s) = mouseHandler s"
  "clickHandler (startGlowAnimation s) = clickHandler s"
  "earlyMouseHandler (startGlowAnimation s) = earlyMouseHandler s"
  "listeners (startGlowAnimation s) = listeners s"
  "pendingTimers (startGlowAnimation s) = pendingTimers s"
  by (simp_all add: startGlowAnimation_def)

lemma stopGlowAnimation_fields [simp]:
  "element (stopGlowAnimation s) = element s"
  "x (stopGlowAnimation s) = x s"
  "y (stopGlowAnimation s) = y s"
  "scale (stopGlowAnimation s) = scale s"
  "eventHandlers (stopGlowAnimation s) = eventHandlers s"
  "timers (stopGlowAnimation s) = timers s"
  "isDestroyed (stopGlowAnimation s) = isDestroyed s"
  "isSpawning (stopGlowAnimation s) = isSpawning s"
  "isJumping (stopGlowAnimation s) = isJumping s"
  "jumpCooldown (stopGlowAnimation s) = jumpCooldown s"
  "isFirstJump (stopGlowAnimation s) = isFirstJump s"
  "colorRevealed (stopGlowAnimation s) = colorRevealed s"
  "lastDirection (stopGlowAnimation s) = lastDirection s"
  "permanentGlowBonus (stopGlowAnimation s) = permanentGlowBonus s"
  "lastMouseX (stopGlowAnimation s) = lastMouseX s"
  "lastMouseY (stopGlowAnimation s) = lastMouseY s"
  "mouseHandler (stopGlowAnimation s) = mouseHandler s"
  "clickHandler (stopGlowAnimation s) = clickHandler s"
  "earlyMouseHandler (stopGlowAnimation s) = earlyMouseHandler s"
  "listeners (stopGlowAnimation s) = listeners s"
  "pendingTimers (stopGlowAnimation s) = pendingTimers s"
  "nextId (stopGlowAnimation s) = nextId s"
  by (simp_all add: stopGlowAnimation_def)

lemma updatePosition_fields [simp]:
  "x (updatePosition s) = x s"
  "y (updatePosition s) = y s"
  "scale (updatePosition s) = scale s"
  "eventHandlers (updatePosition s) = eventHandlers s"
  "timers (updatePosition s) = timers s"
  "isDestroyed (updatePosition s) = isDestroyed s"
  "isSpawning (updatePosition s) = isSpawning s"
  "isJumping (updatePosition s) = isJumping s"
  "jumpCooldown (updatePosition s) = jumpCooldown s"
  "isFirstJump (updatePosition s) = isFirstJump s"
  "colorRevealed (updatePosition s) = colorRevealed s"
  "lastDirection (updatePosition s) = lastDirection s"
  "permanentGlowBonus (updatePosition s) = permanentGlowBonus s"
  "lastMouseX (updatePosition s) = lastMouseX s"
  "lastMouseY (updatePosition s) = lastMouseY s"
  "glowAnimationId (updatePosition s) = glowAnimationId s"
  "mouseHandler (updatePosition s) = mouseHandler s"
  "clickHandler (updatePosition s) = clickHandler s"
  "earlyMouseHandler (updatePosition s) = earlyMouseHandler s"
  "listeners (updatePosition s) = listeners s"
  "pendingTimers (updatePosition s) = pendingTimers s"
  "pendingFrames (updatePosition s) = pendingFrames s"
  "nextId (updatePosition s) = nextId s"
  "element (updatePosition s) = map_option (\<lambda>el. el\<lparr>style_left := Some (x s), style_top := Some (y s)\<rparr>) (element s)"
  by (simp_all add: updatePosition_def)

lemma setTimeout_fields [simp]:
  "element (setTimeout cb delay s) = element s"
  "x (setTimeout cb delay s) = x s"
  "y (setTimeout cb delay s) = y s"
  "scale (setTimeout cb delay s) = scale s"
  "eventHandlers (setTimeout cb delay s) = eventHandlers s"
  "isDestroyed (setTimeout cb delay s) = isDestroyed s"
  "isSpawning (setTimeout cb delay s) = isSpawning s"
  "isJumping (setTimeout cb delay s) = isJumping s"
  "jumpCooldown (setTimeout cb delay s) = jumpCooldown s"
  "isFirstJump (setTimeout cb delay s) = isFirstJump s"
  "colorRevealed (setTimeout cb delay s) = colorRevealed s"
  "lastDirection (setTimeout cb delay s) = lastDirection s"
  "permanentGlowBonus (setTimeout cb delay s) = permanentGlowBonus s"
  "lastMouseX (setTimeout cb delay s) = lastMouseX s"
  "lastMouseY (setTimeout cb delay s) = lastMouseY s"
  "glowAnimationId (setTimeout cb delay s) = glowAnimationId s"
  "mouseHandler (setTimeout cb delay s) = mouseHandler s"
  "clickHandler (setTimeout cb delay s) = clickHandler s"
  "earlyMouseHandler (setTimeout cb delay s) = earlyMouseHandler s"
  "listeners (setTimeout cb delay s) = listeners s"
  "pendingFrames (setTimeout cb delay s) = pendingFrames s"
  by (simp_all add: setTimeout_def)

lemma resolve_NoCallback [simp]: "resolve NoCallback s = s"
  by (simp add: resolve_def)

lemma resolve_fields [simp]:
  "element (resolve k s) = element s"
  "x (resolve k s) = x s"
  "y (resolve k s) = y s"
  "scale (resolve k s) = scale s"
  "eventHandlers (resolve k s) = eventHandlers s"
  "isDestroyed (resolve k s) = isDestroyed s"
  "isSpawning (resolve k s) = isSpawning s"
  "isJumping (resolve k s) = isJumping s"
  "isFirstJump (resolve k s) = isFirstJump s"
  "colorRevealed (resolve k s) = colorRevealed s"
  "lastDirection (resolve k s) = lastDirection s"
  "permanentGlowBonus (resolve k s) = permanentGlowBonus s"
  "lastMouseX (resolve k s) = lastMouseX s"
  "lastMouseY (resolve k s) = lastMouseY s"
  "glowAnimationId (resolve k s) = glowAnimationId s"
  "mouseHandler (resolve k s) = mouseHandler s"
  "clickHandler (resolve k s) = clickHandler s"
  "earlyMouseHandler (resolve k s) = earlyMouseHandler s"
  "listeners (resolve k s) = listeners s"
  "pendingFrames (resolve k s) = pendingFrames s"
  by (cases k; simp add: resolve_def)+

lemma updateGlow_fields [simp]:
  "x (updateGlow cfg d s) = x s"
  "y (updateGlow cfg d s) = y s"
  "scale (updateGlow cfg d s) = scale s"
  "eventHandlers (updateGlow cfg d s) = eventHandlers s"
  "timers (updateGlow cfg d s) = timers s"
  "isDestroyed (updateGlow cfg d s) = isDestroyed s"
  "isSpawning (updateGlow cfg d s) = isSpawning s"
  "isJumping (updateGlow cfg d s) = isJumping s"
  "jumpCooldown (updateGlow cfg d s) = jumpCooldown s"
  "isFirstJump (updateGlow cfg d s) = isFirstJump s"
  "colorRevealed (updateGlow cfg d s) = colorRevealed s"
  "lastDirection (updateGlow cfg d s) = lastDirection s"
  "permanentGlowBonus (updateGlow cfg d s) = permanentGlowBonus s"
  "lastMouseX (updateGlow cfg d s) = lastMouseX s"
  "lastMouseY (updateGlow cfg d s) = lastMouseY s"
  "glowAnimationId (updateGlow cfg d s) = glowAnimationId s"
  "mouseHandler (updateGlow cfg d s) = mouseHandler s"
  "clickHandler (updateGlow cfg d s) = clickHandler s"
  "earlyMouseHandler (updateGlow cfg d s) = earlyMouseHandler s"
  "listeners (updateGlow cfg d s) = listeners s"
  "pendingTimers (updateGlow cfg d s) = pendingTimers s"
  "pendingFrames (updateGlow cfg d s) = pendingFrames s"
  "nextId (updateGlow cfg d s) = nextId s"
  by (simp_all add: updateGlow_def)

lemma updateGlowFromStoredPosition_fields [simp]:
  "x (updateGlowFromStoredPosition cfg e s) = x s"
  "y (updateGlowFromStoredPosition cfg e s) = y s"
  "scale (updateGlowFromStoredPosition cfg e s) = scale s"
  "eventHandlers (updateGlowFromStoredPosition cfg e s) = eventHandlers s"
  "timers (updateGlowFromStoredPosition cfg e s) = timers s"
  "isDestroyed (updateGlowFromStoredPosition cfg e s) = isDestroyed s"
  "isSpawning (updateGlowFromStoredPosition cfg e s) = isSpawning s"
  "isJumping (updateGlowFromStoredPosition cfg e s) = isJumping s"
  "jumpCooldown (updateGlowFromStoredPosition cfg e s) = jumpCooldown s"
  "isFirstJump (updateGlowFromStoredPosition cfg e s) = isFirstJump s"
  "colorRevealed (updateGlowFromStoredPosition cfg e s) = colorRevealed s"
  "lastDirection (updateGlowFromStoredPosition cfg e s) = lastDirection s"
  "permanentGlowBonus (updateGlowFromStoredPosition cfg e s) = permanentGlowBonus s"
  "lastMouseX (updateGlowFromStoredPosition cfg e s) = lastMouseX s"
  "lastMouseY (updateGlowFromStoredPosition cfg e s) = lastMouseY s"
  "glowAnimationId (updateGlowFromStoredPosition cfg e s) = glowAnimationId s"
  "mouseHandler (updateGlowFromStoredPosition cfg e s) = mouseHandler s"
  "clickHandler (updateGlowFromStoredPosition cfg e s) = clickHandler s"
  "earlyMouseHandler (updateGlowFromStoredPosition cfg e s) = earlyMouseHandler s"
  "listeners (updateGlowFromStoredPosition cfg e s) = listeners s"
  "pendingTimers (updateGlowFromStoredPosition cfg e s) = pendingTimers s"
  "pendingFrames (updateGlowFromStoredPosition cfg e s) = pendingFrames s"
  "nextId (updateGlowFromStoredPosition cfg e s) = nextId s"
  by (simp_all add: updateGlowFromStoredPosition_def split: option.splits)

lemma animate_fields [simp]:
  "x (animate cfg e s) = x s"
  "y (animate cfg e s) = y s"
  "scale (animate cfg e s) = scale s"
  "eventHandlers (animate cfg e s) = eventHandlers s"
  "timers (animate cfg e s) = timers s"
  "isDestroyed (animate cfg e s) = isDestroyed s"
  "isSpawning (animate cfg e s) = isSpawning s"
  "isJumping (animate cfg e s) = isJumping s"
  "jumpCooldown (animate cfg e s) = jumpCooldown s"
  "isFirstJump (animate cfg e s) = isFirstJump s"
  "colorRevealed (animate cfg e s) = colorRevealed s"
  "lastDirection (animate cfg e s) = lastDirection s"
  "permanentGlowBonus (animate cfg e s) = permanentGlowBonus s"
  "lastMouseX (animate cfg e s) = lastMouseX s"
  "lastMouseY (animate cfg e s) = lastMouseY s"
  "mouseHandler (animate cfg e s) = mouseHandler s"
  "clickHandler (animate cfg e s) = clickHandler s"
  "earlyMouseHandler (animate cfg e s) = earlyMouseHandler s"
  "listeners (animate cfg e s) = listeners s"
  "pendingTimers (animate cfg e s) = pendingTimers s"
  by (simp_all add: animate_def)

lemma removeEarlyMouseHandler_fields [simp]:
  "element (removeEarlyMouseHandler s) = element s"
  "x (removeEarlyMouseHandler s) = x s"
  "y (removeEarlyMouseHandler s) = y s"
  "scale (removeEarlyMouseHandler s) = scale s"
  "eventHandlers (removeEarlyMouseHandler s) = eventHandlers s"
  "timers (removeEarlyMouseHandler s) = timers s"
  "isDestroyed (removeEarlyMouseHandler s) = isDestroyed s"
  "isSpawning (removeEarlyMouseHandler s) = isSpawning s"
  "isJumping (removeEarlyMouseHandler s) = isJumping s"
  "jumpCooldown (removeEarlyMouseHandler s) = jumpCooldown s"
  "isFirstJump (removeEarlyMouseHandler s) = isFirstJump s"
  "colorRevealed (removeEarlyMouseHandler s) = colorRevealed s"
  "lastDirection (removeEarlyMouseHandler s) = lastDirection s"
  "permanentGlowBonus (removeEarlyMouseHandler s) = permanentGlowBonus s"
  "lastMouseX (removeEarlyMouseHandler s) = lastMouseX s"
  "lastMouseY (removeEarlyMouseHandler s) = lastMouseY s"
  "glowAnimationId (removeEarlyMouseHandler s) = glowAnimationId s"
  "mouseHandler (removeEarlyMouseHandler s) = mouseHandler s"
  "clickHandler (removeEarlyMouseHandler s) = clickHandler s"
  "pendingTimers (removeEarlyMouseHandler s) = pendingTimers s"
  "pendingFrames (removeEarlyMouseHandler s) = pendingFrames s"
  "nextId (removeEarlyMouseHandler s) = nextId s"
  "earlyMouseHandler (removeEarlyMouseHandler s) = None"
  by (simp_all add: removeEarlyMouseHandler_def target_removeEventListener_def split: option.splits)

lemma forgetHandler_fields [simp]:
  "element (forgetHandler ev h s) = element s"
  "x (forgetHandler ev h s) = x s"
  "y (forgetHandler ev h s) = y s"
  "scale (forgetHandler ev h s) = scale s"
  "timers (forgetHandler ev h s) = timers s"
  "isDestroyed (forgetHandler ev h s) = isDestroyed s"
  "isSpawning (forgetHandler ev h s) = isSpawning s"
  "isJumping (forgetHandler ev h s) = isJumping s"
  "jumpCooldown (forgetHandler ev h s) = jumpCooldown s"
  "isFirstJump (forgetHandler ev h s) = isFirstJump s"
  "colorRevealed (forgetHandler ev h s) = colorRevealed s"
  "lastDirection (forgetHandler ev h s) = lastDirection s"
  "permanentGlowBonus (forgetHandler ev h s) = permanentGlowBonus s"
  "lastMouseX (forgetHandler ev h s) = lastMouseX s"
  "lastMouseY (forgetHandler ev h s) = lastMouseY s"
  "glowAnimationId (forgetHandler ev h s) = glowAnimationId s"
  "mouseHandler (forgetHandler ev h s) = mouseHandler s"
  "clickHandler (forgetHandler ev h s) = clickHandler s"
  "earlyMouseHandler (forgetHandler ev h s) = earlyMouseHandler s"
  "pendingTimers (forgetHandler ev h s) = pendingTimers s"
  "pendingFrames (forgetHandler ev h s) = pendingFrames s"
  "nextId (forgetHandler ev h s) = nextId s"
  by (simp_all add: forgetHandler_def target_removeEventListener_def)

lemma disableMouseReaction_fields [simp]:
  "element (disableMouseReaction s) = element s"
  "x (disableMouseReaction s) = x s"
  "y (disableMouseReaction s) = y s"
  "scale (disableMouseReaction s) = scale s"
  "timers (disableMouseReaction s) = timers s"
  "isDestroyed (disableMouseReaction s) = isDestroyed s"
  "isSpawning (disableMouseReaction s) = isSpawning s"
  "isJumping (disableMouseReaction s) = isJumping s"
  "jumpCooldown (disableMouseReaction s) = jumpCooldown s"
  "isFirstJump (disableMouseReaction s) = isFirstJump s"
  "colorRevealed (disableMouseReaction s) = colorRevealed s"
  "lastDirection (disableMouseReaction s) = lastDirection s"
  "permanentGlowBonus (disableMouseReaction s) = permanentGlowBonus s"
  "lastMouseX (disableMouseReaction s) = lastMouseX s"
  "lastMouseY (disableMouseReaction s) = lastMouseY s"
  "pendingTimers (disableMouseReaction s) = pendingTimers s"
  "nextId (disableMouseReaction s) = nextId s"
  "earlyMouseHandler (disableMouseReaction s) = None"
  "mouseHandler (disableMouseReaction s) = None"
  "clickHandler (disableMouseReaction s) = None"
  "glowAnimationId (disableMouseReaction s) = glowAnimationId (stopGlowAnimation s)"
  by (simp_all add: disableMouseReaction_def Let_def split: option.splits)

lemma spawn_fields [simp]:
  "x (spawn parent s) = x s"
  "y (spawn parent s) = y s"
  "scale (spawn parent s) = scale s"
  "eventHandlers (spawn parent s) = eventHandlers s"
  "timers (spawn parent s) = timers s"
  "isDestroyed (spawn parent s) = isDestroyed s"
  "isSpawning (spawn parent s) = isSpawning s"
  "isJumping (spawn parent s) = isJumping s"
  "jumpCooldown (spawn parent s) = jumpCooldown s"
  "isFirstJump (spawn parent s) = isFirstJump s"
  "colorRevealed (spawn parent s) = colorRevealed s"
  "lastDirection (spawn parent s) = lastDirection s"
  "permanentGlowBonus (spawn parent s) = permanentGlowBonus s"
  "lastMouseX (spawn parent s) = lastMouseX s"
  "lastMouseY (spawn parent s) = lastMouseY s"
  "glowAnimationId (spawn parent s) = glowAnimationId s"
  "mouseHandler (spawn parent s) = mouseHandler s"
  "clickHandler (spawn parent s) = clickHandler s"
  "earlyMouseHandler (spawn parent s) = earlyMouseHandler s"
  "listeners (spawn parent s) = listeners s"
  "pendingTimers (spawn parent s) = pendingTimers s"
  "pendingFrames (spawn parent s) = pendingFrames s"
  "nextId (spawn parent s) = nextId s"
  by (simp_all add: spawn_def)

lemma setPosition_fields [simp]:
  "scale (setPosition x0 y0 s) = scale s"
  "eventHandlers (setPosition x0 y0 s) = eventHandlers s"
  "timers (setPosition x0 y0 s) = timers s"
  "isDestroyed (setPosition x0 y0 s) = isDestroyed s"
  "isSpawning (setPosition x0 y0 s) = isSpawning s"
  "isJumping (setPosition x0 y0 s) = isJumping s"
  "jumpCooldown (setPosition x0 y0 s) = jumpCooldown s"
  "isFirstJump (setPosition x0 y0 s) = isFirstJump s"
  "colorRevealed (setPosition x0 y0 s) = colorRevealed s"
  "lastDirection (setPosition x0 y0 s) = lastDirection s"
  "permanentGlowBonus (setPosition x0 y0 s) = permanentGlowBonus s"
  "lastMouseX (setPosition x0 y0 s) = lastMouseX s"
  "lastMouseY (setPosition x0 y0 s) = lastMouseY s"
  "glowAnimationId (setPosition x0 y0 s) = glowAnimationId s"
  "mouseHandler (setPosition x0 y0 s) = mouseHandler s"
  "clickHandler (setPosition x0 y0 s) = clickHandler s"
  "earlyMouseHandler (setPosition x0 y0 s) = earlyMouseHandler s"
  "listeners (setPosition x0 y0 s) = listeners s"
  "pendingTimers (setPosition x0 y0 s) = pendingTimers s"
  "pendingFrames (setPosition x0 y0 s) = pendingFrames s"
  "nextId (setPosition x0 y0 s) = nextId s"
  by (simp_all add: setPosition_def)

lemma spawnAndDrop_fields [simp]:
  "scale (spawnAndDrop x0 y0 parent s) = scale s"
  "eventHandlers (spawnAndDrop x0 y0 parent s) = eventHandlers s"
  "timers (spawnAndDrop x0 y0 parent s) = timers s"
  "isDestroyed (spawnAndDrop x0 y0 parent s) = isDestroyed s"
  "isSpawning (spawnAndDrop x0 y0 parent s) = isSpawning s"
  "isJumping (spawnAndDrop x0 y0 parent s) = isJumping s"
  "jumpCooldown (spawnAndDrop x0 y0 parent s) = jumpCooldown s"
  "isFirstJump (spawnAndDrop x0 y0 parent s) = isFirstJump s"
  "colorRevealed (spawnAndDrop x0 y0 parent s) = colorRevealed s"
  "lastDirection (spawnAndDrop x0 y0 parent s) = lastDirection s"
  "permanentGlowBonus (spawnAndDrop x0 y0 parent s) = permanentGlowBonus s"
  "lastMouseX (spawnAndDrop x0 y0 parent s) = lastMouseX s"
  "lastMouseY (spawnAndDrop x0 y0 parent s) = lastMouseY s"
  "mouseHandler (spawnAndDrop x0 y0 parent s) = mouseHandler s"
  "clickHandler (spawnAndDrop x0 y0 parent s) = clickHandler s"
  "pendingTimers (spawnAndDrop x0 y0 parent s) = pendingTimers s"
  by (simp_all add: spawnAndDrop_def Let_def document_addEventListener_def)

lemma addEventListener_fields [simp]:
  "element (addEventListener target ev h s) = element s"
  "x (addEventListener target ev h s) = x s"
  "y (addEventListener target ev h s) = y s"
  "scale (addEventListener target ev h s) = scale s"
  "timers (addEventListener target ev h s) = timers s"
  "isDestroyed (addEventListener target ev h s) = isDestroyed s"
  "isSpawning (addEventListener target ev h s) = isSpawning s"
  "isJumping (addEventListener target ev h s) = isJumping s"
  "jumpCooldown (addEventListener target ev h s) = jumpCooldown s"
  "isFirstJump (addEventListener target ev h s) = isFirstJump s"
  "colorRevealed (addEventListener target ev h s) = colorRevealed s"
  "lastDirection (addEventListener target ev h s) = lastDirection s"
  "permanentGlowBonus (addEventListener target ev h s) = permanentGlowBonus s"
  "lastMouseX (addEventListener target ev h s) = lastMouseX s"
  "lastMouseY (addEventListener target ev h s) = lastMouseY s"
  "glowAnimationId (addEventListener target ev h s) = glowAnimationId s"
  "mouseHandler (addEventListener target ev h s) = mouseHandler s"
  "clickHandler (addEventListener target ev h s) = clickHandler s"
  "earlyMouseHandler (addEventListener target ev h s) = earlyMouseHandler s"
  "pendingTimers (addEventListener target ev h s) = pendingTimers s"
  "pendingFrames (addEventListener target ev h s) = pendingFrames s"
  "nextId (addEventListener target ev h s) = nextId s"
  by (simp_all add: addEventListener_def document_addEventListener_def)

lemma enableMouseReaction_fields [simp]:
  "element (enableMouseReaction threshold s) = element s"
  "x (enableMouseReaction threshold s) = x s"
  "y (enableMouseReaction threshold s) = y s"
  "scale (enableMouseReaction threshold s) = scale s"
  "timers (enableMouseReaction threshold s) = timers s"
  "isDestroyed (enableMouseReaction threshold s) = isDestroyed s"
  "isSpawning (enableMouseReaction threshold s) = isSpawning s"
  "isJumping (enableMouseReaction threshold s) = isJumping s"
  "jumpCooldown (enableMouseReaction threshold s) = jumpCooldown s"
  "isFirstJump (enableMouseReaction threshold s) = isFirstJump s"
  "colorRevealed (enableMouseReaction threshold s) = colorRevealed s"
  "lastDirection (enableMouseReaction threshold s) = lastDirection s"
  "permanentGlowBonus (enableMouseReaction threshold s) = permanentGlowBonus s"
  "lastMouseX (enableMouseReaction threshold s) = lastMouseX s"
  "lastMouseY (enableMouseReaction threshold s) = lastMouseY s"
  "glowAnimationId (enableMouseReaction threshold s) = glowAnimationId s"
  "pendingTimers (enableMouseReaction threshold s) = pendingTimers s"
  "pendingFrames (enableMouseReaction threshold s) = pendingFrames s"
  by (simp_all add: enableMouseReaction_def Let_def)

lemma onSpawnEnd_fields [simp]:
  "x (onSpawnEnd i n e s) = x s"
  "scale (onSpawnEnd i n e s) = scale s"
  "eventHandlers (onSpawnEnd i n e s) = eventHandlers s"
  "timers (onSpawnEnd i n e s) = timers s"
  "isDestroyed (onSpawnEnd i n e s) = isDestroyed s"
  "isJumping (onSpawnEnd i n e s) = isJumping s"
  "jumpCooldown (onSpawnEnd i n e s) = jumpCooldown s"
  "isFirstJump (onSpawnEnd i n e s) = isFirstJump s"
  "colorRevealed (onSpawnEnd i n e s) = colorRevealed s"
  "lastDirection (onSpawnEnd i n e s) = lastDirection s"
  "permanentGlowBonus (onSpawnEnd i n e s) = permanentGlowBonus s"
  "lastMouseX (onSpawnEnd i n e s) = lastMouseX s"
  "lastMouseY (onSpawnEnd i n e s) = lastMouseY s"
  "mouseHandler (onSpawnEnd i n e s) = mouseHandler s"
  "clickHandler (onSpawnEnd i n e s) = clickHandler s"
  "earlyMouseHandler (onSpawnEnd i n e s) = earlyMouseHandler s"
  "listeners (onSpawnEnd i n e s) = listeners s"
  "pendingTimers (onSpawnEnd i n e s) = pendingTimers s"
  "nextId (onSpawnEnd i n e s) = nextId s"
  by (simp_all add: onSpawnEnd_def Let_def)

lemma onJumpEnd_fields [simp]:
  "y (onJumpEnd i d f k n s) = y s"
  "scale (onJumpEnd i d f k n s) = scale s"
  "eventHandlers (onJumpEnd i d f k n s) = eventHandlers s"
  "isDestroyed (onJumpEnd i d f k n s) = isDestroyed s"
  "isSpawning (onJumpEnd i d f k n s) = isSpawning s"
  "isFirstJump (onJumpEnd i d f k n s) = isFirstJump s"
  "lastDirection (onJumpEnd i d f k n s) = lastDirection s"
  "permanentGlowBonus (onJumpEnd i d f k n s) = permanentGlowBonus s"
  "lastMouseX (onJumpEnd i d f k n s) = lastMouseX s"
  "lastMouseY (onJumpEnd i d f k n s) = lastMouseY s"
  "mouseHandler (onJumpEnd i d f k n s) = mouseHandler s"
  "clickHandler (onJumpEnd i d f k n s) = clickHandler s"
  "earlyMouseHandler (onJumpEnd i d f k n s) = earlyMouseHandler s"
  "listeners (onJumpEnd i d f k n s) = listeners s"
  by (simp_all add: onJumpEnd_def Let_def)

lemma startJump_fst: "fst (startJump d f k s) = Pending"
  by (simp add: startJump_def Let_def)

lemma startJump_fields [simp]:
  "x (snd (startJump d f k s)) = x s"
  "y (snd (startJump d f k s)) = y s"
  "scale (snd (startJump d f k s)) = scale s"
  "eventHandlers (snd (startJump d f k s)) = eventHandlers s"
  "timers (snd (startJump d f k s)) = timers s"
  "isDestroyed (snd (startJump d f k s)) = isDestroyed s"
  "isSpawning (snd (startJump d f k s)) = isSpawning s"
  "isJumping (snd (startJump d f k s)) = isJumping s"
  "jumpCooldown (snd (startJump d f k s)) = jumpCooldown s"
  "isFirstJump (snd (startJump d f k s)) = isFirstJump s"
  "colorRevealed (snd (startJump d f k s)) = colorRevealed s"
  "permanentGlowBonus (snd (startJump d f k s)) = permanentGlowBonus s"
  "lastMouseX (snd (startJump d f k s)) = lastMouseX s"
  "lastMouseY (snd (startJump d f k s)) = lastMouseY s"
  "mouseHandler (snd (startJump d f k s)) = mouseHandler s"
  "clickHandler (snd (startJump d f k s)) = clickHandler s"
  "earlyMouseHandler (snd (startJump d f k s)) = earlyMouseHandler s"
  "listeners (snd (startJump d f k s)) = listeners s"
  "pendingTimers (snd (startJump d f k s)) = pendingTimers s"
  "lastDirection (snd (startJump d f k s)) = d"
  by (simp_all add: startJump_def Let_def)

lemma jump_fields [simp]:
  "x (snd (jump k e s)) = x s"
  "y (snd (jump k e s)) = y s"
  "scale (snd (jump k e s)) = scale s"
  "eventHandlers (snd (jump k e s)) = eventHandlers s"
  "isDestroyed (snd (jump k e s)) = isDestroyed s"
  "isSpawning (snd (jump k e s)) = isSpawning s"
  "colorRevealed (snd (jump k e s)) = colorRevealed s"
  "permanentGlowBonus (snd (jump k e s)) = permanentGlowBonus s"
  "lastMouseX (snd (jump k e s)) = lastMouseX s"
  "lastMouseY (snd (jump k e s)) = lastMouseY s"
  "mouseHandler (snd (jump k e s)) = mouseHandler s"
  "clickHandler (snd (jump k e s)) = clickHandler s"
  "earlyMouseHandler (snd (jump k e s)) = earlyMouseHandler s"
  "listeners (snd (jump k e s)) = listeners s"
  by (simp_all add: jump_def)

lemma earlyMouseHandler_body_fields [simp]:
  "element (earlyMouseHandler_body cx cy s) = element s"
  "x (earlyMouseHandler_body cx cy s) = x s"
  "y (earlyMouseHandler_body cx cy s) = y s"
  "scale (earlyMouseHandler_body cx cy s) = scale s"
  "eventHandlers (earlyMouseHandler_body cx cy s) = eventHandlers s"
  "timers (earlyMouseHandler_body cx cy s) = timers s"
  "isDestroyed (earlyMouseHandler_body cx cy s) = isDestroyed s"
  "isSpawning (earlyMouseHandler_body cx cy s) = isSpawning s"
  "isJumping (earlyMouseHandler_body cx cy s) = isJumping s"
  "jumpCooldown (earlyMouseHandler_body cx cy s) = jumpCooldown s"
  "isFirstJump (earlyMouseHandler_body cx cy s) = isFirstJump s"
  "colorRevealed (earlyMouseHandler_body cx cy s) = colorRevealed s"
  "lastDirection (earlyMouseHandler_body cx cy s) = lastDirection s"
  "permanentGlowBonus (earlyMouseHandler_body cx cy s) = permanentGlowBonus s"
  "glowAnimationId (earlyMouseHandler_body cx cy s) = glowAnimationId s"
  "mouseHandler (earlyMouseHandler_body cx cy s) = mouseHandler s"
  "clickHandler (earlyMouseHandler_body cx cy s) = clickHandler s"
  "earlyMouseHandler (earlyMouseHandler_body cx cy s) = earlyMouseHandler s"
  "listeners (earlyMouseHandler_body cx cy s) = listeners s"
  "pendingTimers (earlyMouseHandler_body cx cy s) = pendingTimers s"
  "pendingFrames (earlyMouseHandler_body cx cy s) = pendingFrames s"
  "nextId (earlyMouseHandler_body cx cy s) = nextId s"
  by (simp_all add: earlyMouseHandler_body_def)

lemma mouseHandler_body_fields [simp]:
  "x (mouseHandler_body cfg t e cx cy s) = x s"
  "y (mouseHandler_body cfg t e cx cy s) = y s"
  "scale (mouseHandler_body cfg t e cx cy s) = scale s"
  "eventHandlers (mouseHandler_body cfg t e cx cy s) = eventHandlers s"
  "isDestroyed (mouseHandler_body cfg t e cx cy s) = isDestroyed s"
  "isSpawning (mouseHandler_body cfg t e cx cy s) = isSpawning s"
  "colorRevealed (mouseHandler_body cfg t e cx cy s) = colorRevealed s"
  "permanentGlowBonus (mouseHandler_body cfg t e cx cy s) = permanentGlowBonus s"
  "mouseHandler (mouseHandler_body cfg t e cx cy s) = mouseHandler s"
  "clickHandler (mouseHandler_body cfg t e cx cy s) = clickHandler s"
  "earlyMouseHandler (mouseHandler_body cfg t e cx cy s) = earlyMouseHandler s"
  "listeners (mouseHandler_body cfg t e cx cy s) = listeners s"
  by (simp_all add: mouseHandler_body_def Let_def)

lemma clickHandler_body_fields [simp]:
  "x (clickHandler_body cfg e cx cy s) = x s"
  "y (clickHandler_body cfg e cx cy s) = y s"
  "scale (clickHandler_body cfg e cx cy s) = scale s"
  "eventHandlers (clickHandler_body cfg e cx cy s) = eventHandlers s"
  "timers (clickHandler_body cfg e cx cy s) = timers s"
  "isDestroyed (clickHandler_body cfg e cx cy s) = isDestroyed s"
  "isSpawning (clickHandler_body cfg e cx cy s) = isSpawning s"
  "isJumping (clickHandler_body cfg e cx cy s) = isJumping s"
  "jumpCooldown (clickHandler_body cfg e cx cy s) = jumpCooldown s"
  "isFirstJump (clickHandler_body cfg e cx cy s) = isFirstJump s"
  "colorRevealed (clickHandler_body cfg e cx cy s) = colorRevealed s"
  "lastDirection (clickHandler_body cfg e cx cy s) = lastDirection s"
  "lastMouseX (clickHandler_body cfg e cx cy s) = lastMouseX s"
  "lastMouseY (clickHandler_body cfg e cx cy s) = lastMouseY s"
  "glowAnimationId (clickHandler_body cfg e cx cy s) = glowAnimationId s"
  "mouseHandler (clickHandler_body cfg e cx cy s) = mouseHandler s"
  "clickHandler (clickHandler_body cfg e cx cy s) = clickHandler s"
  "earlyMouseHandler (clickHandler_body cfg e cx cy s) = earlyMouseHandler s"
  "listeners (clickHandler_body cfg e cx cy s) = listeners s"
  "pendingTimers (clickHandler_body cfg e cx cy s) = pendingTimers s"
  "pendingFrames (clickHandler_body cfg e cx cy s) = pendingFrames s"
  "nextId (clickHandler_body cfg e cx cy s) = nextId s"
  by (simp_all add: clickHandler_body_def Let_def)

lemma timer_fired_fields [simp]:
  "element (timer_fired i s) = element s"
  "x (timer_fired i s) = x s"
  "y (timer_fired i s) = y s"
  "scale (timer_fired i s) = scale s"
  "eventHandlers (timer_fired i s) = eventHandlers s"
  "isDestroyed (timer_fired i s) = isDestroyed s"
  "isSpawning (timer_fired i s) = isSpawning s"
  "isJumping (timer_fired i s) = isJumping s"
  "isFirstJump (timer_fired i s) = isFirstJump s"
  "colorRevealed (timer_fired i s) = colorRevealed s"
  "lastDirection (timer_fired i s) = lastDirection s"
  "permanentGlowBonus (timer_fired i s) = permanentGlowBonus s"
  "lastMouseX (timer_fired i s) = lastMouseX s"
  "lastMouseY (timer_fired i s) = lastMouseY s"
  "glowAnimationId (timer_fired i s) = glowAnimationId s"
  "mouseHandler (timer_fired i s) = mouseHandler s"
  "clickHandler (timer_fired i s) = clickHandler s"
  "earlyMouseHandler (timer_fired i s) = earlyMouseHandler s"
  "listeners (timer_fired i s) = listeners s"
  "pendingFrames (timer_fired i s) = pendingFrames s"
  "nextId (timer_fired i s) = nextId s"
  by (simp_all add: timer_fired_def split: option.splits timer_callback.splits)

lemma startJump_element:
  "element s = Some el \<Longrightarrow>
   \<exists>el'. element (snd (startJump d f k s)) = Some el' \<and>
     jump_direction el' = Some d \<and>
     set (classList el') =
       insert ''jumping''
         ((if d = - 1 then insert ''flipped'' (set (classList el))
           else set (classList el) - {''flipped''}) - {''jumping''}) \<and>
     (\<exists>i. set (animationend el') = insert (OnJumpEnd i d f k) (set (animationend el)))"
  by (auto simp add: startJump_def Let_def)

lemma startJump_started:
  "element s \<noteq> None \<Longrightarrow> jump_started d f k s (startJump d f k s)"
  using startJump_element [of s _ d f k]
  by (cases "element s") (auto simp add: jump_started_def startJump_fst)

lemma spawned_state:
  "spawned x0 =
     \<lparr>element =
        Some \<lparr>classList = [''rabbit'', ''flipped'', ''crt-effects''],
              parentNode = Some DocumentBody, style_left = Some x0, style_top = Some 544,
              jump_direction = None, crt_glow_intensity = None, crt_glow_spread = None,
              animationend = []\<rparr>,
      x = x0, y = 544, scale = 4, eventHandlers = [], timers = [], isDestroyed = False,
      isSpawning = False, isJumping = False, jumpCooldown = False, isFirstJump = True,
      colorRevealed = False, lastDirection = - 1, permanentGlowBonus = 0,
      lastMouseX = None, lastMouseY = None, glowAnimationId = None, mouseHandler = None,
      clickHandler = None, earlyMouseHandler = Some (EarlyMouseHandler 1),
      listeners = [(Document, ''mousemove'', EarlyMouseHandler 1)],
      pendingTimers = [], pendingFrames = [], nextId = 4\<rparr>"
  by (simp add: spawned_def model_defs)

lemma jumped_state:
  "x0 \<le> 552 \<Longrightarrow> jumped x0 =
     \<lparr>element =
        Some \<lparr>classList = [''rabbit'', ''flipped'', ''crt-effects'', ''color-revealed''],
              parentNode = Some DocumentBody, style_left = Some (x0 + 300), style_top = Some 544,
              jump_direction = Some (- 1), crt_glow_intensity = None, crt_glow_spread = None,
              animationend = []\<rparr>,
      x = x0 + 300, y = 544, scale = 4, eventHandlers = [], timers = [], isDestroyed = False,
      isSpawning = False, isJumping = False, jumpCooldown = False, isFirstJump = False,
      colorRevealed = True, lastDirection = - 1, permanentGlowBonus = 0,
      lastMouseX = None, lastMouseY = None, glowAnimationId = None, mouseHandler = None,
      clickHandler = None, earlyMouseHandler = Some (EarlyMouseHandler 1),
      listeners = [(Document, ''mousemove'', EarlyMouseHandler 1)],
      pendingTimers = [], pendingFrames = [], nextId = 6\<rparr>"
  by (simp add: jumped_def spawned_state model_defs)

lemma enabled_state:
  "enabled =
     \<lparr>element =
        Some \<lparr>classList = [''rabbit'', ''flipped'', ''crt-effects''],
              parentNode = Some DocumentBody, style_left = Some 100, style_top = Some 544,
              jump_direction = None, crt_glow_intensity = None, crt_glow_spread = None,
              animationend = []\<rparr>,
      x = 100, y = 544, scale = 4,
      eventHandlers =
        [(Document, ''mousemove'', MouseHandler 4 150), (Document, ''click'', ClickHandler 5)],
      timers = [], isDestroyed = False,
      isSpawning = False, isJumping = False, jumpCooldown = False, isFirstJump = True,
      colorRevealed = False, lastDirection = - 1, permanentGlowBonus = 0,
      lastMouseX = None, lastMouseY = None, glowAnimationId = None,
      mouseHandler = Some (MouseHandler 4 150), clickHandler = Some (ClickHandler 5),
      earlyMouseHandler = None,
      listeners =
        [(Document, ''mousemove'', MouseHandler 4 150), (Document, ''click'', ClickHandler 5)],
      pendingTimers = [], pendingFrames = [], nextId = 6\<rparr>"
  by (simp add: enabled_def spawned_state model_defs event_defs)

lemma cooling_state:
  "cooling =
     \<lparr>element =
        Some \<lparr>classList = [''rabbit'', ''flipped'', ''crt-effects'', ''color-revealed''],
              parentNode = Some DocumentBody, style_left = Some 400, style_top = Some 544,
              jump_direction = Some (- 1), crt_glow_intensity = Some 3,
              crt_glow_spread = Some 2, animationend = []\<rparr>,
      x = 400, y = 544, scale = 4,
      eventHandlers =
        [(Document, ''mousemove'', MouseHandler 4 150), (Document, ''click'', ClickHandler 5)],
      timers = [8], isDestroyed = False,
      isSpawning = False, isJumping = False, jumpCooldown = True, isFirstJump = False,
      colorRevealed = True, lastDirection = - 1, permanentGlowBonus = 0,
      lastMouseX = Some 64, lastMouseY = Some 800, glowAnimationId = None,
      mouseHandler = Some (MouseHandler 4 150), clickHandler = Some (ClickHandler 5),
      earlyMouseHandler = None,
      listeners =
        [(Document, ''mousemove'', MouseHandler 4 150), (Document, ''click'', ClickHandler 5)],
      pendingTimers = [(8, ClearCooldown)], pendingFrames = [], nextId = 9\<rparr>"
  by (simp add: cooling_def enabled_state model_defs event_defs)

lemma midair_state:
  "midair =
     \<lparr>element =
        Some \<lparr>classList = [''rabbit'', ''flipped'', ''crt-effects'', ''color-fade'', ''jumping''],
              parentNode = Some DocumentBody, style_left = Some 100, style_top = Some 544,
              jump_direction = Some (- 1), crt_glow_intensity = Some 3,
              crt_glow_spread = Some 2,
              animationend = [OnJumpEnd 7 (- 1) True StartCooldown]\<rparr>,
      x = 100, y = 544, scale = 4,
      eventHandlers =
        [(Document, ''mousemove'', MouseHandler 4 150), (Document, ''click'', ClickHandler 5)],
      timers = [], isDestroyed = False,
      isSpawning = False, isJumping = True, jumpCooldown = False, isFirstJump = False,
      colorRevealed = False, lastDirection = - 1, permanentGlowBonus = 0,
      lastMouseX = Some 64, lastMouseY = Some 800, glowAnimationId = Some 6,
      mouseHandler = Some (MouseHandler 4 150), clickHandler = Some (ClickHandler 5),
      earlyMouseHandler = None,
      listeners =
        [(Document, ''mousemove'', MouseHandler 4 150), (Document, ''click'', ClickHandler 5)],
      pendingTimers = [], pendingFrames = [6], nextId = 8\<rparr>"
  by (simp add: midair_def enabled_state model_defs event_defs)

section \<open>Jump direction at the edges\<close>

text \<open>
  C1. A jump after the first one, with stored position \<open>x\<close>, jump distance
  \<open>RABBIT_CONFIG.jumpDistance\<close>, visual width \<open>RABBIT_CONFIG.width * scale\<close>, viewport
  width \<open>innerWidth\<close> and edge margin 20: when only the left side is too close
  (\<open>x - J < 20\<close>) the jump goes right (direction \<open>-1\<close>); when only the right side is too
  close (\<open>x + J + Vw > W - 20\<close>) it goes left (direction \<open>1\<close>); when both hold the
  promise is fulfilled at once, the stored position and the spawning flag are unchanged
  and \<open>isJumping\<close> is false. For a direct caller that is the whole effect.
\<close>

theorem jump_edge_forces_direction:
  assumes "element s \<noteq> None" and "\<not> isSpawning s" and "\<not> isFirstJump s"
  shows
    "(x s - jumpDistance RABBIT_CONFIG < 20 \<and>
      \<not> x s + jumpDistance RABBIT_CONFIG + width RABBIT_CONFIG * scale s > innerWidth e - 20
        \<longrightarrow> jump_started (- 1) False k s (jump k e s)) \<and>
     (x s + jumpDistance RABBIT_CONFIG + width RABBIT_CONFIG * scale s > innerWidth e - 20 \<and>
      \<not> x s - jumpDistance RABBIT_CONFIG < 20
        \<longrightarrow> jump_started 1 False k s (jump k e s)) \<and>
     (x s - jumpDistance RABBIT_CONFIG < 20 \<and>
      x s + jumpDistance RABBIT_CONFIG + width RABBIT_CONFIG * scale s > innerWidth e - 20
        \<longrightarrow> jump k e s = (Fulfilled, resolve k (s\<lparr>isJumping := False\<rparr>)) \<and>
            x (snd (jump k e s)) = x s \<and> \<not> isJumping (snd (jump k e s)) \<and>
            isSpawning (snd (jump k e s)) = isSpawning s \<and>
            element (snd (jump k e s)) = element s \<and>
            jump NoCallback e s = (Fulfilled, s\<lparr>isJumping := False\<rparr>))"
  using assms startJump_started [of s "- 1" False k] startJump_started [of s 1 False k]
  by (auto simp add: jump_def canGoLeft_def canGoRight_def edgeMargin_def)

theorem jump_edge_forces_direction_witness:
  "jump_started (- 1) False NoCallback (jumped 0) (jump NoCallback (viewport 1000 0) (jumped 0)) \<and>
   jump_started 1 False NoCallback (jumped 100) (jump NoCallback (viewport 700 0) (jumped 100)) \<and>
   jump NoCallback (viewport 500 0) (jumped 0) = (Fulfilled, (jumped 0)\<lparr>isJumping := False\<rparr>)"
proof -
  have idle: "element (jumped 0) \<noteq> None" "\<not> isSpawning (jumped 0)" "\<not> isFirstJump (jumped 0)"
    "element (jumped 100) \<noteq> None" "\<not> isSpawning (jumped 100)" "\<not> isFirstJump (jumped 100)"
    by (simp_all add: jumped_state)
  have geometry:
    "x (jumped 0) = 300" "scale (jumped 0) = 4" "x (jumped 100) = 400" "scale (jumped 100) = 4"
    "jumpDistance RABBIT_CONFIG = 300" "width RABBIT_CONFIG = 32"
    "innerWidth (viewport 1000 0) = 1000" "innerWidth (viewport 700 0) = 700"
    "innerWidth (viewport 500 0) = 500"
    by (simp_all add: jumped_state RABBIT_CONFIG_def viewport_def)
  show ?thesis
    using jump_edge_forces_direction [of "jumped 0" "viewport 1000 0" NoCallback]
      jump_edge_forces_direction [of "jumped 100" "viewport 700 0" NoCallback]
      jump_edge_forces_direction [of "jumped 0" "viewport 500 0" NoCallback]
    by (simp only: idle geometry) simp
qed

section \<open>Completion of a jump\<close>

lemma element_listeners_simps [simp]:
  "element_listeners (updatePosition s) = element_listeners s"
  "element_listeners (stopGlowAnimation s) = element_listeners s"
  "element_listeners (startGlowAnimation s) = element_listeners s"
  "element_listeners (resolve k s) = element_listeners s"
  by (simp_all add: element_listeners_def split: option.splits)

lemma onSpawnEnd_other_name:
  "animationName \<noteq> ''rabbit-spawn-drop'' \<Longrightarrow> onSpawnEnd i animationName e s = s"
  by (simp add: onSpawnEnd_def)

lemma dispatch_animationend_no_jump:
  "\<forall>l \<in> set ls. \<not> is_jump_listener l \<Longrightarrow>
   dispatch_animationend e ''rabbit-jump-sprite'' ls s = s"
proof (induction ls arbitrary: s)
  case Nil
  then show ?case by simp
next
  case (Cons l ls)
  then obtain i where "l = OnSpawnEnd i"
    by (cases l) auto
  with Cons show ?case
    by (simp add: invoke_listener_def onSpawnEnd_other_name)
qed

lemma dispatch_animationend_append:
  "dispatch_animationend e n (ls @ [l]) s =
     (let s' = dispatch_animationend e n ls s
      in if l \<in> set (element_listeners s') then invoke_listener e n l s' else s')"
  by (induction ls arbitrary: s) (simp_all add: Let_def)

lemma no_pending_not_member:
  "pendingJumps s = [] \<Longrightarrow> OnJumpEnd i d f k \<notin> set (element_listeners s)"
  by (auto simp add: pendingJumps_def filter_empty_conv)

lemma no_pending_all:
  "pendingJumps s = [] \<Longrightarrow> \<forall>l \<in> set (element_listeners s). \<not> is_jump_listener l"
  by (simp add: pendingJumps_def filter_empty_conv)

lemma startJump_listeners_append:
  assumes "element s \<noteq> None" and "pendingJumps s = []"
  shows "\<exists>i. element_listeners (snd (startJump d f k s)) = element_listeners s @ [OnJumpEnd i d f k]"
proof -
  from assms(1) obtain el where el: "element s = Some el"
    by auto
  let ?i = "nextId (startGlowAnimation (s\<lparr>lastDirection := d, element := Some
      (classList_add ''jumping'' (classList_remove ''jumping''
        ((if d = - 1 then classList_add ''flipped'' else classList_remove ''flipped'')
          (el\<lparr>jump_direction := Some d\<rparr>))))\<rparr>))"
  from no_pending_not_member [OF assms(2)] el
  have "OnJumpEnd ?i d f k \<notin> set (animationend el)"
    by (simp add: element_listeners_def)
  with el show ?thesis
    by (auto simp add: startJump_def Let_def element_listeners_def element_addEventListener_def)
qed

lemma onJumpEnd_effect:
  assumes "element s \<noteq> None"
  shows "x (onJumpEnd i d f k ''rabbit-jump-sprite'' s) = x s - jumpDistance RABBIT_CONFIG * d"
    and "isJumping (onJumpEnd i d f k ''rabbit-jump-sprite'' s) = False"
    and "colorRevealed (onJumpEnd i d f k ''rabbit-jump-sprite'' s) = (f \<or> colorRevealed s)"
    and "element_listeners (onJumpEnd i d f k ''rabbit-jump-sprite'' s) =
           removeAll (OnJumpEnd i d f k) (element_listeners s)"
  using assms
  by (auto simp add: onJumpEnd_def Let_def element_listeners_def)

lemma jump_completes:
  assumes "element s \<noteq> None" and "pendingJumps s = []"
  shows "x (animationend_event e ''rabbit-jump-sprite'' (snd (startJump d f k s))) =
           x s - jumpDistance RABBIT_CONFIG * d"
    and "isJumping (animationend_event e ''rabbit-jump-sprite'' (snd (startJump d f k s))) = False"
    and "colorRevealed (animationend_event e ''rabbit-jump-sprite'' (snd (startJump d f k s))) =
           (f \<or> colorRevealed s)"
proof -
  let ?s' = "snd (startJump d f k s)"
  from startJump_listeners_append [OF assms] obtain i
    where ls: "element_listeners ?s' = element_listeners s @ [OnJumpEnd i d f k]"
    by blast
  from startJump_element [of s _ d f k] assms(1) have el': "element ?s' \<noteq> None"
    by (cases "element s") auto
  have "animationend_event e ''rabbit-jump-sprite'' ?s' =
          onJumpEnd i d f k ''rabbit-jump-sprite'' ?s'"
    using ls dispatch_animationend_no_jump [OF no_pending_all [OF assms(2)]]
    by (simp add: animationend_event_def dispatch_animationend_append invoke_listener_def)
  with onJumpEnd_effect [OF el'] show
    "x (animationend_event e ''rabbit-jump-sprite'' ?s') = x s - jumpDistance RABBIT_CONFIG * d"
    "isJumping (animationend_event e ''rabbit-jump-sprite'' ?s') = False"
    "colorRevealed (animationend_event e ''rabbit-jump-sprite'' ?s') = (f \<or> colorRevealed s)"
    by simp_all
qed


section \<open>The first jump\<close>

lemma pendingJumps_color_fade [simp]:
  "pendingJumps (s\<lparr>isFirstJump := b, element := map_option (classList_add c) (element s)\<rparr>) = pendingJumps s"
  by (simp add: pendingJumps_def element_listeners_def split: option.splits)

lemma first_jump_unfold:
  "element s \<noteq> None \<Longrightarrow> \<not> isSpawning s \<Longrightarrow> isFirstJump s \<Longrightarrow>
   jump k e s =
     startJump (if canGoRight e s then - 1 else 1) True k
       (s\<lparr>isFirstJump := False, element := map_option (classList_add ''color-fade'') (element s)\<rparr>)"
  by (auto simp add: jump_def)

lemma startJump_keeps_class:
  "element s = Some el \<Longrightarrow> c \<in> set (classList el) \<Longrightarrow> c \<noteq> ''flipped'' \<Longrightarrow> c \<noteq> ''jumping'' \<Longrightarrow>
   \<exists>el'. element (snd (startJump d f k s)) = Some el' \<and> c \<in> set (classList el')"
  using startJump_element [of s el d f k] by auto

text \<open>
  C10. The abort for a rabbit trapped between both edges is in the branch of the later
  jumps only. On the first jump (idle, no jump in flight, as is every rabbit before its
  first jump: \<open>first_jump_nothing_in_flight\<close> below) with neither direction
  feasible, \<open>jump()\<close> does not abort: it chooses left (direction \<open>1\<close>), starts the
  animation with the promise pending, and the completion signal moves the stored
  position by the jump distance, to \<open>x - jumpDistance\<close>.
\<close>

theorem first_jump_never_aborts:
  assumes "element s \<noteq> None" and "\<not> isSpawning s" and "isFirstJump s"
    and "pendingJumps s = []"
    and "\<not> canGoLeft s" and "\<not> canGoRight e s"
  shows "jump_started 1 True k s (jump k e s) \<and>
         x (animationend_event e' ''rabbit-jump-sprite'' (snd (jump k e s))) =
           x s - jumpDistance RABBIT_CONFIG"
proof -
  let ?s = "s\<lparr>isFirstJump := False, element := map_option (classList_add ''color-fade'') (element s)\<rparr>"
  have j: "jump k e s = startJump 1 True k ?s"
    using assms by (simp add: first_jump_unfold)
  have el: "element ?s \<noteq> None"
    using assms(1) by auto
  have "jump_started 1 True k ?s (jump k e s)"
    unfolding j by (rule startJump_started [OF el])
  then have "jump_started 1 True k s (jump k e s)"
    by (simp add: jump_started_def)
  moreover have "x (animationend_event e' ''rabbit-jump-sprite'' (snd (jump k e s))) =
      x s - jumpDistance RABBIT_CONFIG"
    unfolding j using jump_completes(1) [OF el, of e' 1 True k] assms(4) by simp
  ultimately show ?thesis by simp
qed

text \<open>
  C2. The first jump of an idle, spawned rabbit (no jump in flight) goes right
  (direction \<open>-1\<close>) when right is feasible and left otherwise; the class
  \<open>color-fade\<close> is on the element when \<open>jump()\<close> returns, the first-jump latch is
  cleared, \<open>colorRevealed\<close> is not changed by \<open>jump()\<close> itself and is true after the
  completion signal. In the scenario (spawned at \<open>x = 100\<close>, viewport 1000 wide, jump
  distance 300, margin 20) the first jump goes right, \<open>colorRevealed\<close> is still false
  when \<open>jump()\<close> returns, and after the completion signal the stored position is 400
  and \<open>colorRevealed\<close> is true.
\<close>

theorem first_jump_prefers_right:
  assumes "element s \<noteq> None" and "\<not> isSpawning s" and "isFirstJump s"
    and "pendingJumps s = []"
  shows "(canGoRight e s \<longrightarrow> jump_started (- 1) True k s (jump k e s)) \<and>
         (\<not> canGoRight e s \<longrightarrow> jump_started 1 True k s (jump k e s)) \<and>
         (\<exists>el'. element (snd (jump k e s)) = Some el' \<and> ''color-fade'' \<in> set (classList el')) \<and>
         \<not> isFirstJump (snd (jump k e s)) \<and>
         colorRevealed (snd (jump k e s)) = colorRevealed s \<and>
         colorRevealed (animationend_event e' ''rabbit-jump-sprite'' (snd (jump k e s))) \<and>
         (innerWidth e = 1000 \<longrightarrow>
            jump_started (- 1) True k (spawned 100) (jump k e (spawned 100)) \<and>
            \<not> colorRevealed (snd (jump k e (spawned 100))) \<and>
            x (animationend_event e' ''rabbit-jump-sprite'' (snd (jump k e (spawned 100)))) = 400 \<and>
            colorRevealed (animationend_event e' ''rabbit-jump-sprite'' (snd (jump k e (spawned 100)))))"
proof -
  have general: "(canGoRight e t \<longrightarrow> jump_started (- 1) True k t (jump k e t)) \<and>
         (\<not> canGoRight e t \<longrightarrow> jump_started 1 True k t (jump k e t)) \<and>
         (\<exists>el'. element (snd (jump k e t)) = Some el' \<and> ''color-fade'' \<in> set (classList el')) \<and>
         \<not> isFirstJump (snd (jump k e t)) \<and>
         colorRevealed (snd (jump k e t)) = colorRevealed t \<and>
         colorRevealed (animationend_event e' ''rabbit-jump-sprite'' (snd (jump k e t))) \<and>
         x (animationend_event e' ''rabbit-jump-sprite'' (snd (jump k e t))) =
           x t - jumpDistance RABBIT_CONFIG * (if canGoRight e t then - 1 else 1)"
    if t: "element t \<noteq> None" "\<not> isSpawning t" "isFirstJump t" "pendingJumps t = []" for t
  proof -
    let ?d = "if canGoRight e t then - 1 else 1 :: real"
    let ?t = "t\<lparr>isFirstJump := False, element := map_option (classList_add ''color-fade'') (element t)\<rparr>"
    have j: "jump k e t = startJump ?d True k ?t"
      using t by (simp add: first_jump_unfold)
    from t(1) obtain el where el: "element ?t = Some (classList_add ''color-fade'' el)"
      by auto
    have el': "element ?t \<noteq> None"
      using t(1) by auto
    have "jump_started ?d True k ?t (jump k e t)"
      unfolding j by (rule startJump_started [OF el'])
    then have started: "jump_started ?d True k t (jump k e t)"
      by (simp add: jump_started_def)
    have fade: "\<exists>el'. element (snd (jump k e t)) = Some el' \<and> ''color-fade'' \<in> set (classList el')"
      unfolding j by (rule startJump_keeps_class [OF el]) simp_all
    have rest: "\<not> isFirstJump (snd (jump k e t))" "colorRevealed (snd (jump k e t)) = colorRevealed t"
      unfolding j by simp_all
    have completed: "colorRevealed (animationend_event e' ''rabbit-jump-sprite'' (snd (jump k e t)))"
      "x (animationend_event e' ''rabbit-jump-sprite'' (snd (jump k e t))) =
         x t - jumpDistance RABBIT_CONFIG * ?d"
      unfolding j using jump_completes [OF el', of e' ?d True k] t(4) by simp_all
    from started fade rest completed show ?thesis
      by (simp split: if_splits)
  qed
  have idle: "element (spawned 100) \<noteq> None" "\<not> isSpawning (spawned 100)"
    "isFirstJump (spawned 100)" "pendingJumps (spawned 100) = []"
    "\<not> colorRevealed (spawned 100)" "x (spawned 100) = 100"
    by (simp_all add: spawned_state pendingJumps_def element_listeners_def)
  have right: "canGoRight e (spawned 100)" if "innerWidth e = 1000"
    using that by (simp add: canGoRight_def spawned_state RABBIT_CONFIG_def edgeMargin_def)
  have J: "jumpDistance RABBIT_CONFIG = 300"
    by (simp add: RABBIT_CONFIG_def)
  show ?thesis
    using general [OF assms] general [OF idle(1-4)] idle(5,6) right J
    by auto
qed


theorem first_jump_never_aborts_witness:
  "jump_started 1 True NoCallback (spawned 100) (jump NoCallback (viewport 500 0) (spawned 100)) \<and>
   x (animationend_event (viewport 500 0) ''rabbit-jump-sprite''
        (snd (jump NoCallback (viewport 500 0) (spawned 100)))) = - 200"
proof -
  have idle: "element (spawned 100) \<noteq> None" "\<not> isSpawning (spawned 100)"
    "isFirstJump (spawned 100)" "pendingJumps (spawned 100) = []"
    by (simp_all add: spawned_state pendingJumps_def element_listeners_def)
  have trapped: "\<not> canGoLeft (spawned 100)" "\<not> canGoRight (viewport 500 0) (spawned 100)"
    by (simp_all add: canGoLeft_def canGoRight_def spawned_state RABBIT_CONFIG_def
        edgeMargin_def viewport_def)
  have "x (spawned 100) - jumpDistance RABBIT_CONFIG = - 200"
    by (simp add: spawned_state RABBIT_CONFIG_def)
  with first_jump_never_aborts [OF idle trapped, of NoCallback "viewport 500 0"]
  show ?thesis by simp
qed

theorem first_jump_prefers_right_witness:
  "jump_started (- 1) True NoCallback (spawned 100) (jump NoCallback (viewport 1000 0) (spawned 100)) \<and>
   jump_started 1 True NoCallback (spawned 700) (jump NoCallback (viewport 1000 0) (spawned 700)) \<and>
   \<not> colorRevealed (snd (jump NoCallback (viewport 1000 0) (spawned 100))) \<and>
   x (animationend_event (viewport 1000 0) ''rabbit-jump-sprite''
        (snd (jump NoCallback (viewport 1000 0) (spawned 100)))) = 400 \<and>
   colorRevealed (animationend_event (viewport 1000 0) ''rabbit-jump-sprite''
        (snd (jump NoCallback (viewport 1000 0) (spawned 100))))"
proof -
  have idle: "element (spawned x0) \<noteq> None" "\<not> isSpawning (spawned x0)"
    "isFirstJump (spawned x0)" "pendingJumps (spawned x0) = []" for x0
    by (simp_all add: spawned_state pendingJumps_def element_listeners_def)
  have geometry: "innerWidth (viewport 1000 0) = 1000"
    "canGoRight (viewport 1000 0) (spawned 100)" "\<not> canGoRight (viewport 1000 0) (spawned 700)"
    by (simp_all add: canGoRight_def spawned_state RABBIT_CONFIG_def edgeMargin_def viewport_def)
  show ?thesis
    using first_jump_prefers_right [OF idle, of "viewport 1000 0" 100 NoCallback "viewport 1000 0"]
      first_jump_prefers_right [OF idle, of "viewport 1000 0" 700 NoCallback "viewport 1000 0"]
      geometry
    by simp
qed

section \<open>The random direction\<close>

lemma random_jump_unfold:
  "element s \<noteq> None \<Longrightarrow> \<not> isSpawning s \<Longrightarrow> \<not> isFirstJump s \<Longrightarrow>
   canGoLeft s \<Longrightarrow> canGoRight e s \<Longrightarrow>
   jump k e s =
     startJump (if Math_random e < 1 / 3 then - lastDirection s else lastDirection s) False k s"
  by (auto simp add: jump_def)

text \<open>
  C9. A later jump with both directions feasible takes the opposite of
  \<open>lastDirection\<close> when the random draw is below \<open>1/3\<close> and \<open>lastDirection\<close>
  otherwise, and records the chosen direction as the new \<open>lastDirection\<close>. With
  \<open>lastDirection\<close> right (\<open>-1\<close>), the draws of \<open>[0, 1)\<close> that choose left are exactly
  \<open>[0, 1/3)\<close> and those that choose right are exactly \<open>[1/3, 1)\<close>: a third and two
  thirds of the interval a uniform draw comes from.
\<close>

theorem random_direction_bias:
  assumes "element s \<noteq> None" and "\<not> isSpawning s" and "\<not> isFirstJump s"
    and "canGoLeft s" and "canGoRight e s"
  shows
    "jump_started (if Math_random e < 1 / 3 then - lastDirection s else lastDirection s)
       False k s (jump k e s) \<and>
     (lastDirection s = - 1 \<longrightarrow>
        {r. 0 \<le> r \<and> r < 1 \<and> lastDirection (snd (jump k (e\<lparr>Math_random := r\<rparr>) s)) = 1}
          = {0 ..< 1 / 3} \<and>
        {r. 0 \<le> r \<and> r < 1 \<and> lastDirection (snd (jump k (e\<lparr>Math_random := r\<rparr>) s)) = - 1}
          = {1 / 3 ..< 1})"
proof -
  have "jump_started (if Math_random e < 1 / 3 then - lastDirection s else lastDirection s)
       False k s (jump k e s)"
    using assms startJump_started [of s _ False k] by (simp add: random_jump_unfold)
  moreover have "canGoRight (e\<lparr>Math_random := r\<rparr>) s" for r
    using assms(5) by (simp add: canGoRight_def)
  then have "lastDirection (snd (jump k (e\<lparr>Math_random := r\<rparr>) s)) =
      (if r < 1 / 3 then - lastDirection s else lastDirection s)" for r
    using assms by (simp add: random_jump_unfold)
  ultimately show ?thesis
    by auto
qed

theorem random_direction_bias_witness:
  "jump_started 1 False NoCallback (jumped 100) (jump NoCallback (viewport 1000 0.2) (jumped 100)) \<and>
   jump_started (- 1) False NoCallback (jumped 100) (jump NoCallback (viewport 1000 0.5) (jumped 100)) \<and>
   {r. 0 \<le> r \<and> r < 1 \<and>
       lastDirection (snd (jump NoCallback ((viewport 1000 0.5)\<lparr>Math_random := r\<rparr>) (jumped 100))) = 1}
     = {0 ..< 1 / 3}"
proof -
  have idle: "element (jumped 100) \<noteq> None" "\<not> isSpawning (jumped 100)"
    "\<not> isFirstJump (jumped 100)"
    by (simp_all add: jumped_state)
  have free: "canGoLeft (jumped 100)" "canGoRight (viewport 1000 r) (jumped 100)" for r
    by (simp_all add: canGoLeft_def canGoRight_def jumped_state RABBIT_CONFIG_def
        edgeMargin_def viewport_def)
  have facts: "lastDirection (jumped 100) = - 1" "Math_random (viewport 1000 r) = r" for r
    by (simp_all add: jumped_state viewport_def)
  show ?thesis
    using random_direction_bias [OF idle free(1) free(2) [of "0.2"], of NoCallback]
      random_direction_bias [OF idle free(1) free(2) [of "0.5"], of NoCallback]
    by (simp add: facts)
qed

section \<open>The glow\<close>

text \<open>
  C4. For a distance \<open>d \<ge> 0\<close> given to \<open>updateGlow\<close> on a rabbit with an element: the
  proximity factor is 0 when \<open>d \<ge> glowRange\<close> and \<open>(1 - d/glowRange)\<close> to the power
  \<open>glowExponent\<close> otherwise; the intensity written to \<open>--crt-glow-intensity\<close> is
  \<open>1 + t * maxProximityGlow + permanentGlowBonus\<close>; for \<open>d \<ge> glowRange\<close> that is
  \<open>1 + permanentGlowBonus\<close>; and, the glow range being positive, for \<open>d = 0\<close> it is
  \<open>1 + maxProximityGlow + permanentGlowBonus\<close>.
\<close>

theorem updateGlow_intensity:
  assumes "element s \<noteq> None" and "0 \<le> d"
  shows
    "proximityFactor cfg (Finite d) =
       (if d \<ge> glowRange cfg then 0 else (1 - d / glowRange cfg) powr glowExponent cfg) \<and>
     glowIntensity (updateGlow cfg (Finite d) s) =
       Some (1 + proximityFactor cfg (Finite d) * maxProximityGlow cfg + permanentGlowBonus s) \<and>
     (d \<ge> glowRange cfg \<longrightarrow>
        glowIntensity (updateGlow cfg (Finite d) s) = Some (1 + permanentGlowBonus s)) \<and>
     (0 < glowRange cfg \<longrightarrow>
        glowIntensity (updateGlow cfg (Finite 0) s) =
          Some (1 + maxProximityGlow cfg + permanentGlowBonus s))"
  using assms
  by (auto simp add: updateGlow_def proximityFactor_def Math_pow_def glowIntensity_def)

theorem updateGlow_intensity_witness:
  "glowIntensity (updateGlow example_glow (Finite 200) (spawned 100)) = Some (3 / 2) \<and>
   glowIntensity (updateGlow example_glow (Finite 400) (spawned 100)) = Some 1 \<and>
   glowIntensity (updateGlow example_glow (Finite 0) (spawned 100)) = Some 3"
proof -
  have s: "element (spawned 100) \<noteq> None" "permanentGlowBonus (spawned 100) = 0"
    by (simp_all add: spawned_state)
  have c: "glowRange example_glow = 400" "maxProximityGlow example_glow = 2"
    "glowExponent example_glow = 2"
    by (simp_all add: example_glow_def)
  show ?thesis
    using updateGlow_intensity [OF s(1), of 200 example_glow]
      updateGlow_intensity [OF s(1), of 400 example_glow]
    by (simp add: s c power2_eq_square)
qed

section \<open>Destroying the rabbit\<close>

lemma fold_clearTimeout:
  "fold clearTimeout is s = s\<lparr>pendingTimers := filter (\<lambda>p. fst p \<notin> set is) (pendingTimers s)\<rparr>"
proof (induction "is" arbitrary: s)
  case Nil
  then show ?case by simp
next
  case (Cons i "is")
  have "filter (\<lambda>p. fst p \<notin> set is) (filter (\<lambda>p. fst p \<noteq> i) ps) =
        filter (\<lambda>p. fst p \<notin> set (i # is)) ps" for ps :: "(nat \<times> timer_callback) list"
    by (induction ps) auto
  with Cons show ?case
    by (simp add: clearTimeout_def)
qed

lemma fold_target_removeEventListener:
  "fold target_removeEventListener ls s = s\<lparr>listeners := filter (\<lambda>l. l \<notin> set ls) (listeners s)\<rparr>"
proof (induction ls arbitrary: s)
  case Nil
  then show ?case by simp
next
  case (Cons l ls)
  have "filter (\<lambda>l. l \<notin> set ls) (removeAll l ks) = filter (\<lambda>k. k \<notin> set (l # ls)) ks"
    for ks :: "(event_target \<times> string \<times> handler) list"
    by (induction ks) auto
  with Cons show ?case
    by (simp add: target_removeEventListener_def)
qed

lemma Sprite_destroy_eq:
  "Sprite_destroy s =
     (if isDestroyed s then s
      else s\<lparr>isDestroyed := True,
             listeners := filter (\<lambda>l. l \<notin> set (eventHandlers s)) (listeners s),
             eventHandlers := [],
             pendingTimers := filter (\<lambda>p. fst p \<notin> set (timers s)) (pendingTimers s),
             timers := [], element := None\<rparr>)"
  by (simp add: Sprite_destroy_def fold_clearTimeout fold_target_removeEventListener)

lemma Sprite_destroy_idem: "Sprite_destroy (Sprite_destroy s) = Sprite_destroy s"
  by (simp add: Sprite_destroy_eq)

lemma stopGlowAnimation_not_running [simp]: "\<not> glowAnimationRunning (stopGlowAnimation s)"
  by (simp add: stopGlowAnimation_def glowAnimationRunning_def)

lemma quiet_disableMouseReaction_id: "quiet s \<Longrightarrow> disableMouseReaction s = s"
  by (simp add: quiet_def disableMouseReaction_def stopGlowAnimation_def
      removeEarlyMouseHandler_def)

lemma quiet_disableMouseReaction: "quiet (disableMouseReaction s)"
  using stopGlowAnimation_not_running [of s]
  by (simp add: quiet_def glowAnimationRunning_def)

lemma quiet_Sprite_destroy: "quiet s \<Longrightarrow> quiet (Sprite_destroy s)"
  by (simp add: quiet_def Sprite_destroy_eq glowAnimationRunning_def)

section \<open>Events preserve what every handler preserves\<close>

lemma respawned_state:
  "respawned =
     \<lparr>element =
        Some \<lparr>classList =
                [''rabbit'', ''spawning'', ''flipped'', ''crt-effects'', ''color-fade'', ''jumping''],
              parentNode = Some DocumentBody, style_left = Some 100, style_top = Some 0,
              jump_direction = Some (- 1), crt_glow_intensity = None, crt_glow_spread = None,
              animationend = [OnSpawnEnd 8, OnJumpEnd 11 (- 1) True StartCooldown]\<rparr>,
      x = 100, y = 0, scale = 4,
      eventHandlers =
        [(Document, ''mousemove'', MouseHandler 9 150), (Document, ''click'', ClickHandler 10)],
      timers = [], isDestroyed = True,
      isSpawning = False, isJumping = True, jumpCooldown = False, isFirstJump = False,
      colorRevealed = False, lastDirection = - 1, permanentGlowBonus = 0,
      lastMouseX = Some 64, lastMouseY = Some 800, glowAnimationId = Some 7,
      mouseHandler = Some (MouseHandler 9 150), clickHandler = Some (ClickHandler 10),
      earlyMouseHandler = None,
      listeners =
        [(Document, ''mousemove'', MouseHandler 9 150), (Document, ''click'', ClickHandler 10)],
      pendingTimers = [], pendingFrames = [7], nextId = 12\<rparr>"
  by (simp add: respawned_def enabled_state model_defs event_defs destroy_def Sprite_destroy_eq
     disableMouseReaction_def forgetHandler_def)

lemma dispatch_rule:
  assumes "P s"
    and "\<And>h t. P t \<Longrightarrow> (Document, ev, h) \<in> set (listeners t) \<Longrightarrow> P (invoke cfg e cx cy h t)"
  shows "P (dispatch cfg e ev cx cy hs s)"
  using assms(1)
proof (induction hs arbitrary: s)
  case Nil
  then show ?case by simp
next
  case (Cons h hs)
  then show ?case
    by (simp add: assms(2))
qed

lemma dispatch_animationend_rule:
  assumes "P s"
    and "\<And>l t. P t \<Longrightarrow> l \<in> set (element_listeners t) \<Longrightarrow> P (invoke_listener e n l t)"
  shows "P (dispatch_animationend e n ls s)"
  using assms(1)
proof (induction ls arbitrary: s)
  case Nil
  then show ?case by simp
next
  case (Cons l ls)
  then show ?case
    by (simp add: assms(2))
qed

lemma run_frames_rule:
  assumes "P s"
    and "\<And>i t. P t \<Longrightarrow> P (animate cfg e (t\<lparr>pendingFrames := removeAll i (pendingFrames t)\<rparr>))"
  shows "P (run_frames cfg e is s)"
  using assms(1)
proof (induction "is" arbitrary: s)
  case Nil
  then show ?case by simp
next
  case (Cons i "is")
  then show ?case
    by (simp add: assms(2))
qed

text \<open>
  A property that every handler, listener and callback of the rabbit preserves is
  preserved by every event the browser delivers.
\<close>

lemma event_rule:
  assumes "is_event op" and "P s"
    and early: "\<And>cx cy t. P t \<Longrightarrow> P (earlyMouseHandler_body cx cy t)"
    and mouse: "\<And>th cx cy t. P t \<Longrightarrow> P (mouseHandler_body cfg th e cx cy t)"
    and click: "\<And>cx cy t. P t \<Longrightarrow> P (clickHandler_body cfg e cx cy t)"
    and spawnEnd: "\<And>i n t. P t \<Longrightarrow> OnSpawnEnd i \<in> set (element_listeners t) \<Longrightarrow>
                     P (onSpawnEnd i n e t)"
    and jumpEnd: "\<And>i d f k n t. P t \<Longrightarrow> OnJumpEnd i d f k \<in> set (element_listeners t) \<Longrightarrow>
                     P (onJumpEnd i d f k n t)"
    and timer: "\<And>i t. P t \<Longrightarrow> P (timer_fired i t)"
    and frame: "\<And>i t. P t \<Longrightarrow>
                     P (animate cfg e (t\<lparr>pendingFrames := removeAll i (pendingFrames t)\<rparr>))"
  shows "P (step cfg (e, op) s)"
proof -
  have inv: "P (invoke cfg e cx cy h t)" if "P t" for cx cy h t
    using that early mouse click by (cases h) (simp_all add: invoke_def)
  have lis: "P (invoke_listener e n l t)" if "P t" "l \<in> set (element_listeners t)" for n l t
    using that spawnEnd jumpEnd by (cases l) (simp_all add: invoke_listener_def)
  show ?thesis
  proof (cases op)
    case (MouseMove cx cy)
    then show ?thesis
      using dispatch_rule [of P s, OF assms(2)] inv by (simp add: document_event_def)
  next
    case (Click cx cy)
    then show ?thesis
      using dispatch_rule [of P s, OF assms(2)] inv by (simp add: document_event_def)
  next
    case (AnimationEnd n)
    then show ?thesis
      using dispatch_animationend_rule [of P s, OF assms(2)] lis
      by (simp add: animationend_event_def)
  next
    case (TimerFired i)
    then show ?thesis
      using timer [OF assms(2)] by simp
  next
    case AnimationFrame
    then show ?thesis
      using run_frames_rule [of P s, OF assms(2)] frame by (simp add: animation_frame_def)
  qed (use assms(1) in simp_all)
qed


section \<open>After destroy\<close>

lemma run_Nil [simp]: "run cfg [] s = s"
  by (simp add: run_def)

lemma run_Cons [simp]: "run cfg (eo # ops) s = run cfg ops (step cfg eo s)"
  by (simp add: run_def)

lemma run_append: "run cfg (ops @ ops') s = run cfg ops' (run cfg ops s)"
  by (simp add: run_def)

lemma no_element_simps:
  assumes "element s = None"
  shows "element (updateGlow cfg d s) = None"
    and "element (updateGlowFromStoredPosition cfg e s) = None"
    and "element (animate cfg e s) = None"
    and "element (snd (jump k e s)) = None"
    and "element (setPosition x0 y0 s) = None"
    and "enableMouseReaction th s = s"
    and "element (clickHandler_body cfg e cx cy s) = None"
    and "element (mouseHandler_body cfg t e cx cy s) = None"
    and "element_listeners s = []"
  using assms
  by (simp_all add: updateGlow_def updateGlowFromStoredPosition_def animate_def jump_def
      setPosition_def enableMouseReaction_def clickHandler_body_def mouseHandler_body_def
      getDistanceToBottomCenter_def element_listeners_def Let_def split: option.splits)

lemma destroy_fields [simp]:
  "isDestroyed (destroy s)"
  "isDestroyed (Sprite_destroy s)"
  "colorRevealed (destroy s) = colorRevealed s"
  "permanentGlowBonus (destroy s) = permanentGlowBonus s"
  "isFirstJump (destroy s) = isFirstJump s"
  "isJumping (destroy s) = isJumping s"
  by (simp_all add: destroy_def Sprite_destroy_eq)

lemma element_destroy: "\<not> isDestroyed s \<Longrightarrow> element (destroy s) = None"
  by (simp add: destroy_def Sprite_destroy_eq)

lemma element_destroy_None: "element s = None \<Longrightarrow> element (destroy s) = None"
  by (simp add: destroy_def Sprite_destroy_eq)

lemma step_no_element:
  assumes "element s = None" and "\<not> is_spawn op"
  shows "element (step cfg (e, op) s) = None"
proof (cases "is_event op")
  case True
  then show ?thesis
    by (rule event_rule [where P = "\<lambda>t. element t = None"])
       (simp_all add: assms(1) no_element_simps)
next
  case False
  with assms show ?thesis
    by (cases op) (simp_all add: no_element_simps element_destroy_None)
qed

lemma step_isDestroyed:
  assumes "isDestroyed s"
  shows "isDestroyed (step cfg (e, op) s)"
proof (cases "is_event op")
  case True
  then show ?thesis
    by (rule event_rule [where P = isDestroyed]) (simp_all add: assms)
next
  case False
  with assms show ?thesis
    by (cases op) simp_all
qed

lemma run_isDestroyed: "isDestroyed s \<Longrightarrow> isDestroyed (run cfg ops s)"
proof (induction ops arbitrary: s)
  case Nil
  then show ?case by simp
next
  case (Cons eo ops)
  then show ?case
    by (cases eo) (simp add: step_isDestroyed)
qed

lemma run_no_element:
  "element s = None \<Longrightarrow> \<forall>eo \<in> set ops. \<not> is_spawn (snd eo) \<Longrightarrow> element (run cfg ops s) = None"
proof (induction ops arbitrary: s)
  case Nil
  then show ?case by simp
next
  case (Cons eo ops)
  then show ?case
    by (cases eo) (simp add: step_no_element)
qed

section \<open>Destroy releases the subscriptions\<close>

lemma well_tracked_cong:
  assumes "listeners t = listeners s" and "eventHandlers t = eventHandlers s"
    and "mouseHandler t = mouseHandler s" and "clickHandler t = clickHandler s"
  shows "well_tracked t = well_tracked s"
  by (simp add: well_tracked_def assms)

lemma well_tracked_construct: "well_tracked (construct opts)"
  by (simp add: well_tracked_def construct_def)

lemma listeners_spawnAndDrop:
  "set (listeners (spawnAndDrop x0 y0 parent s)) \<subseteq>
     insert (Document, ''mousemove'', EarlyMouseHandler (nextId s)) (set (listeners s))"
  by (auto simp add: spawnAndDrop_def Let_def document_addEventListener_def split: if_splits)

lemma well_tracked_spawnAndDrop:
  assumes "well_tracked s"
  shows "well_tracked (spawnAndDrop x0 y0 parent s)"
  using assms listeners_spawnAndDrop [of x0 y0 parent s]
  by (fastforce simp add: well_tracked_def)

lemma listeners_removeEarlyMouseHandler:
  "listeners (removeEarlyMouseHandler s) =
     (case earlyMouseHandler s of None \<Rightarrow> listeners s
      | Some h \<Rightarrow> removeAll (Document, ''mousemove'', h) (listeners s))"
  by (simp add: removeEarlyMouseHandler_def target_removeEventListener_def split: option.splits)

lemma set_listeners_removeEarlyMouseHandler:
  "set (listeners (removeEarlyMouseHandler s)) \<subseteq> set (listeners s)"
  by (auto simp add: listeners_removeEarlyMouseHandler split: option.splits)

lemma well_tracked_removeEarlyMouseHandler:
  assumes "well_tracked s"
  shows "well_tracked (removeEarlyMouseHandler s)"
  using assms set_listeners_removeEarlyMouseHandler [of s]
  by (fastforce simp add: well_tracked_def)

lemma well_tracked_enableMouseReaction:
  assumes "well_tracked s"
  shows "well_tracked (enableMouseReaction th s)"
proof (cases "element s = None")
  case True
  with assms show ?thesis
    by (simp add: enableMouseReaction_def)
next
  case False
  let ?s1 = "removeEarlyMouseHandler s"
  have w1: "well_tracked ?s1"
    by (rule well_tracked_removeEarlyMouseHandler [OF assms])
  then show ?thesis
    using False
    by (auto simp add: well_tracked_def enableMouseReaction_def Let_def addEventListener_def
        document_addEventListener_def)
qed


lemma only_Document [simp]: "(t :: event_target) = Document"
  by (cases t) simp

lemma well_tracked_forgetHandler:
  assumes "well_tracked s" and "handler_event h = ev"
  shows "well_tracked (forgetHandler ev h s)"
proof -
  have "l \<in> set (eventHandlers (forgetHandler ev h s)) \<or> is_early (snd (snd l))"
    if "l \<in> set (listeners (forgetHandler ev h s))" for l
  proof -
    from that have l: "l \<in> set (listeners s)" "l \<noteq> (Document, ev, h)"
      by (simp_all add: forgetHandler_def target_removeEventListener_def)
    with assms(1) have e: "fst (snd l) = handler_event (snd (snd l))"
      and t: "l \<in> set (eventHandlers s) \<or> is_early (snd (snd l))"
      by (simp_all add: well_tracked_def)
    have "snd (snd l) \<noteq> h"
    proof
      assume "snd (snd l) = h"
      with e assms(2) have "l = (Document, ev, h)"
        by (cases l) simp
      with l(2) show False
        by simp
    qed
    with t show ?thesis
      by (simp add: forgetHandler_def)
  qed
  moreover have "fst (snd l) = handler_event (snd (snd l))"
    if "l \<in> set (listeners (forgetHandler ev h s))" for l
    using that assms(1)
    by (simp add: forgetHandler_def target_removeEventListener_def well_tracked_def)
  moreover have "\<not> is_early (snd (snd l))" if "l \<in> set (eventHandlers (forgetHandler ev h s))" for l
    using that assms(1) by (simp add: forgetHandler_def well_tracked_def)
  ultimately show ?thesis
    using assms(1) by (simp add: well_tracked_def)
qed

lemma well_tracked_stopGlowAnimation [simp]:
  "well_tracked (stopGlowAnimation s) = well_tracked s"
  by (simp add: well_tracked_def)

lemma well_tracked_forget_fields [simp]:
  "well_tracked (s\<lparr>mouseHandler := None\<rparr>) =
     ((\<forall>l \<in> set (listeners s).
        fst (snd l) = handler_event (snd (snd l)) \<and>
        (l \<in> set (eventHandlers s) \<or> is_early (snd (snd l)))) \<and>
      (\<forall>l \<in> set (eventHandlers s). \<not> is_early (snd (snd l))) \<and>
      (\<forall>h. clickHandler s = Some h \<longrightarrow> handler_event h = ''click''))"
  "well_tracked (s\<lparr>clickHandler := None\<rparr>) =
     ((\<forall>l \<in> set (listeners s).
        fst (snd l) = handler_event (snd (snd l)) \<and>
        (l \<in> set (eventHandlers s) \<or> is_early (snd (snd l)))) \<and>
      (\<forall>l \<in> set (eventHandlers s). \<not> is_early (snd (snd l))) \<and>
      (\<forall>h. mouseHandler s = Some h \<longrightarrow> handler_event h = ''mousemove''))"
  by (simp_all add: well_tracked_def)

lemma well_tracked_drop_handler:
  "well_tracked s \<Longrightarrow> well_tracked (s\<lparr>mouseHandler := None\<rparr>)"
  "well_tracked s \<Longrightarrow> well_tracked (s\<lparr>clickHandler := None\<rparr>)"
  by (simp_all add: well_tracked_def)

lemma well_tracked_disableMouseReaction:
  assumes "well_tracked s"
  shows "well_tracked (disableMouseReaction s)"
proof -
  let ?s1 = "removeEarlyMouseHandler (stopGlowAnimation s)"
  let ?s2 = "case mouseHandler ?s1 of None \<Rightarrow> ?s1
             | Some h \<Rightarrow> (forgetHandler ''mousemove'' h ?s1)\<lparr>mouseHandler := None\<rparr>"
  have w1: "well_tracked ?s1"
    using assms by (simp add: well_tracked_removeEarlyMouseHandler)
  have w2: "well_tracked ?s2"
  proof (cases "mouseHandler ?s1")
    case None
    with w1 show ?thesis by simp
  next
    case (Some h)
    with w1 have "handler_event h = ''mousemove''"
      by (simp add: well_tracked_def)
    from well_tracked_drop_handler(1) [OF well_tracked_forgetHandler [OF w1 this]] Some
    show ?thesis by simp
  qed
  show ?thesis
  proof (cases "clickHandler ?s2")
    case None
    with w2 show ?thesis
      by (simp add: disableMouseReaction_def Let_def)
  next
    case (Some h)
    with w2 have "handler_event h = ''click''"
      by (simp add: well_tracked_def)
    from well_tracked_drop_handler(2) [OF well_tracked_forgetHandler [OF w2 this]] Some
    show ?thesis
      by (simp add: disableMouseReaction_def Let_def)
  qed
qed

lemma well_tracked_Sprite_destroy:
  assumes "well_tracked s"
  shows "well_tracked (Sprite_destroy s)"
  using assms by (auto simp add: well_tracked_def Sprite_destroy_eq)

lemma well_tracked_destroy: "well_tracked s \<Longrightarrow> well_tracked (destroy s)"
  by (simp add: destroy_def well_tracked_Sprite_destroy well_tracked_disableMouseReaction)

lemma step_well_tracked:
  assumes "well_tracked s"
  shows "well_tracked (step cfg (e, op) s)"
proof (cases "is_event op")
  case True
  then show ?thesis
  proof (rule event_rule [where P = well_tracked])
    show "well_tracked s"
      by (rule assms)
  qed (simp_all add: well_tracked_def)
next
  case False
  then show ?thesis
  proof (cases op)
    case (CallSpawnAndDrop x0 y0 parent)
    with assms show ?thesis
      by (simp add: well_tracked_spawnAndDrop)
  next
    case (CallEnableMouseReaction th)
    with assms show ?thesis
      by (simp add: well_tracked_enableMouseReaction)
  next
    case CallDisableMouseReaction
    with assms show ?thesis
      by (simp add: well_tracked_disableMouseReaction)
  next
    case CallDestroy
    with assms show ?thesis
      by (simp add: well_tracked_destroy)
  qed (use assms in \<open>simp_all add: well_tracked_def\<close>)
qed

lemma run_well_tracked: "well_tracked s \<Longrightarrow> well_tracked (run cfg ops s)"
proof (induction ops arbitrary: s)
  case Nil
  then show ?case by simp
next
  case (Cons eo ops)
  then show ?case
    by (cases eo) (simp add: step_well_tracked)
qed


lemma listeners_forgetHandler [simp]:
  "listeners (forgetHandler ev h s) = removeAll (Document, ev, h) (listeners s)"
  by (simp add: forgetHandler_def target_removeEventListener_def)

lemma disableMouseReaction_unregisters:
  "earlyMouseHandler s = Some h \<Longrightarrow>
     (Document, ''mousemove'', h) \<notin> set (listeners (disableMouseReaction s))"
  "mouseHandler s = Some h \<Longrightarrow>
     (Document, ''mousemove'', h) \<notin> set (listeners (disableMouseReaction s))"
  "clickHandler s = Some h \<Longrightarrow>
     (Document, ''click'', h) \<notin> set (listeners (disableMouseReaction s))"
  by (simp_all add: disableMouseReaction_def Let_def listeners_removeEarlyMouseHandler
      split: option.splits)

lemma pendingFrames_disableMouseReaction:
  "pendingFrames (disableMouseReaction s) = pendingFrames (stopGlowAnimation s)"
  by (simp add: disableMouseReaction_def Let_def split: option.splits)

lemma listeners_destroy_subset:
  "set (listeners (destroy s)) \<subseteq> set (listeners (disableMouseReaction s))"
  by (auto simp add: destroy_def Sprite_destroy_eq)

lemma destroy_stops_glow:
  "\<not> glowAnimationRunning (destroy s)"
  "glowAnimationId s = Some i \<Longrightarrow> i \<noteq> 0 \<Longrightarrow> i \<notin> set (pendingFrames (destroy s))"
proof -
  have g: "glowAnimationId (destroy s) = glowAnimationId (stopGlowAnimation s)"
    "pendingFrames (destroy s) = pendingFrames (stopGlowAnimation s)"
    by (simp_all add: destroy_def Sprite_destroy_eq pendingFrames_disableMouseReaction)
  from stopGlowAnimation_not_running [of s] g(1) show "\<not> glowAnimationRunning (destroy s)"
    by (simp add: glowAnimationRunning_def)
  show "i \<notin> set (pendingFrames (destroy s))" if "glowAnimationId s = Some i" "i \<noteq> 0"
    using that by (simp add: g(2) stopGlowAnimation_def glowAnimationRunning_def)
qed

lemma destroy_releases_tracked:
  assumes "well_tracked s" and "\<not> isDestroyed s"
  shows "\<forall>l \<in> set (listeners (destroy s)). is_early (snd (snd l))"
    and "\<forall>l \<in> set (eventHandlers s). l \<notin> set (listeners (destroy s))"
proof -
  let ?s1 = "disableMouseReaction s"
  have w: "well_tracked ?s1"
    by (rule well_tracked_disableMouseReaction [OF assms(1)])
  have l: "listeners (destroy s) = filter (\<lambda>l. l \<notin> set (eventHandlers ?s1)) (listeners ?s1)"
    using assms(2) by (simp add: destroy_def Sprite_destroy_eq)
  show early: "\<forall>l \<in> set (listeners (destroy s)). is_early (snd (snd l))"
    using w by (auto simp add: l well_tracked_def)
  from assms(1) have "\<forall>l \<in> set (eventHandlers s). \<not> is_early (snd (snd l))"
    by (simp add: well_tracked_def)
  with early show "\<forall>l \<in> set (eventHandlers s). l \<notin> set (listeners (destroy s))"
    by blast
qed

text \<open>
  C7. \<open>destroy()\<close> is idempotent: from every state, calling it twice gives the state
  that calling it once gives (the model has no exception to raise: the source has no
  \<open>throw\<close>, and every use of the element in \<open>destroy\<close> is guarded). After the first
  call on a rabbit not yet destroyed, \<open>eventHandlers\<close> and \<open>timers\<close> are empty, the
  element is forgotten and no timeout that was tracked is still pending. After
  \<open>destroy()\<close> the stored early, mouse and click handlers are no longer on
  \<open>document\<close>, the glow loop is stopped and its frame request cancelled. And for a
  rabbit reached from construction by any calls and events, no subscription that was
  tracked is left on \<open>document\<close> after the first \<open>destroy()\<close>: what is left there, if
  anything, are early pointer trackers, which were never tracked.
\<close>

theorem destroy_idempotent:
  "destroy (destroy s) = destroy s \<and>
   (\<not> isDestroyed s \<longrightarrow>
      isDestroyed (destroy s) \<and> eventHandlers (destroy s) = [] \<and> timers (destroy s) = [] \<and>
      element (destroy s) = None \<and>
      (\<forall>i \<in> set (timers s). i \<notin> fst ` set (pendingTimers (destroy s))) \<and>
      (\<forall>l \<in> set (eventHandlers s). l \<notin> set (listeners (Sprite_destroy s)))) \<and>
   (\<forall>h. earlyMouseHandler s = Some h \<longrightarrow>
      (Document, ''mousemove'', h) \<notin> set (listeners (destroy s))) \<and>
   (\<forall>h. mouseHandler s = Some h \<longrightarrow>
      (Document, ''mousemove'', h) \<notin> set (listeners (destroy s))) \<and>
   (\<forall>h. clickHandler s = Some h \<longrightarrow>
      (Document, ''click'', h) \<notin> set (listeners (destroy s))) \<and>
   \<not> glowAnimationRunning (destroy s) \<and>
   (\<forall>i. glowAnimationId s = Some i \<and> i \<noteq> 0 \<longrightarrow> i \<notin> set (pendingFrames (destroy s))) \<and>
   (s = run cfg ops (construct opts) \<and> \<not> isDestroyed s \<longrightarrow>
      (\<forall>l \<in> set (eventHandlers s). l \<notin> set (listeners (destroy s))) \<and>
      (\<forall>l \<in> set (listeners (destroy s)). is_early (snd (snd l))))"
proof -
  have idem: "destroy (destroy s) = destroy s"
    unfolding destroy_def
    using quiet_disableMouseReaction_id [OF quiet_Sprite_destroy [OF quiet_disableMouseReaction [of s]]]
    by (simp add: Sprite_destroy_idem)
  have first: "isDestroyed (destroy s) \<and> eventHandlers (destroy s) = [] \<and> timers (destroy s) = [] \<and>
      element (destroy s) = None \<and>
      (\<forall>i \<in> set (timers s). i \<notin> fst ` set (pendingTimers (destroy s))) \<and>
      (\<forall>l \<in> set (eventHandlers s). l \<notin> set (listeners (Sprite_destroy s)))"
    if "\<not> isDestroyed s"
    using that by (auto simp add: destroy_def Sprite_destroy_eq)
  have current:
    "(\<forall>h. earlyMouseHandler s = Some h \<longrightarrow>
        (Document, ''mousemove'', h) \<notin> set (listeners (destroy s))) \<and>
     (\<forall>h. mouseHandler s = Some h \<longrightarrow>
        (Document, ''mousemove'', h) \<notin> set (listeners (destroy s))) \<and>
     (\<forall>h. clickHandler s = Some h \<longrightarrow>
        (Document, ''click'', h) \<notin> set (listeners (destroy s)))"
    using disableMouseReaction_unregisters [of s] listeners_destroy_subset [of s]
    by blast
  have reached: "(\<forall>l \<in> set (eventHandlers s). l \<notin> set (listeners (destroy s))) \<and>
      (\<forall>l \<in> set (listeners (destroy s)). is_early (snd (snd l)))"
    if "s = run cfg ops (construct opts)" "\<not> isDestroyed s"
  proof -
    have "well_tracked s"
      unfolding that(1) by (rule run_well_tracked [OF well_tracked_construct])
    from destroy_releases_tracked [OF this that(2)] show ?thesis
      by simp
  qed
  from idem first current destroy_stops_glow [of s] reached show ?thesis
    by blast
qed


lemma scenarios_reached:
  "cooling =
     run example_glow
       ([(viewport 1000 0, CallSpawnAndDrop 100 0 DocumentBody),
         (viewport 1000 0, AnimationEnd ''rabbit-spawn-drop'')] @
        [(viewport 1000 0, CallEnableMouseReaction None)] @
        [(viewport 1000 0, MouseMove 64 800),
         (viewport 1000 0, AnimationEnd ''rabbit-jump-sprite'')])
       (construct default_options)"
  "midair =
     run example_glow
       ([(viewport 1000 0, CallSpawnAndDrop 100 0 DocumentBody),
         (viewport 1000 0, AnimationEnd ''rabbit-spawn-drop'')] @
        [(viewport 1000 0, CallEnableMouseReaction None)] @
        [(viewport 1000 0, MouseMove 64 800)])
       (construct default_options)"
  by (simp_all only: cooling_def midair_def enabled_def spawned_def run_append)

lemma destroy_cooling: "listeners (destroy cooling) = []" "pendingTimers (destroy cooling) = []"
  by (simp_all add: cooling_state destroy_def Sprite_destroy_eq disableMouseReaction_def
      forgetHandler_def stopGlowAnimation_def glowAnimationRunning_def
      removeEarlyMouseHandler_def target_removeEventListener_def Let_def)

lemma destroy_midair: "listeners (destroy midair) = []" "pendingFrames (destroy midair) = []"
  by (simp_all add: midair_state destroy_def Sprite_destroy_eq disableMouseReaction_def
      forgetHandler_def stopGlowAnimation_def glowAnimationRunning_def
      removeEarlyMouseHandler_def target_removeEventListener_def Let_def)

theorem destroy_idempotent_witness:
  "\<not> isDestroyed cooling \<and> timers cooling = [8] \<and> element cooling \<noteq> None \<and>
   listeners cooling =
     [(Document, ''mousemove'', MouseHandler 4 150), (Document, ''click'', ClickHandler 5)] \<and>
   destroy (destroy cooling) = destroy cooling \<and>
   isDestroyed (destroy cooling) \<and> eventHandlers (destroy cooling) = [] \<and>
   timers (destroy cooling) = [] \<and> element (destroy cooling) = None \<and>
   8 \<notin> fst ` set (pendingTimers (destroy cooling)) \<and>
   (Document, ''mousemove'', MouseHandler 4 150) \<notin> set (listeners (destroy cooling)) \<and>
   (Document, ''click'', ClickHandler 5) \<notin> set (listeners (destroy cooling)) \<and>
   listeners (destroy cooling) = [] \<and>
   glowAnimationId midair = Some 6 \<and> pendingFrames midair = [6] \<and>
   6 \<notin> set (pendingFrames (destroy midair)) \<and>
   (Document, ''mousemove'', MouseHandler 4 150) \<notin> set (listeners (destroy midair))"
proof -
  have c: "\<not> isDestroyed cooling" "timers cooling = [8]" "element cooling \<noteq> None"
    "listeners cooling =
       [(Document, ''mousemove'', MouseHandler 4 150), (Document, ''click'', ClickHandler 5)]"
    "eventHandlers cooling =
       [(Document, ''mousemove'', MouseHandler 4 150), (Document, ''click'', ClickHandler 5)]"
    "mouseHandler cooling = Some (MouseHandler 4 150)"
    "clickHandler cooling = Some (ClickHandler 5)"
    by (simp_all add: cooling_state)
  have m: "\<not> isDestroyed midair" "glowAnimationId midair = Some 6" "pendingFrames midair = [6]"
    "eventHandlers midair =
       [(Document, ''mousemove'', MouseHandler 4 150), (Document, ''click'', ClickHandler 5)]"
    by (simp_all add: midair_state)
  let ?ops = "[(viewport 1000 0, CallSpawnAndDrop 100 0 DocumentBody),
         (viewport 1000 0, AnimationEnd ''rabbit-spawn-drop'')] @
        [(viewport 1000 0, CallEnableMouseReaction None)] @
        [(viewport 1000 0, MouseMove 64 800),
         (viewport 1000 0, AnimationEnd ''rabbit-jump-sprite'')]"
  let ?ops' = "[(viewport 1000 0, CallSpawnAndDrop 100 0 DocumentBody),
         (viewport 1000 0, AnimationEnd ''rabbit-spawn-drop'')] @
        [(viewport 1000 0, CallEnableMouseReaction None)] @
        [(viewport 1000 0, MouseMove 64 800)]"
  note t = destroy_idempotent [of cooling example_glow ?ops default_options]
  note t' = destroy_idempotent [of midair example_glow ?ops' default_options]
  have r: "cooling = run example_glow ?ops (construct default_options) \<and> \<not> isDestroyed cooling"
    using scenarios_reached(1) c(1) by blast
  have r': "midair = run example_glow ?ops' (construct default_options) \<and> \<not> isDestroyed midair"
    using scenarios_reached(2) m(1) by blast
  from t r have "\<forall>l \<in> set (eventHandlers cooling). l \<notin> set (listeners (destroy cooling))"
    by blast
  then have released: "(Document, ''mousemove'', MouseHandler 4 150) \<notin> set (listeners (destroy cooling))"
    "(Document, ''click'', ClickHandler 5) \<notin> set (listeners (destroy cooling))"
    by (simp_all add: c(5))
  from t' r' have "\<forall>l \<in> set (eventHandlers midair). l \<notin> set (listeners (destroy midair))"
    by blast
  then have released': "(Document, ''mousemove'', MouseHandler 4 150) \<notin> set (listeners (destroy midair))"
    by (simp add: m(4))
  from t c(1) have first: "destroy (destroy cooling) = destroy cooling \<and>
      isDestroyed (destroy cooling) \<and> eventHandlers (destroy cooling) = [] \<and>
      timers (destroy cooling) = [] \<and> element (destroy cooling) = None \<and>
      (\<forall>i \<in> set (timers cooling). i \<notin> fst ` set (pendingTimers (destroy cooling)))"
    by blast
  from t' m(2) have frames: "6 \<notin> set (pendingFrames (destroy midair))"
    by auto
  from first released released' frames c m destroy_cooling show ?thesis
    by simp
qed


text \<open>
  C8, as stated, fails: \<open>spawn\<close> tests only whether there is an element, and
  \<open>destroy\<close> has set it to null. After \<open>destroy()\<close>, \<open>spawnAndDrop\<close> creates a new
  element and attaches it to its container, \<open>enableMouseReaction\<close> registers the
  handlers again and a pointer move starts a jump, on a rabbit whose \<open>isDestroyed\<close>
  is true.
\<close>

theorem destroyed_rabbit_respawns:
  "element (run example_glow [(viewport 1000 0, CallDestroy)] enabled) = None \<and>
   map_option parentNode (element respawned) = Some (Some DocumentBody) \<and>
   isDestroyed respawned \<and> isJumping respawned \<and>
   pendingJumps respawned = [OnJumpEnd 11 (- 1) True StartCooldown]"
  by (simp add: respawned_state pendingJumps_def element_listeners_def element_destroy
      enabled_state)

lemma disableMouseReaction_no_handlers:
  "mouseHandler s = None \<Longrightarrow> clickHandler s = None \<Longrightarrow>
   disableMouseReaction s = removeEarlyMouseHandler (stopGlowAnimation s)"
  by (simp add: disableMouseReaction_def Let_def)

lemma torn_down_disableMouseReaction:
  assumes "torn_down L s"
  shows "torn_down L (disableMouseReaction s)"
proof -
  from assms have h: "mouseHandler s = None" "clickHandler s = None"
    by (simp_all add: torn_down_def)
  from assms set_listeners_removeEarlyMouseHandler [of "stopGlowAnimation s"] show ?thesis
    by (auto simp add: torn_down_def disableMouseReaction_no_handlers [OF h])
qed

lemma torn_down_destroy:
  assumes "torn_down L s"
  shows "torn_down L (destroy s)"
proof -
  from assms have "isDestroyed (disableMouseReaction s)"
    by (simp add: torn_down_def)
  then have "destroy s = disableMouseReaction s"
    by (simp add: destroy_def Sprite_destroy_eq)
  with torn_down_disableMouseReaction [OF assms] show ?thesis
    by simp
qed

lemma step_torn_down:
  assumes "torn_down L s" and "\<not> is_spawn op"
  shows "torn_down L (step cfg (e, op) s)"
proof (cases "is_event op")
  case True
  then show ?thesis
  proof (rule event_rule [where P = "torn_down L"])
    show "torn_down L s"
      by (rule assms(1))
  qed (simp_all add: torn_down_def no_element_simps)
next
  case False
  then show ?thesis
  proof (cases op)
    case CallDisableMouseReaction
    with assms show ?thesis
      by (simp add: torn_down_disableMouseReaction)
  next
    case CallDestroy
    with assms show ?thesis
      by (simp add: torn_down_destroy)
  qed (use assms in \<open>simp_all add: torn_down_def no_element_simps\<close>)
qed

lemma run_torn_down:
  "torn_down L s \<Longrightarrow> \<forall>eo \<in> set ops. \<not> is_spawn (snd eo) \<Longrightarrow> torn_down L (run cfg ops s)"
proof (induction ops arbitrary: s)
  case Nil
  then show ?case by simp
next
  case (Cons eo ops)
  then show ?case
    by (cases eo) (simp add: step_torn_down)
qed

lemma torn_down_after_destroy:
  "\<not> isDestroyed s \<Longrightarrow> torn_down (set (listeners (destroy s))) (destroy s)"
  by (simp add: torn_down_def destroy_def Sprite_destroy_eq)

text \<open>
  C8, amended. Once \<open>destroy()\<close> has run on a rabbit not yet destroyed,
  \<open>isDestroyed\<close> stays true under every sequence of calls and events, and under every
  sequence without \<open>spawn\<close> and \<open>spawnAndDrop\<close> the rabbit is neither attached again
  nor activated again: the element stays null, \<open>eventHandlers\<close> stays empty, no mouse
  or click handler is stored, the listeners on \<open>document\<close> never grow beyond those
  left by \<open>destroy\<close>, and no jump is in flight. For a rabbit that was reached from
  construction, the listeners left are at most early pointer trackers that a repeated
  \<open>spawnAndDrop\<close> had lost; no mouse handler and no click handler is ever on
  \<open>document\<close> again.
\<close>

theorem destroyed_stays_down:
  assumes "\<not> isDestroyed s"
  shows "isDestroyed (run cfg ops (destroy s)) \<and>
         ((\<forall>eo \<in> set ops. \<not> is_spawn (snd eo)) \<longrightarrow>
            element (run cfg ops (destroy s)) = None \<and>
            eventHandlers (run cfg ops (destroy s)) = [] \<and>
            mouseHandler (run cfg ops (destroy s)) = None \<and>
            clickHandler (run cfg ops (destroy s)) = None \<and>
            set (listeners (run cfg ops (destroy s))) \<subseteq> set (listeners (destroy s)) \<and>
            pendingJumps (run cfg ops (destroy s)) = [] \<and>
            (s = run cfg' ops' (construct opts) \<longrightarrow>
               (\<forall>l \<in> set (listeners (run cfg ops (destroy s))). is_early (snd (snd l)))))"
proof -
  have d: "isDestroyed (run cfg ops (destroy s))"
    using run_isDestroyed [of "destroy s" cfg ops] by simp
  have rest: "element (run cfg ops (destroy s)) = None \<and>
            eventHandlers (run cfg ops (destroy s)) = [] \<and>
            mouseHandler (run cfg ops (destroy s)) = None \<and>
            clickHandler (run cfg ops (destroy s)) = None \<and>
            set (listeners (run cfg ops (destroy s))) \<subseteq> set (listeners (destroy s)) \<and>
            pendingJumps (run cfg ops (destroy s)) = [] \<and>
            (s = run cfg' ops' (construct opts) \<longrightarrow>
               (\<forall>l \<in> set (listeners (run cfg ops (destroy s))). is_early (snd (snd l))))"
    if free: "\<forall>eo \<in> set ops. \<not> is_spawn (snd eo)"
  proof -
    from run_torn_down [OF torn_down_after_destroy [OF assms] free, of cfg]
    have t: "torn_down (set (listeners (destroy s))) (run cfg ops (destroy s))" .
    then have "element (run cfg ops (destroy s)) = None"
      by (simp add: torn_down_def)
    then have p: "pendingJumps (run cfg ops (destroy s)) = []"
      by (simp add: pendingJumps_def element_listeners_def)
    have "\<forall>l \<in> set (listeners (run cfg ops (destroy s))). is_early (snd (snd l))"
      if "s = run cfg' ops' (construct opts)"
    proof -
      have "well_tracked s"
        unfolding that by (rule run_well_tracked [OF well_tracked_construct])
      from destroy_releases_tracked(1) [OF this assms] t show ?thesis
        by (auto simp add: torn_down_def)
    qed
    with t p show ?thesis
      by (simp add: torn_down_def)
  qed
  from d rest show ?thesis
    by blast
qed

theorem destroyed_stays_down_witness:
  "element
     (run example_glow
        [(viewport 1000 0, CallEnableMouseReaction None),
         (viewport 1000 0, MouseMove 64 800),
         (viewport 1000 0, CallJump),
         (viewport 1000 0, AnimationEnd ''rabbit-jump-sprite'')]
        (destroy cooling)) = None \<and>
   eventHandlers
     (run example_glow
        [(viewport 1000 0, CallEnableMouseReaction None),
         (viewport 1000 0, MouseMove 64 800),
         (viewport 1000 0, CallJump),
         (viewport 1000 0, AnimationEnd ''rabbit-jump-sprite'')]
        (destroy cooling)) = [] \<and>
   listeners
     (run example_glow
        [(viewport 1000 0, CallEnableMouseReaction None),
         (viewport 1000 0, MouseMove 64 800),
         (viewport 1000 0, CallJump),
         (viewport 1000 0, AnimationEnd ''rabbit-jump-sprite'')]
        (destroy cooling)) = [] \<and>
   pendingJumps
     (run example_glow
        [(viewport 1000 0, CallEnableMouseReaction None),
         (viewport 1000 0, MouseMove 64 800),
         (viewport 1000 0, CallJump),
         (viewport 1000 0, AnimationEnd ''rabbit-jump-sprite'')]
        (destroy cooling)) = []"
proof -
  let ?ops = "[(viewport 1000 0, CallEnableMouseReaction None),
         (viewport 1000 0, MouseMove 64 800),
         (viewport 1000 0, CallJump),
         (viewport 1000 0, AnimationEnd ''rabbit-jump-sprite'')]"
  have alive: "\<not> isDestroyed cooling"
    by (simp add: cooling_state)
  let ?before = "[(viewport 1000 0, CallSpawnAndDrop 100 0 DocumentBody),
         (viewport 1000 0, AnimationEnd ''rabbit-spawn-drop'')] @
        [(viewport 1000 0, CallEnableMouseReaction None)] @
        [(viewport 1000 0, MouseMove 64 800),
         (viewport 1000 0, AnimationEnd ''rabbit-jump-sprite'')]"
  note t = destroyed_stays_down [OF alive, of example_glow ?ops example_glow ?before default_options]
  have free: "\<forall>eo \<in> set ?ops. \<not> is_spawn (snd eo)"
    by simp
  have reached: "cooling = run example_glow ?before (construct default_options)"
    by (rule scenarios_reached(1))
  from t free reached
  have "\<forall>l \<in> set (listeners (run example_glow ?ops (destroy cooling))). is_early (snd (snd l))"
    by blast
  moreover from t free
  have "element (run example_glow ?ops (destroy cooling)) = None \<and>
            eventHandlers (run example_glow ?ops (destroy cooling)) = [] \<and>
            set (listeners (run example_glow ?ops (destroy cooling))) \<subseteq>
              set (listeners (destroy cooling)) \<and>
            pendingJumps (run example_glow ?ops (destroy cooling)) = []"
    by blast
  ultimately show ?thesis
    by (simp only: destroy_cooling) simp
qed

text \<open>The event rule again, with each handler tied to the event that invokes it.\<close>

lemma event_rule_at:
  assumes "is_event op" and "P s"
    and handlers: "\<And>ev cx cy h t. P t \<Longrightarrow>
        (op = MouseMove cx cy \<and> ev = ''mousemove'') \<or> (op = Click cx cy \<and> ev = ''click'') \<Longrightarrow>
        (Document, ev, h) \<in> set (listeners t) \<Longrightarrow> P (invoke cfg e cx cy h t)"
    and signals: "\<And>n l t. P t \<Longrightarrow> op = AnimationEnd n \<Longrightarrow> l \<in> set (element_listeners t) \<Longrightarrow>
        P (invoke_listener e n l t)"
    and timer: "\<And>i. op = TimerFired i \<Longrightarrow> P (timer_fired i s)"
    and frame: "\<And>i t. P t \<Longrightarrow> op = AnimationFrame \<Longrightarrow>
        P (animate cfg e (t\<lparr>pendingFrames := removeAll i (pendingFrames t)\<rparr>))"
  shows "P (step cfg (e, op) s)"
proof (cases op)
  case (MouseMove cx cy)
  then show ?thesis
    using dispatch_rule [of P s "''mousemove''" cfg e cx cy, OF assms(2)] handlers
    by (simp add: document_event_def)
next
  case (Click cx cy)
  then show ?thesis
    using dispatch_rule [of P s "''click''" cfg e cx cy, OF assms(2)] handlers
    by (simp add: document_event_def)
next
  case (AnimationEnd n)
  then show ?thesis
    using dispatch_animationend_rule [of P s e n, OF assms(2)] signals
    by (simp add: animationend_event_def)
next
  case (TimerFired i)
  then show ?thesis
    using timer by simp
next
  case AnimationFrame
  then show ?thesis
    using run_frames_rule [of P s cfg e, OF assms(2)] frame by (simp add: animation_frame_def)
qed (use assms(1) in simp_all)

section \<open>The colour latch\<close>

lemma colorRevealed_onJumpEnd:
  "colorRevealed (onJumpEnd i d f k n s) =
     (colorRevealed s \<or> (n = ''rabbit-jump-sprite'' \<and> f))"
  by (auto simp add: onJumpEnd_def Let_def)

lemma colorRevealed_invoke_listener:
  "colorRevealed (invoke_listener e n l s) =
     (colorRevealed s \<or> (n = ''rabbit-jump-sprite'' \<and> completes_first_jump l))"
  by (cases l) (simp_all add: invoke_listener_def colorRevealed_onJumpEnd)

lemma colorRevealed_invoke [simp]:
  "colorRevealed (invoke cfg e cx cy h s) = colorRevealed s"
  by (cases h) (simp_all add: invoke_def)

lemma step_colorRevealed:
  assumes "colorRevealed s"
  shows "colorRevealed (step cfg (e, op) s)"
proof (cases "is_event op")
  case True
  then show ?thesis
    by (rule event_rule [where P = colorRevealed]) (simp_all add: assms colorRevealed_onJumpEnd)
next
  case False
  with assms show ?thesis
    by (cases op) simp_all
qed

lemma run_colorRevealed: "colorRevealed s \<Longrightarrow> colorRevealed (run cfg ops s)"
proof (induction ops arbitrary: s)
  case Nil
  then show ?case by simp
next
  case (Cons eo ops)
  then show ?case
    by (cases eo) (simp add: step_colorRevealed)
qed

lemma dispatch_animationend_reveals_only:
  "colorRevealed (dispatch_animationend e n ls s) \<Longrightarrow>
   colorRevealed s \<or> (n = ''rabbit-jump-sprite'' \<and> list_ex completes_first_jump ls)"
proof (induction ls arbitrary: s)
  case Nil
  then show ?case by simp
next
  case (Cons l ls)
  from Cons.IH [OF Cons.prems [simplified]] show ?case
    by (auto simp add: colorRevealed_invoke_listener split: if_splits)
qed

lemma step_colorRevealed_unchanged:
  assumes "\<forall>n. op \<noteq> AnimationEnd n"
  shows "colorRevealed (step cfg (e, op) s) = colorRevealed s"
proof (cases "is_event op")
  case True
  then show ?thesis
    by (rule event_rule_at [where P = "\<lambda>t. colorRevealed t = colorRevealed s"])
       (simp_all add: assms)
next
  case False
  then show ?thesis
    by (cases op) simp_all
qed

lemma step_reveals_only:
  assumes "\<not> colorRevealed s" and "colorRevealed (step cfg (e, op) s)"
  shows "op = AnimationEnd ''rabbit-jump-sprite'' \<and> firstJumpPending s"
proof (cases "\<forall>n. op \<noteq> AnimationEnd n")
  case True
  with assms step_colorRevealed_unchanged [of op cfg e s] show ?thesis
    by simp
next
  case False
  then obtain n where "op = AnimationEnd n"
    by auto
  with assms dispatch_animationend_reveals_only [of e n "element_listeners s" s]
  show ?thesis
    by (simp add: animationend_event_def firstJumpPending_def)
qed

lemma element_listeners_onJumpEnd:
  "element_listeners (onJumpEnd i d f k ''rabbit-jump-sprite'' s) =
     removeAll (OnJumpEnd i d f k) (element_listeners s)"
  by (cases "element s") (simp_all add: onJumpEnd_def Let_def element_listeners_def)

lemma element_listeners_invoke_listener:
  "set (element_listeners (invoke_listener e ''rabbit-jump-sprite'' l s)) =
     set (element_listeners s) - (if is_jump_listener l then {l} else {})"
  by (cases l)
     (simp_all add: invoke_listener_def element_listeners_onJumpEnd onSpawnEnd_other_name)

lemma dispatch_animationend_reveals:
  "colorRevealed s \<or> (\<exists>l \<in> set ls. completes_first_jump l \<and> l \<in> set (element_listeners s)) \<Longrightarrow>
   colorRevealed (dispatch_animationend e ''rabbit-jump-sprite'' ls s)"
proof (induction ls arbitrary: s)
  case Nil
  then show ?case by simp
next
  case (Cons l ls)
  let ?s' = "if l \<in> set (element_listeners s)
             then invoke_listener e ''rabbit-jump-sprite'' l s else s"
  have "colorRevealed ?s' \<or>
        (\<exists>l' \<in> set ls. completes_first_jump l' \<and> l' \<in> set (element_listeners ?s'))"
    using Cons.prems
    by (auto simp add: colorRevealed_invoke_listener element_listeners_invoke_listener)
  from Cons.IH [OF this] show ?case
    by simp
qed

lemma firstJumpPending_startJump:
  "firstJumpPending (snd (startJump d f k s)) = (firstJumpPending s \<or> (f \<and> element s \<noteq> None))"
proof (cases "element s")
  case None
  then show ?thesis
    by (simp add: firstJumpPending_def element_listeners_def startJump_def Let_def)
next
  case (Some el)
  from startJump_element [OF this, of d f k] Some show ?thesis
    by (auto simp add: firstJumpPending_def element_listeners_def list_ex_iff)
qed

lemma element_listeners_updates [simp]:
  "element_listeners (s\<lparr>isJumping := b\<rparr>) = element_listeners s"
  "element_listeners (s\<lparr>isFirstJump := b, element := map_option (classList_add c) (element s)\<rparr>) =
     element_listeners s"
  by (simp_all add: element_listeners_def split: option.splits)

lemma firstJumpPending_simps [simp]:
  "firstJumpPending (resolve k s) = firstJumpPending s"
  "firstJumpPending (s\<lparr>isJumping := b\<rparr>) = firstJumpPending s"
  "firstJumpPending (s\<lparr>isFirstJump := b, element := map_option (classList_add c) (element s)\<rparr>) =
     firstJumpPending s"
  by (simp_all add: firstJumpPending_def)

lemma firstJumpPending_jump:
  "firstJumpPending (snd (jump k e s)) =
     (firstJumpPending s \<or> (isFirstJump s \<and> element s \<noteq> None \<and> \<not> isSpawning s))"
  by (auto simp add: jump_def firstJumpPending_startJump)

lemma isFirstJump_jump:
  "isFirstJump (snd (jump k e s)) = (isFirstJump s \<and> (element s = None \<or> isSpawning s))"
  by (auto simp add: jump_def)

text \<open>
  C5. \<open>colorRevealed\<close> is false at construction. Once true it stays true under every
  sequence of calls and events. A step turns it from false to true only if it is the
  completion signal \<open>rabbit-jump-sprite\<close> delivered while the listener of the first
  jump waits on the element, and that signal, delivered then, does turn it true. That
  listener is registered by the one \<open>jump()\<close> that finds \<open>isFirstJump\<close> set (with an
  element, not spawning), which clears \<open>isFirstJump\<close> for good.
\<close>

theorem colorRevealed_latch:
  "\<not> colorRevealed (construct opts) \<and>
   (colorRevealed s \<longrightarrow> colorRevealed (run cfg ops s)) \<and>
   (\<not> colorRevealed s \<and> colorRevealed (step cfg (e, op) s) \<longrightarrow>
      op = AnimationEnd ''rabbit-jump-sprite'' \<and> firstJumpPending s) \<and>
   (firstJumpPending s \<longrightarrow>
      colorRevealed (step cfg (e, AnimationEnd ''rabbit-jump-sprite'') s)) \<and>
   firstJumpPending (snd (jump k e s)) =
     (firstJumpPending s \<or> (isFirstJump s \<and> element s \<noteq> None \<and> \<not> isSpawning s)) \<and>
   isFirstJump (snd (jump k e s)) = (isFirstJump s \<and> (element s = None \<or> isSpawning s))"
proof -
  have "colorRevealed (step cfg (e, AnimationEnd ''rabbit-jump-sprite'') s)"
    if "firstJumpPending s"
    using that dispatch_animationend_reveals [of s "element_listeners s" e]
    by (auto simp add: firstJumpPending_def animationend_event_def list_ex_iff)
  then show ?thesis
    using run_colorRevealed [of s cfg ops] step_reveals_only [of s cfg e op]
      firstJumpPending_jump [of k e s] isFirstJump_jump [of k e s]
    by (simp add: construct_def)
qed

theorem colorRevealed_latch_witness:
  "\<not> colorRevealed enabled \<and> \<not> colorRevealed midair \<and> firstJumpPending midair \<and>
   colorRevealed (step example_glow (viewport 1000 0, AnimationEnd ''rabbit-jump-sprite'') midair) \<and>
   colorRevealed
     (run example_glow
        [(viewport 1000 0, TimerFired 8), (viewport 1000 0, MouseMove 64 800),
         (viewport 1000 0, AnimationEnd ''rabbit-jump-sprite''), (viewport 1000 0, CallDestroy)]
        cooling)"
proof -
  have facts: "\<not> colorRevealed enabled" "\<not> colorRevealed midair" "firstJumpPending midair"
    "colorRevealed cooling"
    by (simp_all add: enabled_state midair_state cooling_state firstJumpPending_def
        element_listeners_def)
  show ?thesis
    using colorRevealed_latch [of default_options midair example_glow "[]" "viewport 1000 0"
        "AnimationEnd ''rabbit-jump-sprite''"]
      colorRevealed_latch [of default_options cooling example_glow
        "[(viewport 1000 0, TimerFired 8), (viewport 1000 0, MouseMove 64 800),
         (viewport 1000 0, AnimationEnd ''rabbit-jump-sprite''), (viewport 1000 0, CallDestroy)]"
        "viewport 1000 0" AnimationFrame]
      facts
    by simp
qed

section \<open>One jump at a time\<close>

lemma pendingJumps_cong:
  "element t = element s \<Longrightarrow> pendingJumps t = pendingJumps s"
  by (simp add: pendingJumps_def element_listeners_def)

lemma element_listeners_updateGlow [simp]:
  "element_listeners (updateGlow cfg d s) = element_listeners s"
  by (cases "element s") (simp_all add: updateGlow_def element_listeners_def)

lemma element_listeners_updateGlowFromStoredPosition [simp]:
  "element_listeners (updateGlowFromStoredPosition cfg e s) = element_listeners s"
  by (simp add: updateGlowFromStoredPosition_def split: option.splits)

lemma element_listeners_frames [simp]:
  "element_listeners (requestAnimationFrame s) = element_listeners s"
  "element_listeners (earlyMouseHandler_body cx cy s) = element_listeners s"
  "element_listeners (timer_fired i s) = element_listeners s"
  "element_listeners (enableMouseReaction th s) = element_listeners s"
  "element_listeners (disableMouseReaction s) = element_listeners s"
  "element_listeners (s\<lparr>pendingFrames := fs\<rparr>) = element_listeners s"
  "element_listeners (s\<lparr>lastMouseX := mx, lastMouseY := my\<rparr>) = element_listeners s"
  "element_listeners (s\<lparr>x := x0, y := y0\<rparr>) = element_listeners s"
  "element_listeners (s\<lparr>permanentGlowBonus := b\<rparr>) = element_listeners s"
  by (simp_all add: element_listeners_def)

lemma element_listeners_more [simp]:
  "element_listeners (animate cfg e s) = element_listeners s"
  "element_listeners (setPosition x0 y0 s) = element_listeners s"
  "element_listeners (clickHandler_body cfg e cx cy s) = element_listeners s"
  by (simp_all add: animate_def setPosition_def clickHandler_body_def Let_def)

lemma filter_removeAll_commute: "filter P (removeAll a xs) = removeAll a (filter P xs)"
  by (induction xs) auto

lemma pendingJumps_simple [simp]:
  "pendingJumps (updateGlow cfg d s) = pendingJumps s"
  "pendingJumps (animate cfg e s) = pendingJumps s"
  "pendingJumps (setPosition x0 y0 s) = pendingJumps s"
  "pendingJumps (clickHandler_body cfg e cx cy s) = pendingJumps s"
  "pendingJumps (earlyMouseHandler_body cx cy s) = pendingJumps s"
  "pendingJumps (timer_fired i s) = pendingJumps s"
  "pendingJumps (enableMouseReaction th s) = pendingJumps s"
  "pendingJumps (disableMouseReaction s) = pendingJumps s"
  "pendingJumps (resolve k s) = pendingJumps s"
  "pendingJumps (s\<lparr>isJumping := b\<rparr>) = pendingJumps s"
  "pendingJumps (s\<lparr>pendingFrames := fs\<rparr>) = pendingJumps s"
  "pendingJumps (s\<lparr>lastMouseX := mx, lastMouseY := my\<rparr>) = pendingJumps s"
  by (simp_all add: pendingJumps_def)

lemma pendingJumps_spawn [simp]: "pendingJumps (spawn parent s) = pendingJumps s"
  by (cases "element s")
     (simp_all add: spawn_def pendingJumps_def element_listeners_def createElement_def)

lemma pendingJumps_spawnAndDrop [simp]:
  "pendingJumps (spawnAndDrop x0 y0 parent s) = pendingJumps s"
  by (cases "element s")
     (simp_all add: spawnAndDrop_def spawn_def pendingJumps_def element_listeners_def
       createElement_def Let_def document_addEventListener_def element_addEventListener_def)

lemma pendingJumps_destroy:
  "pendingJumps (destroy s) = (if isDestroyed s then pendingJumps s else [])"
  by (simp add: destroy_def Sprite_destroy_eq pendingJumps_def element_listeners_def)

lemma pendingJumps_onSpawnEnd [simp]: "pendingJumps (onSpawnEnd i n e s) = pendingJumps s"
  by (cases "element s")
     (simp_all add: onSpawnEnd_def Let_def pendingJumps_def element_listeners_def filter_removeAll_commute)


lemma pendingJumps_onJumpEnd:
  "pendingJumps (onJumpEnd i d f k ''rabbit-jump-sprite'' s) =
     removeAll (OnJumpEnd i d f k) (pendingJumps s)"
  by (simp add: pendingJumps_def element_listeners_onJumpEnd filter_removeAll_commute)

lemma onJumpEnd_other_name:
  "n \<noteq> ''rabbit-jump-sprite'' \<Longrightarrow> onJumpEnd i d f k n s = s"
  by (simp add: onJumpEnd_def)

lemma isJumping_onJumpEnd: "\<not> isJumping (onJumpEnd i d f k ''rabbit-jump-sprite'' s)"
  by (simp add: onJumpEnd_def Let_def)

lemma short_list_removeAll:
  "length xs \<le> 1 \<Longrightarrow> a \<in> set xs \<Longrightarrow> removeAll a xs = []"
  by (cases xs) auto

lemma at_most_one_jump_onJumpEnd:
  assumes "at_most_one_jump s" and "OnJumpEnd i d f k \<in> set (element_listeners s)"
  shows "at_most_one_jump (onJumpEnd i d f k n s)"
proof (cases "n = ''rabbit-jump-sprite''")
  case True
  have "OnJumpEnd i d f k \<in> set (pendingJumps s)"
    using assms(2) by (simp add: pendingJumps_def)
  with assms(1) have "removeAll (OnJumpEnd i d f k) (pendingJumps s) = []"
    by (simp add: at_most_one_jump_def short_list_removeAll)
  with True show ?thesis
    by (simp add: at_most_one_jump_def pendingJumps_onJumpEnd)
next
  case False
  with assms(1) show ?thesis
    by (simp add: onJumpEnd_other_name)
qed

lemma pendingJumps_startJump:
  assumes "pendingJumps s = []"
  shows "length (pendingJumps (snd (startJump d f k s))) \<le> 1"
proof (cases "element s")
  case None
  then show ?thesis
    by (simp add: pendingJumps_def element_listeners_def startJump_def Let_def)
next
  case (Some el)
  then have "element s \<noteq> None"
    by simp
  from startJump_listeners_append [OF this assms, of d f k] assms show ?thesis
    by (auto simp add: pendingJumps_def)
qed

lemma at_most_one_jump_jump:
  assumes "pendingJumps s = []" and "isJumping s"
  shows "at_most_one_jump (snd (jump k e s))"
  using assms pendingJumps_startJump [of s _ False k]
    pendingJumps_startJump
      [of "s\<lparr>isFirstJump := False, element := map_option (classList_add ''color-fade'') (element s)\<rparr>"
        _ True k]
  by (simp add: jump_def at_most_one_jump_def)

lemma mouseHandler_body_blocked:
  assumes "isSpawning s \<or> isJumping s \<or> jumpCooldown s"
  shows "mouseHandler_body cfg th e cx cy s =
     (if glowAnimationRunning s then s\<lparr>lastMouseX := Some cx, lastMouseY := Some cy\<rparr>
      else updateGlow cfg (getDistanceToBottomCenter e cx cy s)
             (s\<lparr>lastMouseX := Some cx, lastMouseY := Some cy\<rparr>))"
  using assms
  by (simp add: mouseHandler_body_def Let_def glowAnimationRunning_def
      getDistanceToBottomCenter_def)

lemma mouseHandler_body_cases:
  "mouseHandler_body cfg th e cx cy s =
     (let s2 = (if glowAnimationRunning s then s\<lparr>lastMouseX := Some cx, lastMouseY := Some cy\<rparr>
                else updateGlow cfg (getDistanceToBottomCenter e cx cy s)
                       (s\<lparr>lastMouseX := Some cx, lastMouseY := Some cy\<rparr>))
      in if isSpawning s \<or> isJumping s \<or> jumpCooldown s then s2
         else if distance_less (getDistanceToBottomCenter e cx cy s) th
         then snd (jump StartCooldown e (s2\<lparr>isJumping := True\<rparr>))
         else s2)"
  by (simp add: mouseHandler_body_def Let_def glowAnimationRunning_def
      getDistanceToBottomCenter_def)

lemma at_most_one_jump_mouseHandler_body:
  assumes "at_most_one_jump s"
  shows "at_most_one_jump (mouseHandler_body cfg th e cx cy s)"
proof (cases "isSpawning s \<or> isJumping s \<or> jumpCooldown s")
  case True
  with assms show ?thesis
    by (simp add: mouseHandler_body_blocked at_most_one_jump_def)
next
  case False
  then have idle: "pendingJumps s = []"
    using assms by (auto simp add: at_most_one_jump_def)
  let ?s2 = "if glowAnimationRunning s then s\<lparr>lastMouseX := Some cx, lastMouseY := Some cy\<rparr>
             else updateGlow cfg (getDistanceToBottomCenter e cx cy s)
                    (s\<lparr>lastMouseX := Some cx, lastMouseY := Some cy\<rparr>)"
  have "pendingJumps (?s2\<lparr>isJumping := True\<rparr>) = []" "isJumping (?s2\<lparr>isJumping := True\<rparr>)"
    using idle by simp_all
  from at_most_one_jump_jump [OF this, of StartCooldown e] assms idle False show ?thesis
    by (simp add: mouseHandler_body_cases Let_def at_most_one_jump_def)
qed


lemma step_at_most_one_jump:
  assumes "at_most_one_jump s" and "op \<noteq> CallJump"
  shows "at_most_one_jump (step cfg (e, op) s)"
proof (cases "is_event op")
  case True
  then show ?thesis
  proof (rule event_rule [where P = at_most_one_jump])
    show "at_most_one_jump s"
      by (rule assms(1))
  next
    fix th cx cy t
    assume "at_most_one_jump t"
    then show "at_most_one_jump (mouseHandler_body cfg th e cx cy t)"
      by (rule at_most_one_jump_mouseHandler_body)
  next
    fix i d f k n t
    assume "at_most_one_jump t" and "OnJumpEnd i d f k \<in> set (element_listeners t)"
    then show "at_most_one_jump (onJumpEnd i d f k n t)"
      by (rule at_most_one_jump_onJumpEnd)
  qed (simp_all add: at_most_one_jump_def)
next
  case False
  with assms show ?thesis
    by (cases op) (simp_all add: at_most_one_jump_def pendingJumps_destroy)
qed

lemma run_at_most_one_jump:
  "at_most_one_jump s \<Longrightarrow> \<forall>eo \<in> set ops. snd eo \<noteq> CallJump \<Longrightarrow>
   at_most_one_jump (run cfg ops s)"
proof (induction ops arbitrary: s)
  case Nil
  then show ?case by simp
next
  case (Cons eo ops)
  then show ?case
    by (cases eo) (simp add: step_at_most_one_jump)
qed

lemma at_most_one_jump_construct: "at_most_one_jump (construct opts)"
  by (simp add: at_most_one_jump_def pendingJumps_def element_listeners_def construct_def)

lemma mouseHandler_body_started:
  assumes "pendingJumps (mouseHandler_body cfg th e cx cy s) \<noteq> pendingJumps s"
  shows "isJumping (mouseHandler_body cfg th e cx cy s)"
proof (cases "isSpawning s \<or> isJumping s \<or> jumpCooldown s")
  case True
  with assms show ?thesis
    by (simp add: mouseHandler_body_blocked split: if_splits)
next
  case False
  with assms show ?thesis
    by (auto simp add: mouseHandler_body_cases Let_def jump_def split: if_splits)
qed

lemma mouse_move_on_enabled:
  "mouseHandler_body example_glow 150 (viewport 1000 0) 64 800 enabled = midair"
  by (simp add: midair_state enabled_state model_defs event_defs)

text \<open>
  C6. While \<open>isJumping\<close> is set the mouse handler rejects the pointer move: it stores
  the pointer position, updates the glow unless the glow loop runs, and starts no jump.
  When the handler does start a jump, \<open>isJumping\<close> is set when it returns (it is set
  before \<open>jump()\<close> is called), so the next pointer move, however soon, starts none.
  And in every sequence of calls and events in which \<open>jump()\<close> is called by the mouse
  handler only, at most one jump is in flight at any time.
\<close>

theorem one_jump_in_flight:
  "(isJumping s \<longrightarrow>
      mouseHandler_body cfg th e cx cy s =
        (if glowAnimationRunning s then s\<lparr>lastMouseX := Some cx, lastMouseY := Some cy\<rparr>
         else updateGlow cfg (getDistanceToBottomCenter e cx cy s)
                (s\<lparr>lastMouseX := Some cx, lastMouseY := Some cy\<rparr>)) \<and>
      pendingJumps (mouseHandler_body cfg th e cx cy s) = pendingJumps s \<and>
      isJumping (mouseHandler_body cfg th e cx cy s)) \<and>
   (pendingJumps (mouseHandler_body cfg th e cx cy s) \<noteq> pendingJumps s \<longrightarrow>
      isJumping (mouseHandler_body cfg th e cx cy s) \<and>
      pendingJumps (mouseHandler_body cfg th' e' cx' cy' (mouseHandler_body cfg th e cx cy s)) =
        pendingJumps (mouseHandler_body cfg th e cx cy s)) \<and>
   ((\<forall>eo \<in> set ops. snd eo \<noteq> CallJump) \<longrightarrow>
      length (pendingJumps (run cfg ops (construct opts))) \<le> 1)"
proof -
  have blocked: "mouseHandler_body cfg t v a b u =
        (if glowAnimationRunning u then u\<lparr>lastMouseX := Some a, lastMouseY := Some b\<rparr>
         else updateGlow cfg (getDistanceToBottomCenter v a b u)
                (u\<lparr>lastMouseX := Some a, lastMouseY := Some b\<rparr>)) \<and>
      pendingJumps (mouseHandler_body cfg t v a b u) = pendingJumps u \<and>
      isJumping (mouseHandler_body cfg t v a b u)"
    if "isJumping u" for t v a b u
    using that by (simp add: mouseHandler_body_blocked)
  have "length (pendingJumps (run cfg ops (construct opts))) \<le> 1"
    if "\<forall>eo \<in> set ops. snd eo \<noteq> CallJump"
    using run_at_most_one_jump [OF at_most_one_jump_construct that, of cfg opts]
    by (simp add: at_most_one_jump_def)
  with blocked [of s th e cx cy]
    blocked [of "mouseHandler_body cfg th e cx cy s" th' e' cx' cy']
    mouseHandler_body_started [of cfg th e cx cy s]
  show ?thesis
    by blast
qed

theorem one_jump_in_flight_witness:
  "isJumping midair \<and>
   pendingJumps (mouseHandler_body example_glow 150 (viewport 1000 0) 64 800 midair) =
     [OnJumpEnd 7 (- 1) True StartCooldown] \<and>
   pendingJumps enabled = [] \<and>
   pendingJumps (mouseHandler_body example_glow 150 (viewport 1000 0) 64 800 enabled) =
     [OnJumpEnd 7 (- 1) True StartCooldown] \<and>
   pendingJumps
     (mouseHandler_body example_glow 150 (viewport 1000 0) 64 800
        (mouseHandler_body example_glow 150 (viewport 1000 0) 64 800 enabled)) =
     [OnJumpEnd 7 (- 1) True StartCooldown] \<and>
   length
     (pendingJumps
        (run example_glow
           [(viewport 1000 0, CallSpawnAndDrop 100 0 DocumentBody),
            (viewport 1000 0, AnimationEnd ''rabbit-spawn-drop''),
            (viewport 1000 0, CallEnableMouseReaction None),
            (viewport 1000 0, MouseMove 64 800),
            (viewport 1000 0, MouseMove 64 800)]
           (construct default_options))) \<le> 1"
proof -
  have m: "isJumping midair" "pendingJumps midair = [OnJumpEnd 7 (- 1) True StartCooldown]"
    "pendingJumps enabled = []"
    by (simp_all add: midair_state enabled_state pendingJumps_def element_listeners_def)
  have started:
    "pendingJumps (mouseHandler_body example_glow 150 (viewport 1000 0) 64 800 enabled) \<noteq>
       pendingJumps enabled"
    by (simp add: mouse_move_on_enabled m)
  show ?thesis
    using one_jump_in_flight [of midair example_glow 150 "viewport 1000 0" 64 800
        150 "viewport 1000 0" 64 800
        "[(viewport 1000 0, CallSpawnAndDrop 100 0 DocumentBody),
          (viewport 1000 0, AnimationEnd ''rabbit-spawn-drop''),
          (viewport 1000 0, CallEnableMouseReaction None),
          (viewport 1000 0, MouseMove 64 800),
          (viewport 1000 0, MouseMove 64 800)]" default_options]
      one_jump_in_flight [of enabled example_glow 150 "viewport 1000 0" 64 800
        150 "viewport 1000 0" 64 800 "[]" default_options]
      m started
    by (simp add: mouse_move_on_enabled)
qed

section \<open>Before the first jump nothing is in flight\<close>

lemma pendingJumps_jump_refused:
  "element s = None \<or> isSpawning s \<Longrightarrow> pendingJumps (snd (jump k e s)) = pendingJumps s"
  by (auto simp add: jump_def)

lemma first_jump_ahead_jump:
  "first_jump_ahead s \<Longrightarrow> first_jump_ahead (snd (jump k e s))"
  using pendingJumps_jump_refused [of s k e]
  by (auto simp add: first_jump_ahead_def isFirstJump_jump)

lemma first_jump_ahead_mouseHandler_body:
  assumes "first_jump_ahead s"
  shows "first_jump_ahead (mouseHandler_body cfg th e cx cy s)"
proof -
  let ?s2 = "if glowAnimationRunning s then s\<lparr>lastMouseX := Some cx, lastMouseY := Some cy\<rparr>
             else updateGlow cfg (getDistanceToBottomCenter e cx cy s)
                    (s\<lparr>lastMouseX := Some cx, lastMouseY := Some cy\<rparr>)"
  have "first_jump_ahead ?s2" "first_jump_ahead (?s2\<lparr>isJumping := True\<rparr>)"
    using assms by (simp_all add: first_jump_ahead_def)
  with first_jump_ahead_jump [of "?s2\<lparr>isJumping := True\<rparr>" StartCooldown e]
  show ?thesis
    by (simp add: mouseHandler_body_cases Let_def)
qed

lemma first_jump_ahead_onJumpEnd:
  "first_jump_ahead s \<Longrightarrow> first_jump_ahead (onJumpEnd i d f k n s)"
  by (cases "n = ''rabbit-jump-sprite''")
     (simp_all add: first_jump_ahead_def pendingJumps_onJumpEnd onJumpEnd_other_name)

lemma step_first_jump_ahead:
  assumes "first_jump_ahead s"
  shows "first_jump_ahead (step cfg (e, op) s)"
proof (cases "is_event op")
  case True
  then show ?thesis
  proof (rule event_rule [where P = first_jump_ahead])
    show "first_jump_ahead s"
      by (rule assms)
  next
    fix th cx cy t
    assume "first_jump_ahead t"
    then show "first_jump_ahead (mouseHandler_body cfg th e cx cy t)"
      by (rule first_jump_ahead_mouseHandler_body)
  next
    fix i d f k n t
    assume "first_jump_ahead t"
    then show "first_jump_ahead (onJumpEnd i d f k n t)"
      by (rule first_jump_ahead_onJumpEnd)
  qed (simp_all add: first_jump_ahead_def)
next
  case False
  then show ?thesis
  proof (cases op)
    case CallJump
    with assms first_jump_ahead_jump [of s NoCallback e] show ?thesis
      by simp
  qed (use assms in \<open>simp_all add: first_jump_ahead_def pendingJumps_destroy\<close>)
qed

text \<open>
  A rabbit reached from construction by any calls and events, and still before its
  first jump, has no jump in flight: the first jump of such a rabbit meets the
  condition under which C2 and C10 are stated.
\<close>

lemma first_jump_nothing_in_flight:
  "isFirstJump (run cfg ops (construct opts)) \<Longrightarrow> pendingJumps (run cfg ops (construct opts)) = []"
proof -
  have "first_jump_ahead s \<Longrightarrow> first_jump_ahead (run cfg ops s)" for s
  proof (induction ops arbitrary: s)
    case Nil
    then show ?case by simp
  next
    case (Cons eo ops)
    then show ?case
      by (cases eo) (simp add: step_first_jump_ahead)
  qed
  moreover have "first_jump_ahead (construct opts)"
    by (simp add: first_jump_ahead_def pendingJumps_def element_listeners_def construct_def)
  ultimately show "isFirstJump (run cfg ops (construct opts)) \<Longrightarrow>
      pendingJumps (run cfg ops (construct opts)) = []"
    by (simp add: first_jump_ahead_def)
qed

section \<open>The permanent glow bonus\<close>

lemma mouse_ready_facts:
  "listeners (mouse_ready opts x0 y0 parent th) =
     [(Document, ''mousemove'', MouseHandler 4 (threshold_of th)), (Document, ''click'', ClickHandler 5)]"
  "element (mouse_ready opts x0 y0 parent th) \<noteq> None"
  "permanentGlowBonus (mouse_ready opts x0 y0 parent th) = 0"
  by (simp_all add: mouse_ready_def threshold_of_def model_defs event_defs)

lemma has_element_simps [simp]:
  "(element (updateGlow cfg d s) = None) = (element s = None)"
  "(element (updatePosition s) = None) = (element s = None)"
  by (simp_all add: updateGlow_def)

lemma has_element_more [simp]:
  "(element (updateGlowFromStoredPosition cfg e s) = None) = (element s = None)"
  "(element (animate cfg e s) = None) = (element s = None)"
  "(element (clickHandler_body cfg e cx cy s) = None) = (element s = None)"
  "(element (snd (startJump d f k s)) = None) = (element s = None)"
  "(element (onSpawnEnd i n v s) = None) = (element s = None)"
  "(element (onJumpEnd i d f k n s) = None) = (element s = None)"
  by (simp_all add: updateGlowFromStoredPosition_def animate_def clickHandler_body_def
      startJump_def onSpawnEnd_def onJumpEnd_def Let_def split: option.splits)

lemma has_element_jump [simp]:
  "(element (snd (jump k e s)) = None) = (element s = None)"
  by (simp add: jump_def)

lemma has_element_mouseHandler_body [simp]:
  "(element (mouseHandler_body cfg th e cx cy s) = None) = (element s = None)"
  by (simp add: mouseHandler_body_cases Let_def)


lemma click_ready_clickHandler_body:
  assumes "0 \<le> glowBoostPerClick cfg" and "0 \<le> maxPermanentGlow cfg" and "click_ready cfg t s"
  shows "click_ready cfg t (clickHandler_body cfg e cx cy s)"
  using assms
  by (simp add: click_ready_def)
     (simp add: clickHandler_body_def Let_def updateGlow_def)

lemma step_click_ready:
  assumes "0 \<le> glowBoostPerClick cfg" and "0 \<le> maxPermanentGlow cfg"
    and "click_ready cfg t s" and "is_event op"
  shows "click_ready cfg t (step cfg (e, op) s)"
  using assms(4)
proof (rule event_rule [where P = "click_ready cfg t"])
  show "click_ready cfg t s"
    by (rule assms(3))
next
  fix cx cy u
  assume "click_ready cfg t u"
  with assms(1,2) show "click_ready cfg t (clickHandler_body cfg e cx cy u)"
    by (rule click_ready_clickHandler_body)
qed (simp_all add: click_ready_def)

lemma run_click_ready:
  assumes "0 \<le> glowBoostPerClick cfg" and "0 \<le> maxPermanentGlow cfg"
  shows "click_ready cfg t s \<Longrightarrow> \<forall>eo \<in> set evs. is_event (snd eo) \<Longrightarrow>
         click_ready cfg t (run cfg evs s)"
proof (induction evs arbitrary: s)
  case Nil
  then show ?case by simp
next
  case (Cons eo evs)
  then show ?case
    by (cases eo) (simp add: step_click_ready [OF assms])
qed

lemma click_ready_mouse_ready:
  "0 \<le> maxPermanentGlow cfg \<Longrightarrow>
   click_ready cfg (threshold_of th) (mouse_ready opts x0 y0 parent th)"
  by (simp add: click_ready_def mouse_ready_facts)

lemma step_Click_click_ready:
  assumes "click_ready cfg t s"
  shows "document_event cfg e ''click'' cx cy s = clickHandler_body cfg e cx cy s"
  using assms
  by (simp add: click_ready_def document_event_def registered_def invoke_def)

lemma bonus_clickHandler_body:
  "permanentGlowBonus (clickHandler_body cfg e cx cy s) =
     (if distance_less (getDistanceToBottomCenter e cx cy s) (clickRadius cfg)
      then min (permanentGlowBonus s + glowBoostPerClick cfg) (maxPermanentGlow cfg)
      else permanentGlowBonus s)"
  by (simp add: clickHandler_body_def Let_def)

lemma step_other_click_ready:
  assumes "click_ready cfg t s" and "is_event op" and "\<forall>cx cy. op \<noteq> Click cx cy"
  shows "permanentGlowBonus (step cfg (e, op) s) = permanentGlowBonus s"
proof -
  let ?P = "\<lambda>u::page. listeners u = listeners s \<and> permanentGlowBonus u = permanentGlowBonus s"
  have "?P (step cfg (e, op) s)"
    using assms(2)
  proof (rule event_rule_at [where P = ?P])
    show "?P s"
      by simp
  next
    fix ev cx cy h u
    assume u: "?P u"
      and ev: "op = MouseMove cx cy \<and> ev = ''mousemove'' \<or> op = Click cx cy \<and> ev = ''click''"
      and h: "(Document, ev, h) \<in> set (listeners u)"
    from ev assms(3) have "ev = ''mousemove''"
      by auto
    with h u assms(1) have "h = MouseHandler 4 t"
      by (simp add: click_ready_def)
    with u show "?P (invoke cfg e cx cy h u)"
      by (simp add: invoke_def)
  next
    fix n l u
    assume "?P u"
    then show "?P (invoke_listener e n l u)"
      by (cases l) (simp_all add: invoke_listener_def)
  qed simp_all
  then show ?thesis
    by simp
qed


lemma qualifying_click:
  assumes "click_ready example_glow t s"
  shows "click_ready example_glow t (step example_glow (viewport 1000 0, Click 64 800) s)"
    and "permanentGlowBonus (step example_glow (viewport 1000 0, Click 64 800) s) =
           min (permanentGlowBonus s + 1 / 5) 1"
proof -
  have c: "0 \<le> glowBoostPerClick example_glow" "0 \<le> maxPermanentGlow example_glow"
    by (simp_all add: example_glow_def)
  show "click_ready example_glow t (step example_glow (viewport 1000 0, Click 64 800) s)"
    by (rule step_click_ready [OF c assms]) simp
  have "element s \<noteq> None"
    using assms by (simp add: click_ready_def)
  then have "getDistanceToBottomCenter (viewport 1000 0) 64 800 s = Finite 0"
    by (simp add: getDistanceToBottomCenter_def viewport_def)
  moreover have "permanentGlowBonus (step example_glow (viewport 1000 0, Click 64 800) s) =
      (if distance_less (getDistanceToBottomCenter (viewport 1000 0) 64 800 s)
            (clickRadius example_glow)
       then min (permanentGlowBonus s + glowBoostPerClick example_glow)
              (maxPermanentGlow example_glow)
       else permanentGlowBonus s)"
    by (simp add: step_Click_click_ready [OF assms] bonus_clickHandler_body)
  ultimately show "permanentGlowBonus (step example_glow (viewport 1000 0, Click 64 800) s) =
           min (permanentGlowBonus s + 1 / 5) 1"
    by (simp add: example_glow_def)
qed

lemma five_clicks_bonus: "permanentGlowBonus five_clicks = 1"
proof -
  let ?c = "(viewport 1000 0, Click 64 800)"
  let ?s0 = "mouse_ready default_options 100 0 DocumentBody None"
  let ?s1 = "step example_glow ?c ?s0"
  let ?s2 = "step example_glow ?c ?s1"
  let ?s3 = "step example_glow ?c ?s2"
  let ?s4 = "step example_glow ?c ?s3"
  have r0: "click_ready example_glow (threshold_of None) ?s0"
    by (rule click_ready_mouse_ready) (simp add: example_glow_def)
  have b0: "permanentGlowBonus ?s0 = 0"
    by (rule mouse_ready_facts)
  note r1 = qualifying_click(1) [OF r0]
  note r2 = qualifying_click(1) [OF r1]
  note r3 = qualifying_click(1) [OF r2]
  note r4 = qualifying_click(1) [OF r3]
  have b1: "permanentGlowBonus ?s1 = 1 / 5"
    using qualifying_click(2) [OF r0] b0 by simp
  have b2: "permanentGlowBonus ?s2 = 2 / 5"
    using qualifying_click(2) [OF r1] b1 by simp
  have b3: "permanentGlowBonus ?s3 = 3 / 5"
    using qualifying_click(2) [OF r2] b2 by simp
  have b4: "permanentGlowBonus ?s4 = 4 / 5"
    using qualifying_click(2) [OF r3] b3 by simp
  have "permanentGlowBonus (step example_glow ?c ?s4) = 1"
    using qualifying_click(2) [OF r4] b4 by simp
  then show ?thesis
    by (simp add: five_clicks_def numeral_eq_Suc)
qed

text \<open>
  C3. The rabbit is constructed, spawned and its mouse reaction enabled; then any
  sequence of events follows (pointer moves, clicks, completion signals, timeouts,
  frames). With a boost per click and a maximum that are not negative: the permanent
  glow bonus starts at 0, is never negative, never exceeds \<open>maxPermanentGlow\<close>, and no
  event decreases it; an event that is not a click leaves it unchanged; a click sets it
  to \<open>min (bonus + glowBoostPerClick) maxPermanentGlow\<close> when the distance from the
  click to the rendered bottom centre is below \<open>clickRadius\<close> and leaves it unchanged
  otherwise. Five clicks on the bottom centre with \<open>clickRadius = 50\<close>,
  \<open>glowBoostPerClick = 0.2\<close> and \<open>maxPermanentGlow = 1\<close> give a bonus of exactly 1.
\<close>

theorem permanentGlowBonus_invariant:
  assumes "0 \<le> glowBoostPerClick cfg" and "0 \<le> maxPermanentGlow cfg"
    and "\<forall>eo \<in> set evs. is_event (snd eo)"
    and "s = run cfg evs (mouse_ready opts x0 y0 parent th)"
  shows
    "permanentGlowBonus (mouse_ready opts x0 y0 parent th) = 0 \<and>
     0 \<le> permanentGlowBonus s \<and> permanentGlowBonus s \<le> maxPermanentGlow cfg \<and>
     (is_event op \<longrightarrow> permanentGlowBonus s \<le> permanentGlowBonus (step cfg (e, op) s)) \<and>
     (is_event op \<and> (\<forall>cx cy. op \<noteq> Click cx cy) \<longrightarrow>
        permanentGlowBonus (step cfg (e, op) s) = permanentGlowBonus s) \<and>
     permanentGlowBonus (step cfg (e, Click cx cy) s) =
       (if distance_less (getDistanceToBottomCenter e cx cy s) (clickRadius cfg)
        then min (permanentGlowBonus s + glowBoostPerClick cfg) (maxPermanentGlow cfg)
        else permanentGlowBonus s) \<and>
     getDistanceToBottomCenter e cx cy s =
       Finite (sqrt ((cx - (rect_left (boundingClientRect e) + rect_width (boundingClientRect e) / 2)) *
                     (cx - (rect_left (boundingClientRect e) + rect_width (boundingClientRect e) / 2)) +
                     (cy - rect_bottom (boundingClientRect e)) *
                     (cy - rect_bottom (boundingClientRect e)))) \<and>
     permanentGlowBonus five_clicks = 1"
proof -
  have ready: "click_ready cfg (threshold_of th) s"
    unfolding assms(4)
    by (rule run_click_ready [OF assms(1,2) click_ready_mouse_ready [OF assms(2)] assms(3)])
  then have bounds: "0 \<le> permanentGlowBonus s" "permanentGlowBonus s \<le> maxPermanentGlow cfg"
    "element s \<noteq> None"
    by (simp_all add: click_ready_def)
  have click: "permanentGlowBonus (step cfg (e, Click a b) s) =
       (if distance_less (getDistanceToBottomCenter e a b s) (clickRadius cfg)
        then min (permanentGlowBonus s + glowBoostPerClick cfg) (maxPermanentGlow cfg)
        else permanentGlowBonus s)" for a b
    by (simp add: step_Click_click_ready [OF ready] bonus_clickHandler_body)
  have other: "permanentGlowBonus (step cfg (e, op) s) = permanentGlowBonus s"
    if "is_event op" "\<forall>cx cy. op \<noteq> Click cx cy"
    using that by (rule step_other_click_ready [OF ready])
  have mono: "permanentGlowBonus s \<le> permanentGlowBonus (step cfg (e, op) s)" if "is_event op"
  proof (cases "\<forall>cx cy. op \<noteq> Click cx cy")
    case True
    with that other show ?thesis
      by simp
  next
    case False
    then obtain a b where "op = Click a b"
      by auto
    with click [of a b] bounds assms(1) show ?thesis
      by (simp add: min_def)
  qed
  have dist: "getDistanceToBottomCenter e cx cy s =
       Finite (sqrt ((cx - (rect_left (boundingClientRect e) + rect_width (boundingClientRect e) / 2)) *
                     (cx - (rect_left (boundingClientRect e) + rect_width (boundingClientRect e) / 2)) +
                     (cy - rect_bottom (boundingClientRect e)) *
                     (cy - rect_bottom (boundingClientRect e))))"
    using bounds(3) by (simp add: getDistanceToBottomCenter_def Let_def)
  from bounds click [of cx cy] other mono dist five_clicks_bonus show ?thesis
    by (simp add: mouse_ready_facts)
qed

theorem permanentGlowBonus_invariant_witness:
  "permanentGlowBonus
     (run example_glow
        [(viewport 1000 0, MouseMove 64 800), (viewport 1000 0, Click 64 800),
         (viewport 1000 0, AnimationEnd ''rabbit-jump-sprite''), (viewport 1000 0, Click 500 10)]
        (mouse_ready default_options 100 0 DocumentBody None)) \<le> 1 \<and>
   permanentGlowBonus
     (step example_glow (viewport 1000 0, Click 64 800)
        (mouse_ready default_options 100 0 DocumentBody None)) = 1 / 5 \<and>
   permanentGlowBonus
     (step example_glow (viewport 1000 0, MouseMove 64 800)
        (mouse_ready default_options 100 0 DocumentBody None)) = 0 \<and>
   permanentGlowBonus five_clicks = 1"
proof -
  have c: "0 \<le> glowBoostPerClick example_glow" "0 \<le> maxPermanentGlow example_glow"
    "maxPermanentGlow example_glow = 1" "glowBoostPerClick example_glow = 1 / 5"
    "clickRadius example_glow = 50"
    by (simp_all add: example_glow_def)
  have v: "boundingClientRect (viewport 1000 0) = \<lparr>rect_left = 0, rect_width = 128, rect_bottom = 800\<rparr>"
    by (simp add: viewport_def)
  have a: "\<forall>eo \<in> set [(viewport 1000 0, MouseMove 64 800), (viewport 1000 0, Click 64 800),
         (viewport 1000 0, AnimationEnd ''rabbit-jump-sprite''), (viewport 1000 0, Click 500 10)].
         is_event (snd eo)"
    by simp
  have b: "\<forall>eo \<in> set ([] :: (env \<times> op) list). is_event (snd eo)"
    by simp
  from permanentGlowBonus_invariant [OF c(1,2) a refl, of default_options 100 0 DocumentBody None]
    permanentGlowBonus_invariant [OF c(1,2) b refl, of default_options 100 0 DocumentBody None
      "MouseMove 64 800" "viewport 1000 0" 64 800]
  show ?thesis
    by (simp add: c v)
qed

end
